(* ===== verification/Prelude.thy ===== *)
theory Prelude
  imports Main "HOL-Library.Sublist" "HOL-Library.Word"
begin

text \<open>
  Shared vocabulary of the development. The program manipulates Rust \<open>String\<close>/\<open>&str\<close>
  values with a handful of standard-library operations (\<open>trim\<close>, \<open>split\<close>,
  \<open>split_whitespace\<close>, \<open>lines\<close>, \<open>trim_start_matches\<close>, \<open>trim_end_matches\<close>,
  \<open>starts_with\<close>, \<open>contains\<close>, \<open>to_string\<close> of integers). They are modelled here once,
  on \<open>string\<close> (a list of bytes: a Rust string is a UTF-8 byte sequence, and every
  operation below agrees byte-wise with the Rust one as long as the separators are ASCII,
  which they all are in the program; the Unicode-only whitespace code points
  U+0085, U+00A0, U+1680, U+2000.. are not recognised by \<open>is_whitespace\<close>).
  The section also names the machine-integer types and holds the generic lemmas the
  component theories share, collected in \<open>rust_str\<close>.
\<close>

named_theorems rust_str "characteristic equations of the modelled Rust str operations"

type_synonym u64 = "64 word"
type_synonym u32 = "32 word"
type_synonym u16 = "16 word"

text \<open>\<open>i64\<close> values are kept as their 64-bit pattern and read with \<open>sint\<close>.\<close>

type_synonym i64 = "64 word"

text \<open>
  The faults of the program: a panic (\<open>unwrap\<close> on \<open>None\<close>), a rejected MQTT publish, a
  failed file read, an \<open>anyhow::bail!\<close> with its message, and a failed Docker engine request
  (a \<open>bollard\<close> error). A fallible operation returns
  \<open>error + 'a\<close>, the error on the left.
\<close>

datatype error = Panic string | Transport | Io | Bail string | Engine

section \<open>Characters\<close>

text \<open>\<open>char::is_whitespace\<close> restricted to ASCII: space and U+0009..U+000D.\<close>

definition is_whitespace :: "char \<Rightarrow> bool" where
  "is_whitespace c \<longleftrightarrow> of_char c = (32::nat) \<or> (9 \<le> (of_char c :: nat) \<and> (of_char c :: nat) \<le> 13)"

definition is_ascii_digit :: "char \<Rightarrow> bool" where
  "is_ascii_digit c \<longleftrightarrow> 48 \<le> (of_char c :: nat) \<and> (of_char c :: nat) \<le> 57"

definition digit_char :: "nat \<Rightarrow> char" where
  "digit_char d = ''0123456789'' ! d"

text \<open>The string \<open>"\<degree>C"\<close> (unit of the CPU temperature, suffix of a \<open>sensors\<close> reading), as its UTF-8 bytes.\<close>

definition degree_c :: string where
  "degree_c = [CHR 0xC2, CHR 0xB0, CHR ''C'']"

section \<open>Trimming\<close>

text \<open>\<open>str::trim\<close>: whitespace removed at both ends.\<close>

definition trim :: "string \<Rightarrow> string" where
  "trim s = rev (dropWhile is_whitespace (rev (dropWhile is_whitespace s)))"

text \<open>\<open>trim_start_matches(c)\<close> and \<open>trim_end_matches(c)\<close> for a character pattern.\<close>

definition trim_start_matches_char :: "char \<Rightarrow> string \<Rightarrow> string" where
  "trim_start_matches_char c s = dropWhile (\<lambda>x. x = c) s"

definition trim_end_matches_char :: "char \<Rightarrow> string \<Rightarrow> string" where
  "trim_end_matches_char c s = rev (dropWhile (\<lambda>x. x = c) (rev s))"

text \<open>\<open>trim_matches(c)\<close>: the character removed at both ends.\<close>

definition trim_matches_char :: "char \<Rightarrow> string \<Rightarrow> string" where
  "trim_matches_char c s = trim_end_matches_char c (trim_start_matches_char c s)"

text \<open>
  \<open>trim_start_matches(p)\<close> for a string pattern: the prefix \<open>p\<close> is removed as often as
  it occurs. An empty pattern removes nothing (the Rust loop makes no progress on it and
  returns the input).
\<close>

function trim_start_matches :: "string \<Rightarrow> string \<Rightarrow> string" where
  "trim_start_matches p s =
     (if p \<noteq> [] \<and> prefix p s then trim_start_matches p (drop (length p) s) else s)"
  by pat_completeness auto
termination
  by (relation "measure (\<lambda>(p, s). length s)") (auto simp: prefix_def)

declare trim_start_matches.simps [simp del]

definition trim_end_matches :: "string \<Rightarrow> string \<Rightarrow> string" where
  "trim_end_matches p s = rev (trim_start_matches (rev p) (rev s))"

section \<open>Splitting\<close>

text \<open>
  \<open>split(pred)\<close>: the pieces between separators, empty pieces included; the
  empty string splits into one empty piece, as in Rust.
\<close>

fun split_by :: "(char \<Rightarrow> bool) \<Rightarrow> string \<Rightarrow> string list" where
  "split_by P [] = [[]]"
| "split_by P (c # cs) =
     (if P c then [] # split_by P cs
      else (case split_by P cs of [] \<Rightarrow> [[c]] | w # ws \<Rightarrow> (c # w) # ws))"

text \<open>\<open>split_whitespace\<close> is \<open>split(char::is_whitespace)\<close> without the empty pieces.\<close>

definition split_whitespace :: "string \<Rightarrow> string list" where
  "split_whitespace s = filter (\<lambda>w. w \<noteq> []) (split_by is_whitespace s)"

text \<open>
  \<open>str::lines\<close>: the text is split at \<open>'\n'\<close>; a line that ended in \<open>"\r\n"\<close> loses the
  \<open>'\r'\<close>; a final empty piece (text ending in a line feed, or the empty text) is not a line.
\<close>

definition strip_cr :: "string \<Rightarrow> string" where
  "strip_cr l = (if l \<noteq> [] \<and> last l = CHR 0x0D then butlast l else l)"

definition str_lines :: "string \<Rightarrow> string list" where
  "str_lines s =
     (let ls = split_by (\<lambda>c. c = CHR 0x0A) s
      in map strip_cr (butlast ls) @ (if last ls = [] then [] else [last ls]))"

text \<open>Joining pieces with a separator (the inverse of \<open>split\<close>, used in lemmas).\<close>

fun join_with :: "char \<Rightarrow> string list \<Rightarrow> string" where
  "join_with c [] = []"
| "join_with c [w] = w"
| "join_with c (w # v # ws) = w @ c # join_with c (v # ws)"

section \<open>Decimal printing\<close>

text \<open>\<open>to_string\<close> / \<open>format!("{}")\<close> of unsigned and signed integers.\<close>

fun show_nat :: "nat \<Rightarrow> string" where
  "show_nat n = (if n < 10 then [digit_char n] else show_nat (n div 10) @ [digit_char (n mod 10)])"

declare show_nat.simps [simp del]

definition show_int :: "int \<Rightarrow> string" where
  "show_int i = (if i < 0 then CHR ''-'' # show_nat (nat (- i)) else show_nat (nat i))"

text \<open>
  Texts built from lines and lines built from words, as the commands' output is laid out (used
  to state the parsers' properties).
\<close>

definition unlines :: "string list \<Rightarrow> string" where
  "unlines ls = concat (map (\<lambda>l. l @ [CHR 0x0A]) ls)"

definition words_ok :: "string list \<Rightarrow> bool" where
  "words_ok ws \<longleftrightarrow> (\<forall>w \<in> set ws. w \<noteq> [] \<and> (\<forall>x \<in> set w. \<not> is_whitespace x))"

section \<open>Generic lemmas\<close>

lemma split_by_not_Nil [simp]: "split_by P s \<noteq> []"
  by (induction s) (auto split: list.split)

lemma split_by_Cons_nonsep [rust_str]:
  "\<not> P c \<Longrightarrow> split_by P (c # cs) = (c # hd (split_by P cs)) # tl (split_by P cs)"
  by (cases "split_by P cs") auto

text \<open>Splitting and joining with the separator are inverse (round trip).\<close>

lemma split_by_join:
  "join_with c (split_by (\<lambda>x. x = c) s) = s"
proof (induction s)
  case Nil
  then show ?case by simp
next
  case (Cons a s)
  obtain w ws where ws: "split_by (\<lambda>x. x = c) s = w # ws"
    using split_by_not_Nil by (metis neq_Nil_conv)
  show ?case
  proof (cases "a = c")
    case True
    with Cons ws show ?thesis by simp
  next
    case False
    with Cons ws show ?thesis by (cases ws) auto
  qed
qed

lemma split_by_pieces: "w \<in> set (split_by P s) \<Longrightarrow> \<forall>x \<in> set w. \<not> P x"
proof (induction s arbitrary: w)
  case Nil
  then show ?case by simp
next
  case (Cons a s)
  then show ?case
    by (cases "split_by P s") (fastforce split: if_splits)+
qed

lemma split_by_no_sep [rust_str]: "\<forall>x \<in> set s. \<not> P x \<Longrightarrow> split_by P s = [s]"
  by (induction s) auto

lemma split_by_append_sep [rust_str]:
  "\<forall>x \<in> set u. \<not> P x \<Longrightarrow> P c \<Longrightarrow> split_by P (u @ c # v) = u # split_by P v"
  by (induction u) auto

lemma show_nat_digits: "\<forall>c \<in> set (show_nat n). is_ascii_digit c"
proof (induction n rule: show_nat.induct)
  case (1 n)
  have d: "\<And>d. d < 10 \<Longrightarrow> is_ascii_digit (digit_char d)"
    by (auto simp: is_ascii_digit_def digit_char_def less_Suc_eq numeral_eq_Suc)
  show ?case
    using "1" d by (subst show_nat.simps) auto
qed

lemma show_nat_not_Nil [simp]: "show_nat n \<noteq> []"
  by (subst show_nat.simps) simp

lemma trim_start_matches_Nil [simp, rust_str]: "trim_start_matches [] s = s"
  by (simp add: trim_start_matches.simps)

lemma trim_start_matches_no_prefix [rust_str]:
  "\<not> prefix p s \<Longrightarrow> trim_start_matches p s = s"
  by (simp add: trim_start_matches.simps)

lemma trim_start_matches_prefix [rust_str]:
  "p \<noteq> [] \<Longrightarrow> trim_start_matches p (p @ s) = trim_start_matches p s"
  by (simp add: trim_start_matches.simps)

lemma whitespace_chars: "is_whitespace CHR 0x0A" "is_whitespace CHR 0x0D" "is_whitespace CHR '' ''"
  by (simp_all add: is_whitespace_def)

lemma digit_not_whitespace: "is_ascii_digit c \<Longrightarrow> \<not> is_whitespace c"
  by (simp add: is_ascii_digit_def is_whitespace_def)

lemma digit_char_is_digit: "d < 10 \<Longrightarrow> is_ascii_digit (digit_char d)"
  by (auto simp: is_ascii_digit_def digit_char_def less_Suc_eq numeral_eq_Suc)

lemma show_nat_hd_digit: "is_ascii_digit (hd (show_nat n))"
  using show_nat_digits [of n] show_nat_not_Nil [of n] by (simp add: hd_in_set)

lemma show_nat_word: "\<forall>x \<in> set (show_nat k). \<not> is_whitespace x"
  using show_nat_digits [of k] digit_not_whitespace by blast

lemma show_nat_mult10: "0 < m \<Longrightarrow> show_nat (m * 10) = show_nat m @ ''0''"
  by (subst show_nat.simps) (simp add: digit_char_def)

lemma show_nat_pow10: "0 < m \<Longrightarrow> show_nat (m * 10 ^ k) = show_nat m @ replicate k (CHR ''0'')"
proof (induction k)
  case (Suc k)
  have e: "m * 10 ^ Suc k = m * 10 ^ k * 10" by simp
  have "show_nat (m * 10 ^ k * 10) = show_nat (m * 10 ^ k) @ ''0''"
    using Suc.prems by (intro show_nat_mult10) simp
  then show ?case
    unfolding e using Suc by (simp add: replicate_append_same)
qed simp

lemma trim_end_matches_suffix [rust_str]:
  assumes "p \<noteq> []" "\<not> suffix p x"
  shows "trim_end_matches p (x @ p) = x"
proof -
  have "trim_start_matches (rev p) (rev p @ rev x) = trim_start_matches (rev p) (rev x)"
    using assms(1) by (intro trim_start_matches_prefix) simp
  also have "\<dots> = rev x"
    using assms(2) by (intro trim_start_matches_no_prefix) (simp add: suffix_to_prefix)
  finally show ?thesis by (simp add: trim_end_matches_def)
qed

lemma find_first:
  "\<forall>x \<in> set pre. \<not> P x \<Longrightarrow> P y \<Longrightarrow> find P (pre @ y # post) = Some y"
  by (induction pre) auto

subsection \<open>Lines\<close>

lemma str_lines_Nil [simp]: "str_lines [] = []"
  by (simp add: str_lines_def)

lemma str_lines_line [rust_str]:
  assumes "CHR 0x0A \<notin> set h"
  shows "str_lines (h @ CHR 0x0A # t) = strip_cr h # str_lines t"
proof -
  have sp: "split_by (\<lambda>c. c = CHR 0x0A) (h @ CHR 0x0A # t) = h # split_by (\<lambda>c. c = CHR 0x0A) t"
    using assms by (intro split_by_append_sep) auto
  obtain w ws where "split_by (\<lambda>c. c = CHR 0x0A) t = w # ws"
    using split_by_not_Nil by (metis neq_Nil_conv)
  then show ?thesis by (simp add: str_lines_def sp Let_def)
qed

lemma str_lines_single [rust_str]:
  assumes "CHR 0x0A \<notin> set h" "h \<noteq> []"
  shows "str_lines h = [h]"
proof -
  have "split_by (\<lambda>c. c = CHR 0x0A) h = [h]"
    using assms(1) by (intro split_by_no_sep) auto
  then show ?thesis using assms(2) by (simp add: str_lines_def)
qed

lemma strip_cr_id: "h = [] \<or> last h \<noteq> CHR 0x0D \<Longrightarrow> strip_cr h = h"
  by (auto simp: strip_cr_def)

text \<open>Round trip: the lines of a text written line by line are those lines.\<close>

lemma str_lines_unlines:
  "\<forall>l \<in> set ls. CHR 0x0A \<notin> set l \<and> (l = [] \<or> last l \<noteq> CHR 0x0D) \<Longrightarrow> str_lines (unlines ls) = ls"
  by (induction ls) (simp_all add: unlines_def str_lines_line strip_cr_id)

subsection \<open>Words\<close>

lemma split_by_join_with:
  "\<forall>w \<in> set ws. \<forall>x \<in> set w. \<not> P x \<Longrightarrow> ws \<noteq> [] \<Longrightarrow> P c \<Longrightarrow> split_by P (join_with c ws) = ws"
proof (induction c ws rule: join_with.induct)
  case (2 c w)
  then show ?case by (simp add: split_by_no_sep)
next
  case (3 c w v ws)
  then show ?case by (simp add: split_by_append_sep)
qed simp

text \<open>Round trip: the words of words joined by spaces are those words.\<close>

lemma split_whitespace_join:
  assumes "\<forall>w \<in> set ws. w \<noteq> [] \<and> (\<forall>x \<in> set w. \<not> is_whitespace x)"
  shows "split_whitespace (join_with CHR '' '' ws) = ws"
proof (cases "ws = []")
  case False
  with assms whitespace_chars(3) show ?thesis
    by (simp add: split_whitespace_def split_by_join_with filter_id_conv)
qed (simp add: split_whitespace_def)

lemma join_with_chars: "x \<in> set (join_with c ws) \<Longrightarrow> x = c \<or> (\<exists>w \<in> set ws. x \<in> set w)"
  by (induction c ws rule: join_with.induct) auto

lemma join_with_last:
  "ws \<noteq> [] \<Longrightarrow> last ws \<noteq> [] \<Longrightarrow> join_with c ws \<noteq> [] \<and> last (join_with c ws) = last (last ws)"
  by (induction c ws rule: join_with.induct) auto

lemma join_with_hd: "w \<noteq> [] \<Longrightarrow> join_with c (w # ws) \<noteq> []"
  by (cases ws) auto

lemma words_ok_Cons [simp]:
  "words_ok (w # ws) \<longleftrightarrow> w \<noteq> [] \<and> (\<forall>x \<in> set w. \<not> is_whitespace x) \<and> words_ok ws"
  by (simp add: words_ok_def)

lemma words_ok_Nil [simp]: "words_ok []"
  by (simp add: words_ok_def)

lemma words_line:
  assumes "words_ok ws" "ws \<noteq> []"
  shows "CHR 0x0A \<notin> set (join_with CHR '' '' ws) \<and> join_with CHR '' '' ws \<noteq> [] \<and>
         last (join_with CHR '' '' ws) \<noteq> CHR 0x0D"
proof -
  have lw: "last ws \<noteq> []" "\<forall>x \<in> set (last ws). \<not> is_whitespace x"
    using assms(1) last_in_set [OF assms(2)] unfolding words_ok_def by blast+
  have "\<forall>w \<in> set ws. CHR 0x0A \<notin> set w"
    using assms(1) whitespace_chars(1) unfolding words_ok_def by blast
  then have nl: "CHR 0x0A \<notin> set (join_with CHR '' '' ws)"
    by (auto dest: join_with_chars)
  have "last (join_with CHR '' '' ws) \<in> set (last ws)"
    using join_with_last [OF assms(2) lw(1)] lw(1) by simp
  then have "\<not> is_whitespace (last (join_with CHR '' '' ws))" using lw(2) by blast
  then have cr: "last (join_with CHR '' '' ws) \<noteq> CHR 0x0D" by (metis whitespace_chars(2))
  obtain w ws' where "ws = w # ws'" using assms(2) by (cases ws) auto
  then have "join_with CHR '' '' ws \<noteq> []"
    using assms(1) join_with_hd by simp
  with nl cr show ?thesis by blast
qed

text \<open>A line of words followed by the end of the text or a line feed is the next line.\<close>

lemma str_lines_words:
  assumes "words_ok ws" "ws \<noteq> []" "tail = [] \<or> hd tail = CHR 0x0A"
  shows "\<exists>rest. str_lines (join_with CHR '' '' ws @ tail) = join_with CHR '' '' ws # rest"
proof -
  note l = words_line [OF assms(1,2)]
  show ?thesis
  proof (cases tail)
    case Nil
    then show ?thesis using l by (simp add: str_lines_single)
  next
    case (Cons c t)
    then show ?thesis using l assms(3) by (simp add: str_lines_line strip_cr_id)
  qed
qed

lemma no_degree_c: "CHR 0xC2 \<notin> set w \<Longrightarrow> \<not> sublist degree_c w"
  using set_mono_sublist by (fastforce simp: degree_c_def)

lemma trim_matches_char_wrap:
  assumes "v = [] \<or> (hd v \<noteq> c \<and> last v \<noteq> c)"
  shows "trim_matches_char c (c # v @ [c]) = v"
proof (cases "v = []")
  case True
  then show ?thesis by (simp add: trim_matches_char_def trim_start_matches_char_def trim_end_matches_char_def)
next
  case False
  with assms have h: "hd v \<noteq> c" "hd (rev v) \<noteq> c" by (simp_all add: hd_rev)
  have "dropWhile (\<lambda>x. x = c) (v @ [c]) = v @ [c]"
    using h(1) False by (simp add: dropWhile_eq_self_iff)
  moreover have "dropWhile (\<lambda>x. x = c) (rev v) = rev v"
    using h(2) by (simp add: dropWhile_eq_self_iff)
  ultimately show ?thesis
    by (simp add: trim_matches_char_def trim_start_matches_char_def trim_end_matches_char_def)
qed


text \<open>The two's-complement reading of a 64-bit sum between \<open>2^63\<close> and \<open>2^64\<close>.\<close>

lemma signed_take_bit_63_wrap:
  "2 ^ 63 \<le> k \<Longrightarrow> k < 2 ^ 64 \<Longrightarrow> signed_take_bit 63 (k :: int) = k - 2 ^ 64"
proof -
  assume "2 ^ 63 \<le> k" "k < 2 ^ 64"
  then have "(k + 2 ^ 63 - 2 ^ 64) mod 2 ^ 64 = k + 2 ^ 63 - (2 ^ 64 :: int)"
    by (intro mod_pos_pos_trivial) simp_all
  then have "(k + 2 ^ 63) mod 2 ^ 64 = k + 2 ^ 63 - (2 ^ 64 :: int)"
    by (simp only: minus_mod_self2)
  then show ?thesis by (simp add: signed_take_bit_eq_take_bit_shift take_bit_eq_mod)
qed

end
