(* ===== verification/Sensor.thy ===== *)
theory Sensor
  imports Prelude "HOL-Library.AList"
begin

text \<open>
  The sensor data model of \<open>src/config.rs\<close>: the \<open>DeviceClass\<close> vocabulary with its
  serde names, the reporter variants (\<open>SensorReporterType\<close> and the stat enums) as
  descriptors, the \<open>Sensor\<close>, \<open>SensorConfig\<close> (override patch) and \<open>CommandSensor\<close>
  structs as records, the tagged union \<open>Sensors\<close> of a configuration entry, and the
  operations of \<open>impl Sensor\<close>: \<open>merge\<close>, \<open>sensor_topic\<close>, \<open>discovery_topic\<close>,
  \<open>disovery_config\<close> (the source's spelling), and \<open>From<&CommandSensor> for Sensor\<close>.
  Closures stored in a \<open>CommandSensorReporter\<close> are defunctionalised into the datatype
  \<open>transform\<close>; their behaviour is given in theory \<open>Transforms\<close>.
\<close>

section \<open>Device classes\<close>

datatype device_class =
    Date
  | Enum
  | Timestamp
  | ApparentPower
  | Aqi
  | Area
  | AtmosphericPressure
  | Battery
  | BloodGlucoseConcentration
  | CarbonMonoxide
  | CarbonDioxide
  | Conductivity
  | Current
  | DataRate
  | DataSize
  | Distance
  | Duration
  | Energy
  | EnergyDistance
  | EnergyStorage
  | Frequency
  | Gas
  | Humidity
  | Illuminance
  | Irradiance
  | Moisture
  | Monetary
  | NitrogenDioxide
  | NitrogenMonoxide
  | NitrousOxide
  | Ozone
  | Ph
  | Pm1
  | Pm10
  | Pm25
  | PowerFactor
  | Power
  | Precipitation
  | PrecipitationIntensity
  | Pressure
  | ReactiveEnergy
  | ReactivePower
  | SignalStrength
  | SoundPressure
  | Speed
  | SulphurDioxide
  | Temperature
  | VolatileOrganicCompounds
  | VolatileOrganicCompoundsParts
  | Voltage
  | Volume
  | VolumeStorage
  | VolumeFlowRate
  | Water
  | Weight
  | WindDirection
  | WindSpeed

fun device_class_str :: "device_class \<Rightarrow> string" where
  "device_class_str Date = ''date''"
| "device_class_str Enum = ''enum''"
| "device_class_str Timestamp = ''timestamp''"
| "device_class_str ApparentPower = ''apparent_power''"
| "device_class_str Aqi = ''aqi''"
| "device_class_str Area = ''area''"
| "device_class_str AtmosphericPressure = ''atmospheric_pressure''"
| "device_class_str Battery = ''battery''"
| "device_class_str BloodGlucoseConcentration = ''blood_glucose_concentration''"
| "device_class_str CarbonMonoxide = ''carbon_monoxide''"
| "device_class_str CarbonDioxide = ''carbon_dioxide''"
| "device_class_str Conductivity = ''conductivity''"
| "device_class_str Current = ''current''"
| "device_class_str DataRate = ''data_rate''"
| "device_class_str DataSize = ''data_size''"
| "device_class_str Distance = ''distance''"
| "device_class_str Duration = ''duration''"
| "device_class_str Energy = ''energy''"
| "device_class_str EnergyDistance = ''energy_distance''"
| "device_class_str EnergyStorage = ''energy_storage''"
| "device_class_str Frequency = ''frequency''"
| "device_class_str Gas = ''gas''"
| "device_class_str Humidity = ''humidity''"
| "device_class_str Illuminance = ''illuminance''"
| "device_class_str Irradiance = ''irradiance''"
| "device_class_str Moisture = ''moisture''"
| "device_class_str Monetary = ''monetary''"
| "device_class_str NitrogenDioxide = ''nitrogen_dioxide''"
| "device_class_str NitrogenMonoxide = ''nitrogen_monoxide''"
| "device_class_str NitrousOxide = ''nitrous_oxide''"
| "device_class_str Ozone = ''ozone''"
| "device_class_str Ph = ''ph''"
| "device_class_str Pm1 = ''pm1''"
| "device_class_str Pm10 = ''pm10''"
| "device_class_str Pm25 = ''pm25''"
| "device_class_str PowerFactor = ''power_factor''"
| "device_class_str Power = ''power''"
| "device_class_str Precipitation = ''precipitation''"
| "device_class_str PrecipitationIntensity = ''precipitation_intensity''"
| "device_class_str Pressure = ''pressure''"
| "device_class_str ReactiveEnergy = ''reactive_energy''"
| "device_class_str ReactivePower = ''reactive_power''"
| "device_class_str SignalStrength = ''signal_strength''"
| "device_class_str SoundPressure = ''sound_pressure''"
| "device_class_str Speed = ''speed''"
| "device_class_str SulphurDioxide = ''sulphur_dioxide''"
| "device_class_str Temperature = ''temperature''"
| "device_class_str VolatileOrganicCompounds = ''volatile_organic_compounds''"
| "device_class_str VolatileOrganicCompoundsParts = ''volatile_organic_compounds_parts''"
| "device_class_str Voltage = ''voltage''"
| "device_class_str Volume = ''volume''"
| "device_class_str VolumeStorage = ''volume_storage''"
| "device_class_str VolumeFlowRate = ''volume_flow_rate''"
| "device_class_str Water = ''water''"
| "device_class_str Weight = ''weight''"
| "device_class_str WindDirection = ''wind_direction''"
| "device_class_str WindSpeed = ''wind_speed''"

section \<open>Reporter descriptors\<close>

datatype system_stat = MemoryUsage | MemoryUsed | MemoryTotal | CpuUsage | Uptime

datatype docker_stat = ImagesCount | ImagesSize | VolumesCount | RunningCount | UnhealthyCount

text \<open>\<open>DockerContainerSensorReporterStat\<close>; the prefix avoids the clash with \<open>system_stat\<close>.\<close>

datatype container_stat = ContainerCpuUsage | ContainerMemoryUsage | ContainerStatus

datatype post_process =
    TrimWhitespace | ParseFloat | ParseInteger | ExtractNumber | ToUpperCase | ToLowerCase

text \<open>
  The closures the program stores in \<open>CommandSensorReporter.transform\<close>: one per
  \<open>PostProcess\<close> variant, the identity closure built for an absent \<open>post_process\<close>,
  and the five closures of the built-in catalogue (disk usage, total, available, CPU
  temperature, array status).
\<close>

datatype transform =
    Post post_process
  | PassThrough
  | DiskUsagePercent
  | DiskTotal
  | DiskAvailable
  | CpuTemp
  | ArrayStatus

record command_reporter =
  command :: string
  args :: "string list option"
  transform :: "transform option"

text \<open>The fields of bollard's \<open>ContainerSummary\<close> the program reads.\<close>

record container_summary =
  cs_id :: "string option"
  cs_names :: "string list option"
  cs_status :: "string option"

text \<open>
  The \<open>stats_stash\<close> of a container reporter is an \<open>Arc<Mutex<Option<_>>>\<close> shared by
  the three sensors of one container; it is modelled as a reference into an explicit
  store (theory \<open>Reporters\<close>), so that the sharing is visible.
\<close>

type_synonym stash_ref = nat

datatype reporter =
    System system_stat
  | Command command_reporter
  | DockerContainer container_summary stash_ref container_stat
  | Docker docker_stat

section \<open>Sensors, overrides and command sensors\<close>

record sensor =
  s_id :: string
  s_name :: string
  s_unit :: "string option"
  s_device_class :: "device_class option"
  s_icon :: "string option"
  s_disabled :: bool
  s_reporter :: "reporter option"

record sensor_config =
  c_id :: string
  c_name :: "string option"
  c_unit :: "string option"
  c_device_class :: "device_class option"
  c_icon :: "string option"
  c_disabled :: bool

record command_sensor =
  cmd_id :: string
  cmd_name :: string
  cmd_unit :: "string option"
  cmd_device_class :: "device_class option"
  cmd_icon :: "string option"
  cmd_command :: string
  cmd_args :: "string list option"
  cmd_post_process :: "post_process option"
  cmd_disabled :: bool

text \<open>
  \<open>enum Sensors\<close>, tagged by \<open>type = "override"\<close> / \<open>type = "command"\<close>. A configuration
  (\<open>Config.sensors\<close>, a \<open>HashMap\<close>) is an association list: its order stands for the
  unspecified iteration order of the hash map, and every theorem below holds for every order.
\<close>

datatype sensors = SensorOverride sensor_config | SensorCommand command_sensor

type_synonym config = "(string \<times> sensors) list"

text \<open>\<open>#[derive(Default)]\<close> of \<open>Sensor\<close>, the base of every \<open>..Default::default()\<close>.\<close>

definition default_sensor :: sensor where
  "default_sensor =
     \<lparr>s_id = [], s_name = [], s_unit = None, s_device_class = None, s_icon = None,
      s_disabled = False, s_reporter = None\<rparr>"

section \<open>Operations of a sensor\<close>

text \<open>\<open>Sensor::merge\<close>: the guard, then one conditional overwrite per field.\<close>

definition merge :: "sensor \<Rightarrow> sensor_config \<Rightarrow> sensor" where
  "merge s other =
     (if s_id s \<noteq> c_id other \<and> \<not> sublist ''_*_'' (c_id other) then s
      else
        let s1 = (case c_name other of Some n \<Rightarrow> s\<lparr>s_name := n\<rparr> | None \<Rightarrow> s);
            s2 = (if c_unit other \<noteq> None then s1\<lparr>s_unit := c_unit other\<rparr> else s1);
            s3 = (if c_device_class other \<noteq> None
                  then s2\<lparr>s_device_class := c_device_class other\<rparr> else s2);
            s4 = (if c_icon other \<noteq> None then s3\<lparr>s_icon := c_icon other\<rparr> else s3);
            s5 = (if c_disabled other then s4\<lparr>s_disabled := c_disabled other\<rparr> else s4)
        in s5)"

definition sensor_topic :: "sensor \<Rightarrow> string \<Rightarrow> string" where
  "sensor_topic s node_id = node_id @ ''/sensor/'' @ s_id s @ ''/state''"

definition discovery_topic :: "sensor \<Rightarrow> string \<Rightarrow> string \<Rightarrow> string" where
  "discovery_topic s discovery_prefix node_id =
     discovery_prefix @ ''/sensor/'' @ node_id @ ''/'' @ s_id s @ ''/config''"

text \<open>
  The part of \<open>serde_json::Value\<close> the program builds. An object is an association list
  with unique keys; \<open>config[k] = v\<close> on an object inserts or replaces \<open>k\<close>
  (\<open>AList.update\<close>). Key order is not observable in the published JSON document.
\<close>

datatype json = JNull | JBool bool | JStr string | JArr "json list" | JObj "(string \<times> json) list"

definition json_opt_str :: "string option \<Rightarrow> json" where
  "json_opt_str v = (case v of None \<Rightarrow> JNull | Some x \<Rightarrow> JStr x)"

text \<open>\<open>Value::get\<close> on an object, to read a rendered document back.\<close>

definition json_get :: "json \<Rightarrow> string \<Rightarrow> json option" where
  "json_get v k = (case v of JObj kvs \<Rightarrow> map_of kvs k | _ \<Rightarrow> None)"

definition disovery_config :: "sensor \<Rightarrow> string \<Rightarrow> string \<Rightarrow> json \<Rightarrow> json" where
  "disovery_config s device_name node_id device_info =
     (let c0 = [(''name'', JStr (device_name @ '' '' @ s_name s)),
                (''state_topic'', JStr (sensor_topic s node_id)),
                (''unique_id'', JStr (node_id @ ''_'' @ s_id s)),
                (''device'', device_info),
                (''unit_of_measurement'', json_opt_str (s_unit s))];
          c1 = (case s_device_class s of
                  Some dc \<Rightarrow> AList.update ''device_class'' (JStr (device_class_str dc)) c0
                | None \<Rightarrow> c0);
          c2 = (case s_icon s of
                  Some i \<Rightarrow> AList.update ''icon'' (JStr (''mdi:'' @ i)) c1
                | None \<Rightarrow> c1)
      in JObj c2)"

text \<open>The \<open>match command_sensor.post_process\<close> of \<open>From<&CommandSensor>\<close>.\<close>

definition command_transform :: "post_process option \<Rightarrow> transform" where
  "command_transform pp = (case pp of Some p \<Rightarrow> Post p | None \<Rightarrow> PassThrough)"

definition from_command :: "command_sensor \<Rightarrow> sensor" where
  "from_command c =
     \<lparr>s_id = cmd_id c, s_name = cmd_name c, s_unit = cmd_unit c,
      s_device_class = cmd_device_class c, s_icon = cmd_icon c, s_disabled = cmd_disabled c,
      s_reporter = Some (Command \<lparr>command = cmd_command c, args = cmd_args c,
                                  transform = Some (command_transform (cmd_post_process c))\<rparr>)\<rparr>"

text \<open>
  The dump (\<open>dump_sensors_toml\<close>): each sensor is written as
  \<open>SensorsDump::SensorOverride(Sensor)\<close> with the fields \<open>name\<close>, \<open>unit\<close>,
  \<open>device_class\<close>, \<open>icon\<close>, \<open>disabled\<close> (\<open>id\<close> and \<open>reporter\<close> are skipped, the id
  is the table key). Read back as a \<open>Config\<close>, the entry is this patch.
\<close>

definition dump_override :: "sensor \<Rightarrow> sensor_config" where
  "dump_override s =
     \<lparr>c_id = s_id s, c_name = Some (s_name s), c_unit = s_unit s,
      c_device_class = s_device_class s, c_icon = s_icon s, c_disabled = s_disabled s\<rparr>"

section \<open>Properties of merge, topics and discovery documents\<close>

text \<open>
  When the guard admits the patch, \<open>merge\<close> overwrites exactly the fields present in the
  patch, and \<open>disabled\<close> only towards \<open>true\<close>.
\<close>

lemma merge_applies:
  assumes "s_id s = c_id p \<or> sublist ''_*_'' (c_id p)"
  shows "merge s p =
    s\<lparr>s_name := (case c_name p of None \<Rightarrow> s_name s | Some n \<Rightarrow> n),
      s_unit := (case c_unit p of None \<Rightarrow> s_unit s | Some u \<Rightarrow> Some u),
      s_device_class := (case c_device_class p of None \<Rightarrow> s_device_class s | Some d \<Rightarrow> Some d),
      s_icon := (case c_icon p of None \<Rightarrow> s_icon s | Some i \<Rightarrow> Some i),
      s_disabled := (s_disabled s \<or> c_disabled p)\<rparr>"
  using assms
  by (auto simp: merge_def Let_def split: option.splits)

lemma merge_blocked: "s_id s \<noteq> c_id p \<Longrightarrow> \<not> sublist ''_*_'' (c_id p) \<Longrightarrow> merge s p = s"
  by (simp add: merge_def)

lemma merge_changes_only_matching:
  "merge s p \<noteq> s \<Longrightarrow> s_id s = c_id p \<or> sublist ''_*_'' (c_id p)"
  using merge_blocked by blast

lemma merge_id [simp]: "s_id (merge s p) = s_id s"
  by (auto simp: merge_def Let_def split: option.splits)

lemma merge_reporter [simp]: "s_reporter (merge s p) = s_reporter s"
  by (auto simp: merge_def Let_def split: option.splits)

lemma merge_absent_fields:
  "(c_name p = None \<longrightarrow> s_name (merge s p) = s_name s) \<and>
   (c_unit p = None \<longrightarrow> s_unit (merge s p) = s_unit s) \<and>
   (c_device_class p = None \<longrightarrow> s_device_class (merge s p) = s_device_class s) \<and>
   (c_icon p = None \<longrightarrow> s_icon (merge s p) = s_icon s) \<and>
   (\<not> c_disabled p \<longrightarrow> s_disabled (merge s p) = s_disabled s)"
  by (cases "s_id s = c_id p \<or> sublist ''_*_'' (c_id p)")
     (simp_all add: merge_applies merge_blocked)

lemma merge_idem: "merge (merge s p) p = merge s p"
  by (cases "s_id s = c_id p \<or> sublist ''_*_'' (c_id p)")
     (auto simp: merge_applies merge_blocked split: option.splits)

text \<open>C12: merge never turns disabled from true to false.\<close>

lemma merge_keeps_disabled: "s_disabled s \<Longrightarrow> s_disabled (merge s p)"
  by (cases "s_id s = c_id p \<or> sublist ''_*_'' (c_id p)")
     (simp_all add: merge_applies merge_blocked)

lemma merge_dump: "merge s (dump_override s) = s"
  by (simp add: merge_applies dump_override_def split: option.splits)

lemma sensor_topic_inj: "sensor_topic s n = sensor_topic t n \<Longrightarrow> s_id s = s_id t"
  by (simp add: sensor_topic_def)

lemma discovery_topic_inj:
  "discovery_topic s pfx n = discovery_topic t pfx n \<Longrightarrow> s_id s = s_id t"
  by (simp add: discovery_topic_def)

lemma disovery_config_fields:
  "json_get (disovery_config s d n info) ''name'' = Some (JStr (d @ '' '' @ s_name s)) \<and>
   json_get (disovery_config s d n info) ''state_topic'' = Some (JStr (sensor_topic s n)) \<and>
   json_get (disovery_config s d n info) ''unique_id'' = Some (JStr (n @ ''_'' @ s_id s)) \<and>
   json_get (disovery_config s d n info) ''device'' = Some info \<and>
   json_get (disovery_config s d n info) ''unit_of_measurement'' = Some (json_opt_str (s_unit s)) \<and>
   json_get (disovery_config s d n info) ''device_class'' =
     map_option (\<lambda>dc. JStr (device_class_str dc)) (s_device_class s) \<and>
   json_get (disovery_config s d n info) ''icon'' = map_option (\<lambda>i. JStr (''mdi:'' @ i)) (s_icon s)"
  by (auto simp: json_get_def disovery_config_def Let_def update_conv' split: option.splits)

end
