(* ===== verification/Override.thy ===== *)
theory Override
  imports Sensor
begin

text \<open>
  The override engine of \<open>UnraidStats::sensors\<close> (\<open>src/unraid_stats.rs\<close>, the loop after
  \<open>sensors.append\<close>): for every sensor of the list, the wildcard key \<open>star_id\<close> is looked
  up first and an override found there is merged, then the sensor's own id is looked up and
  merged; afterwards every \<open>type = "command"\<close> entry of the configuration is converted and
  appended. The configuration's keys become the entries' ids when it is read
  (\<open>deserialize_sensors\<close> in \<open>src/config.rs\<close>). The theory also states what the engine
  promises field by field (\<open>override_spec\<close>) and proves that the code implements it.
\<close>

section \<open>Reading the configuration\<close>

definition entry_id :: "sensors \<Rightarrow> string" where
  "entry_id e = (case e of SensorOverride u \<Rightarrow> c_id u | SensorCommand c \<Rightarrow> cmd_id c)"

text \<open>\<open>deserialize_sensors\<close>: every entry takes its table key as id.\<close>

definition deserialize_sensors :: "config \<Rightarrow> config" where
  "deserialize_sensors cfg =
     map (\<lambda>(k, e). (k, case e of
                         SensorOverride u \<Rightarrow> SensorOverride (u\<lparr>c_id := k\<rparr>)
                       | SensorCommand c \<Rightarrow> SensorCommand (c\<lparr>cmd_id := k\<rparr>))) cfg"

text \<open>A configuration as \<open>load_config\<close> produces it: unique keys, ids equal to keys.\<close>

definition wf_config :: "config \<Rightarrow> bool" where
  "wf_config cfg \<longleftrightarrow> distinct (map fst cfg) \<and> (\<forall>(k, e) \<in> set cfg. entry_id e = k)"

text \<open>\<open>sensor_config.sensors.get(k)\<close> matched against \<open>Some(Sensors::SensorOverride(update))\<close>.\<close>

definition patch_lookup :: "config \<Rightarrow> string \<Rightarrow> sensor_config option" where
  "patch_lookup cfg k = (case map_of cfg k of Some (SensorOverride u) \<Rightarrow> Some u | _ \<Rightarrow> None)"

section \<open>The engine\<close>

text \<open>
  The wildcard key: \<open>split('_')\<close>, then \<open>nth(0)\<close> and \<open>last()\<close> of the same iterator,
  so \<open>last()\<close> sees only the pieces after the first; with no \<open>'_'\<close> in the id it
  returns \<open>None\<close> and the key ends in \<open>"_*_"\<close>.
\<close>

definition star_id :: "string \<Rightarrow> string" where
  "star_id sid =
     (case split_by (\<lambda>c. c = CHR ''_'') sid of
        [] \<Rightarrow> ''_*_''
      | first # rest \<Rightarrow> first @ ''_*_'' @ (if rest = [] then [] else last rest))"

text \<open>One iteration of \<open>for sensor in sensors.iter_mut()\<close>.\<close>

definition override_sensor :: "config \<Rightarrow> sensor \<Rightarrow> sensor" where
  "override_sensor cfg s =
     (let s1 = (case map_of cfg (star_id (s_id s)) of
                  Some (SensorOverride u) \<Rightarrow> merge s u
                | _ \<Rightarrow> s)
      in (case map_of cfg (s_id s1) of
            Some (SensorOverride u) \<Rightarrow> merge s1 u
          | _ \<Rightarrow> s1))"

text \<open>\<open>for sensor in sensor_config.sensors.values()\<close>: the command entries, converted.\<close>

definition command_sensors :: "config \<Rightarrow> sensor list" where
  "command_sensors cfg =
     concat (map (\<lambda>(k, e). case e of SensorCommand c \<Rightarrow> [from_command c] | _ \<Rightarrow> []) cfg)"

definition apply_config :: "config option \<Rightarrow> sensor list \<Rightarrow> sensor list" where
  "apply_config sc ss =
     (case sc of None \<Rightarrow> ss | Some cfg \<Rightarrow> map (override_sensor cfg) ss @ command_sensors cfg)"

section \<open>What the engine promises\<close>

text \<open>
  The contract, field by field: a field takes the exact override's value if present, else
  the wildcard override's, else keeps its value; \<open>disabled\<close> becomes true if either
  override sets it; \<open>id\<close> and \<open>reporter\<close> never change.
\<close>

definition pick :: "'a option \<Rightarrow> 'a option \<Rightarrow> 'a \<Rightarrow> 'a" where
  "pick exact wild d = (case exact of Some x \<Rightarrow> x | None \<Rightarrow> (case wild of Some x \<Rightarrow> x | None \<Rightarrow> d))"

definition flag_of :: "sensor_config option \<Rightarrow> bool" where
  "flag_of p = (case p of Some u \<Rightarrow> c_disabled u | None \<Rightarrow> False)"

definition override_spec :: "config \<Rightarrow> sensor \<Rightarrow> sensor" where
  "override_spec cfg s =
     (let e = patch_lookup cfg (s_id s); w = patch_lookup cfg (star_id (s_id s))
      in s\<lparr>s_name := pick (Option.bind e c_name) (Option.bind w c_name) (s_name s),
           s_unit := pick (map_option Some (Option.bind e c_unit))
                       (map_option Some (Option.bind w c_unit)) (s_unit s),
           s_device_class := pick (map_option Some (Option.bind e c_device_class))
                       (map_option Some (Option.bind w c_device_class)) (s_device_class s),
           s_icon := pick (map_option Some (Option.bind e c_icon))
                       (map_option Some (Option.bind w c_icon)) (s_icon s),
           s_disabled := (s_disabled s \<or> flag_of w \<or> flag_of e)\<rparr>)"

definition command_keys :: "config \<Rightarrow> string list" where
  "command_keys cfg = concat (map (\<lambda>(k, e). case e of SensorCommand _ \<Rightarrow> [k] | _ \<Rightarrow> []) cfg)"

section \<open>Properties of the engine\<close>

lemma split_by_sep_last:
  "P c \<Longrightarrow> \<forall>x \<in> set b. \<not> P x \<Longrightarrow> \<exists>w ws. split_by P (m @ c # b) = w # ws @ [b]"
proof (induction m)
  case Nil
  then show ?case by (simp add: split_by_no_sep)
next
  case (Cons x m)
  then obtain w ws where "split_by P (m @ c # b) = w # ws @ [b]" by blast
  then show ?case by (cases "P x") auto
qed

lemma star_id_sep:
  "CHR ''_'' \<notin> set a \<Longrightarrow> star_id (a @ CHR ''_'' # r) =
     a @ ''_*_'' @ last (split_by (\<lambda>c. c = CHR ''_'') r)"
proof -
  assume "CHR ''_'' \<notin> set a"
  then have "\<forall>x \<in> set a. \<not> x = CHR ''_''" by auto
  then show ?thesis by (simp add: star_id_def split_by_append_sep)
qed

lemma star_id_form: "\<exists>f l. star_id x = f @ ''_*_'' @ l"
  by (auto simp: star_id_def split: list.split)

lemma star_id_has_star: "sublist ''_*_'' (star_id x)"
  using star_id_form by (metis sublist_appendI)

lemma patch_lookup_id: "wf_config cfg \<Longrightarrow> patch_lookup cfg k = Some u \<Longrightarrow> c_id u = k"
  by (fastforce simp: wf_config_def patch_lookup_def entry_id_def
      split: option.splits sensors.splits dest: map_of_SomeD)

lemma override_sensor_patch:
  "override_sensor cfg s =
     (let s1 = (case patch_lookup cfg (star_id (s_id s)) of Some u \<Rightarrow> merge s u | None \<Rightarrow> s)
      in case patch_lookup cfg (s_id s1) of Some u \<Rightarrow> merge s1 u | None \<Rightarrow> s1)"
  by (simp add: override_sensor_def patch_lookup_def Let_def split: option.split sensors.split)

lemma override_sensor_eq_spec:
  assumes wf: "wf_config cfg"
  shows "override_sensor cfg s = override_spec cfg s"
proof -
  have w: "\<And>u. patch_lookup cfg (star_id (s_id s)) = Some u \<Longrightarrow>
             s_id s = c_id u \<or> sublist ''_*_'' (c_id u)"
    using patch_lookup_id [OF wf] star_id_has_star by metis
  have e: "\<And>u. patch_lookup cfg (s_id s) = Some u \<Longrightarrow> s_id s = c_id u"
    using patch_lookup_id [OF wf] by metis
  show ?thesis
  proof (cases "patch_lookup cfg (star_id (s_id s))")
    case None
    with e show ?thesis
      by (cases "patch_lookup cfg (s_id s)")
         (auto simp: override_sensor_patch override_spec_def merge_applies pick_def flag_of_def Let_def
           split: option.split)
  next
    case (Some uw)
    with w e show ?thesis
      by (cases "patch_lookup cfg (s_id s)")
         (auto simp: override_sensor_patch override_spec_def merge_applies pick_def flag_of_def Let_def
           split: option.split)
  qed
qed

lemma override_sensor_id [simp]: "s_id (override_sensor cfg s) = s_id s"
  by (simp add: override_sensor_def Let_def split: option.split sensors.split)

lemma override_sensor_reporter [simp]: "s_reporter (override_sensor cfg s) = s_reporter s"
  by (simp add: override_sensor_def Let_def split: option.split sensors.split)

lemma command_sensors_ids:
  "\<forall>(k, e) \<in> set cfg. entry_id e = k \<Longrightarrow> map s_id (command_sensors cfg) = command_keys cfg"
  by (induction cfg)
     (auto simp: command_sensors_def command_keys_def from_command_def entry_id_def
       split: sensors.splits)

lemma length_command_sensors: "length (command_sensors cfg) = length (command_keys cfg)"
  by (induction cfg) (auto simp: command_sensors_def command_keys_def split: sensors.splits)

lemma command_keys_subset: "set (command_keys cfg) \<subseteq> set (map fst cfg)"
  by (induction cfg) (auto simp: command_keys_def split: sensors.splits)

lemma command_keys_distinct: "distinct (map fst cfg) \<Longrightarrow> distinct (command_keys cfg)"
proof (induction cfg)
  case Nil
  then show ?case by (simp add: command_keys_def)
next
  case (Cons x cfg)
  have "set (command_keys cfg) \<subseteq> set (map fst cfg)" by (rule command_keys_subset)
  with Cons show ?case
    by (cases x) (auto simp: command_keys_def split: sensors.splits)
qed

lemma apply_config_ids:
  "wf_config cfg \<Longrightarrow> map s_id (apply_config (Some cfg) ss) = map s_id ss @ command_keys cfg"
  by (simp add: apply_config_def wf_config_def command_sensors_ids comp_def)

text \<open>C1: The override engine implements its contract: exact override, else wildcard override, else the old value; disabled only turned on; command sensors appended.\<close>

lemma apply_config_refines:
  "wf_config cfg \<Longrightarrow> apply_config (Some cfg) ss = map (override_spec cfg) ss @ command_sensors cfg"
  by (simp add: apply_config_def override_sensor_eq_spec)

text \<open>C18: The final list has one sensor per built-in sensor plus one per command entry.\<close>

lemma apply_config_length:
  "length (apply_config (Some cfg) ss) = length ss + length (command_keys cfg)"
  by (simp add: apply_config_def length_command_sensors)

text \<open>C19: Sensor ids stay unique through the override engine when command keys are fresh.\<close>

lemma apply_config_distinct_ids:
  assumes "wf_config cfg" and "distinct (map s_id ss)"
    and "set (command_keys cfg) \<inter> s_id ` set ss = {}"
  shows "distinct (map s_id (apply_config (Some cfg) ss))"
proof -
  have "distinct (command_keys cfg)"
    using assms(1) command_keys_distinct by (auto simp: wf_config_def)
  with assms show ?thesis by (auto simp: apply_config_ids)
qed

text \<open>C20: A command entry keyed by a built-in id produces a duplicate id in the final list.\<close>

lemma apply_config_duplicate_id:
  assumes "wf_config cfg" and "k \<in> set (command_keys cfg)" and "k \<in> s_id ` set ss"
  shows "\<not> distinct (map s_id (apply_config (Some cfg) ss))"
  using assms by (auto simp: apply_config_ids)

text \<open>C3: An exact override of a field wins over a wildcard override of the same field.\<close>

lemma override_exact_name_wins:
  assumes "wf_config cfg" and "patch_lookup cfg (s_id s) = Some e" and "c_name e = Some n"
  shows "s_name (override_sensor cfg s) = n"
  using assms by (simp add: override_sensor_eq_spec override_spec_def pick_def Let_def)

lemma override_disabled:
  "wf_config cfg \<Longrightarrow> s_disabled (override_sensor cfg s) =
     (s_disabled s \<or> flag_of (patch_lookup cfg (star_id (s_id s))) \<or>
      flag_of (patch_lookup cfg (s_id s)))"
  by (simp add: override_sensor_eq_spec override_spec_def Let_def)

text \<open>C17: For an id without an underscore, star_id gives "{id}_*_" (the spec asks for "{id}_*_{id}").\<close>

lemma star_id_no_underscore: "CHR ''_'' \<notin> set x \<Longrightarrow> star_id x = x @ ''_*_''"
proof -
  assume "CHR ''_'' \<notin> set x"
  then have "\<forall>c \<in> set x. \<not> c = CHR ''_''" by auto
  then show ?thesis by (simp add: star_id_def split_by_no_sep)
qed

text \<open>C16: star_id keeps the first and the last underscore-separated segments around "_*_".\<close>

lemma star_id_segments:
  assumes "CHR ''_'' \<notin> set a" and "CHR ''_'' \<notin> set b"
  shows "star_id (a @ ''_'' @ b) = a @ ''_*_'' @ b \<and>
         star_id (a @ ''_'' @ m @ ''_'' @ b) = a @ ''_*_'' @ b"
proof -
  have nb: "\<forall>c \<in> set b. \<not> c = CHR ''_''" using assms(2) by auto
  obtain w ws where "split_by (\<lambda>c. c = CHR ''_'') (m @ CHR ''_'' # b) = w # ws @ [b]"
    using split_by_sep_last [OF _ nb] by blast
  then show ?thesis
    using star_id_sep [OF assms(1)] nb by (simp add: split_by_no_sep)
qed

lemma deserialize_sensors_wf:
  "distinct (map fst cfg) \<Longrightarrow> wf_config (deserialize_sensors cfg)"
proof -
  assume d: "distinct (map fst cfg)"
  have "map fst (deserialize_sensors cfg) = map fst cfg"
    by (induction cfg) (auto simp: deserialize_sensors_def)
  moreover have "\<forall>(k, e) \<in> set (deserialize_sensors cfg). entry_id e = k"
    by (auto simp: deserialize_sensors_def entry_id_def split: sensors.splits)
  ultimately show ?thesis using d by (simp add: wf_config_def)
qed

end
