(* ===== verification/Catalog.thy ===== *)
theory Catalog
  imports Override
begin

text \<open>
  The built-in catalogue of \<open>UnraidStats::sensors\<close> (\<open>src/unraid_stats.rs\<close>): the fifteen
  fixed sensors (host statistics, \<open>df\<close>-, \<open>sensor\<close>- and \<open>mdcmd\<close>-based command
  sensors, five Docker engine aggregates), then three sensors per running container built by
  \<open>container_sensors\<close>, then the override engine of theory \<open>Override\<close>. The list of
  running containers is the result of \<open>containers()\<close> (a Docker query, an input here:
  \<open>None\<close> is an engine error, which \<open>unwrap_or_default\<close> turns into no containers).
  Each container gets its own \<open>stats_stash\<close> cell, shared by its three sensors; the
  \<open>i\<close>-th container's cell is the store reference \<open>i\<close>.
\<close>

section \<open>The fixed sensors\<close>

definition cmd_reporter :: "string \<Rightarrow> string list option \<Rightarrow> transform \<Rightarrow> reporter" where
  "cmd_reporter c a t = Command \<lparr>command = c, args = a, transform = Some t\<rparr>"

definition builtin_sensors :: "sensor list" where
  "builtin_sensors =
    [default_sensor\<lparr>s_id := ''cpu_usage'', s_name := ''CPU Usage'', s_unit := Some ''%'',
       s_reporter := Some (System CpuUsage)\<rparr>,
     default_sensor\<lparr>s_id := ''memory_usage'', s_name := ''Memory Usage'', s_unit := Some ''%'',
       s_reporter := Some (System MemoryUsage)\<rparr>,
     default_sensor\<lparr>s_id := ''memory_total'', s_name := ''Memory Total'', s_unit := Some ''B'',
       s_device_class := Some DataSize, s_icon := Some ''memory'',
       s_reporter := Some (System MemoryTotal)\<rparr>,
     default_sensor\<lparr>s_id := ''memory_used'', s_name := ''Memory Used'', s_unit := Some ''B'',
       s_device_class := Some DataSize, s_icon := Some ''memory'',
       s_reporter := Some (System MemoryUsed)\<rparr>,
     default_sensor\<lparr>s_id := ''disk_usage'', s_name := ''Disk Usage'', s_unit := Some ''%'',
       s_reporter := Some (cmd_reporter ''df'' (Some [''-BM'', ''/mnt/user'']) DiskUsagePercent)\<rparr>,
     default_sensor\<lparr>s_id := ''disk_total'', s_name := ''Disk Total'', s_unit := Some ''B'',
       s_device_class := Some DataSize, s_icon := Some ''data_size'',
       s_reporter := Some (cmd_reporter ''df'' (Some [''/mnt/user'']) DiskTotal)\<rparr>,
     default_sensor\<lparr>s_id := ''disk_available'', s_name := ''Disk Available'', s_unit := Some ''B'',
       s_device_class := Some DataSize, s_icon := Some ''data_size'',
       s_reporter := Some (cmd_reporter ''df'' (Some [''/mnt/user'']) DiskAvailable)\<rparr>,
     default_sensor\<lparr>s_id := ''cpu_temp'', s_name := ''CPU Temperature'', s_unit := Some degree_c,
       s_device_class := Some Temperature,
       s_reporter := Some (cmd_reporter ''sensor'' None CpuTemp)\<rparr>,
     default_sensor\<lparr>s_id := ''uptime'', s_name := ''Uptime'', s_icon := Some ''duration'',
       s_reporter := Some (System Uptime)\<rparr>,
     default_sensor\<lparr>s_id := ''array_status'', s_name := ''Array Status'',
       s_reporter := Some (cmd_reporter ''mdcmd'' (Some [''status'']) ArrayStatus)\<rparr>,
     default_sensor\<lparr>s_id := ''docker_containers_running'', s_name := ''Docker Containers Running'',
       s_icon := Some ''docker'', s_reporter := Some (Docker RunningCount)\<rparr>,
     default_sensor\<lparr>s_id := ''docker_containers_unhealthy'',
       s_name := ''Docker Containers Unhealthy'',
       s_icon := Some ''docker'', s_reporter := Some (Docker UnhealthyCount)\<rparr>,
     default_sensor\<lparr>s_id := ''docker_images_count'', s_name := ''Docker Images'',
       s_icon := Some ''docker'', s_reporter := Some (Docker ImagesCount)\<rparr>,
     default_sensor\<lparr>s_id := ''docker_images_size'', s_name := ''Docker Images Size'',
       s_icon := Some ''data_size'', s_device_class := Some DataSize, s_unit := Some ''B'',
       s_reporter := Some (Docker ImagesSize)\<rparr>,
     default_sensor\<lparr>s_id := ''docker_volumes_count'', s_name := ''Docker Volumes'',
       s_icon := Some ''docker'', s_reporter := Some (Docker VolumesCount)\<rparr>]"

section \<open>Per-container sensors\<close>

text \<open>
  The container's name: the first entry of \<open>names\<close> without its leading \<open>'/'\<close>s, or
  \<open>"unknown"\<close> when there is no name.
\<close>

definition container_name :: "container_summary \<Rightarrow> string" where
  "container_name c =
     (case cs_names c of Some (n # _) \<Rightarrow> trim_start_matches_char (CHR ''/'') n | _ \<Rightarrow> ''unknown'')"

text \<open>\<open>format!("dockercontainer_{}{}", name, suffix)\<close>, the id pattern of the three sensors.\<close>

definition container_sensor_id :: "string \<Rightarrow> string \<Rightarrow> string" where
  "container_sensor_id n sfx = ''dockercontainer_'' @ n @ sfx"

definition container_sensors :: "string \<Rightarrow> stash_ref \<Rightarrow> container_summary \<Rightarrow> sensor list" where
  "container_sensors device_name stash c =
     (let n = container_name c in
      [default_sensor\<lparr>s_id := container_sensor_id n ''_cpu'',
         s_name := device_name @ '' Docker '' @ n @ '' CPU'',
         s_icon := Some ''mdi:cpu-64-bit'', s_unit := Some ''%'',
         s_reporter := Some (DockerContainer c stash ContainerCpuUsage)\<rparr>,
       default_sensor\<lparr>s_id := container_sensor_id n ''_memory'',
         s_name := device_name @ '' Docker '' @ n @ '' Memory'',
         s_icon := Some ''mdi:memory'', s_unit := Some ''B'', s_device_class := Some DataSize,
         s_reporter := Some (DockerContainer c stash ContainerMemoryUsage)\<rparr>,
       default_sensor\<lparr>s_id := container_sensor_id n ''_uptime'',
         s_name := device_name @ '' Docker '' @ n @ '' Uptime'',
         s_icon := Some ''mdi:docker'',
         s_reporter := Some (DockerContainer c stash ContainerStatus)\<rparr>])"

text \<open>
  \<open>containers().await.unwrap_or_default().into_iter().flat_map(container_sensors)\<close>, each
  container with a fresh cell.
\<close>

definition container_list :: "string \<Rightarrow> container_summary list option \<Rightarrow> sensor list" where
  "container_list device_name cs =
     concat (map (\<lambda>(i, c). container_sensors device_name i c)
                 (enumerate 0 (case cs of None \<Rightarrow> [] | Some l \<Rightarrow> l)))"

text \<open>The ids of one container's three sensors.\<close>

definition container_ids :: "string \<Rightarrow> string list" where
  "container_ids n = map (container_sensor_id n) [''_cpu'', ''_memory'', ''_uptime'']"

text \<open>\<open>UnraidStats::sensors\<close>: the catalogue, then the configuration applied to it.\<close>

definition catalog :: "string \<Rightarrow> container_summary list option \<Rightarrow> sensor list" where
  "catalog device_name cs = builtin_sensors @ container_list device_name cs"

definition unraid_sensors :: "string \<Rightarrow> container_summary list option \<Rightarrow> config option \<Rightarrow> sensor list" where
  "unraid_sensors device_name cs sc = apply_config sc (catalog device_name cs)"

section \<open>Properties of the catalogue\<close>

lemma container_sensors_ids: "map s_id (container_sensors d i c) = container_ids (container_name c)"
  by (simp add: container_sensors_def container_ids_def default_sensor_def Let_def)

lemma container_list_ids_enum:
  "map s_id (concat (map (\<lambda>(i, c). container_sensors d i c) (enumerate k l))) =
   concat (map (\<lambda>c. container_ids (container_name c)) l)"
  by (induction l arbitrary: k) (auto simp: container_sensors_ids)

lemma container_list_ids:
  "map s_id (container_list d (Some l)) = concat (map (\<lambda>c. container_ids (container_name c)) l)"
  by (simp add: container_list_def container_list_ids_enum)

lemma container_suffix_inj:
  assumes "x \<in> {''_cpu'', ''_memory'', ''_uptime''}" and "y \<in> {''_cpu'', ''_memory'', ''_uptime''}"
    and "n @ x = m @ y"
  shows "n = m \<and> x = y"
proof -
  have ne: "x \<noteq> []" "y \<noteq> []" using assms(1,2) by auto
  have "last x = last y"
    using arg_cong [OF assms(3), of last] ne by simp
  then have "x = y" using assms(1,2) by auto
  with assms(3) show ?thesis by simp
qed

lemma container_sensor_id_inj:
  assumes "x \<in> {''_cpu'', ''_memory'', ''_uptime''}" and "y \<in> {''_cpu'', ''_memory'', ''_uptime''}"
    and "container_sensor_id n x = container_sensor_id m y"
  shows "n = m \<and> x = y"
  using assms(3) container_suffix_inj [OF assms(1,2)] by (simp add: container_sensor_id_def)

lemma container_ids_inter:
  assumes "n \<noteq> m"
  shows "set (container_ids n) \<inter> set (container_ids m) = {}"
proof -
  have "\<forall>x \<in> {''_cpu'', ''_memory'', ''_uptime''}. \<forall>y \<in> {''_cpu'', ''_memory'', ''_uptime''}.
          container_sensor_id n x \<noteq> container_sensor_id m y"
    using container_sensor_id_inj assms by blast
  then show ?thesis unfolding container_ids_def by auto
qed

lemma container_ids_distinct: "distinct (container_ids n)"
proof -
  have "inj_on (container_sensor_id n) {''_cpu'', ''_memory'', ''_uptime''}"
    using container_sensor_id_inj by (meson inj_onI)
  then show ?thesis unfolding container_ids_def by (simp add: distinct_map)
qed

lemma builtin_ids:
  "map s_id builtin_sensors =
    [''cpu_usage'', ''memory_usage'', ''memory_total'', ''memory_used'', ''disk_usage'',
     ''disk_total'', ''disk_available'', ''cpu_temp'', ''uptime'', ''array_status'',
     ''docker_containers_running'', ''docker_containers_unhealthy'', ''docker_images_count'',
     ''docker_images_size'', ''docker_volumes_count'']"
  by (simp add: builtin_sensors_def default_sensor_def)

lemma builtin_not_container:
  "\<forall>x \<in> set (map s_id builtin_sensors). \<not> prefix ''dockercontainer_'' x"
  unfolding builtin_ids by (simp add: prefix_Cons)

lemma concat_container_ids_distinct:
  "distinct ns \<Longrightarrow> distinct (concat (map container_ids ns))"
proof (induction ns)
  case Nil
  then show ?case by simp
next
  case (Cons n ns)
  from Cons.prems have "n \<notin> set ns" by simp
  then have "\<forall>m \<in> set ns. set (container_ids n) \<inter> set (container_ids m) = {}"
    using container_ids_inter by metis
  then have "set (container_ids n) \<inter> set (concat (map container_ids ns)) = {}"
    by auto
  with Cons show ?case by (simp add: container_ids_distinct)
qed

lemma builtin_sensors_wf:
  "distinct (map s_id builtin_sensors) \<and>
   (\<forall>s \<in> set builtin_sensors. s_id s \<noteq> [] \<and> s_reporter s \<noteq> None \<and> \<not> s_disabled s)"
proof
  show "distinct (map s_id builtin_sensors)" unfolding builtin_ids by simp
  show "\<forall>s \<in> set builtin_sensors. s_id s \<noteq> [] \<and> s_reporter s \<noteq> None \<and> \<not> s_disabled s"
    by (simp add: builtin_sensors_def default_sensor_def)
qed

text \<open>C21: Built-in and container sensor ids are unique when container names are distinct.\<close>

lemma catalog_ids_distinct:
  assumes "distinct (map container_name l)"
  shows "distinct (map s_id (catalog d (Some l)))"
proof -
  have c: "distinct (map s_id (container_list d (Some l)))"
    using concat_container_ids_distinct [OF assms]
    by (simp add: container_list_ids map_map comp_def)
  have "\<forall>x \<in> set (map s_id (container_list d (Some l))). prefix ''dockercontainer_'' x"
    by (auto simp: container_list_ids container_ids_def container_sensor_id_def)
  then have "set (map s_id builtin_sensors) \<inter> set (map s_id (container_list d (Some l))) = {}"
    using builtin_not_container by blast
  with c builtin_sensors_wf show ?thesis by (simp add: catalog_def)
qed

text \<open>C22: Two unnamed containers produce duplicate sensor ids.\<close>

lemma catalog_unnamed_duplicate:
  assumes "cs_names c1 = None" and "cs_names c2 = None"
  shows "\<not> distinct (map s_id (catalog d (Some [c1, c2])))"
  using assms by (simp add: catalog_def container_list_ids container_ids_def container_name_def)

lemma container_sensors_stash:
  "s \<in> set (container_sensors d i c) \<Longrightarrow> \<exists>st. s_reporter s = Some (DockerContainer c i st)"
  by (auto simp: container_sensors_def Let_def default_sensor_def)

lemma container_list_stash:
  "s \<in> set (container_list d (Some l)) \<Longrightarrow>
   \<exists>i st. i < length l \<and> s_reporter s = Some (DockerContainer (l ! i) i st)"
  by (fastforce simp: container_list_def in_set_enumerate_eq dest: container_sensors_stash)

text \<open>Whatever underscores the container name holds, the wildcard key of a container sensor
  is \<open>dockercontainer_*_\<close> and the suffix.\<close>

lemma star_id_container:
  assumes "CHR ''_'' \<notin> set x"
  shows "star_id (container_sensor_id n (CHR ''_'' # x)) = ''dockercontainer_*_'' @ x"
proof -
  have nx: "\<forall>c \<in> set x. \<not> c = CHR ''_''" using assms by auto
  obtain w ws where "split_by (\<lambda>c. c = CHR ''_'') (n @ CHR ''_'' # x) = w # ws @ [x]"
    using split_by_sep_last [OF _ nx] by blast
  moreover have "CHR ''_'' \<notin> set ''dockercontainer''" by simp
  ultimately show ?thesis
    using star_id_sep [of "''dockercontainer''" "n @ CHR ''_'' # x"]
    by (simp add: container_sensor_id_def)
qed

end
