(* ===== verification/CpuStats.thy ===== *)
theory CpuStats
  imports Prelude Complex_Main
begin

text \<open>
  \<open>calculate_cpu_percent\<close> (\<open>src/config.rs\<close>) over the part of bollard's
  \<open>ContainerStatsResponse\<close> it reads. The engine's counters are \<open>u64\<close>
  (\<open>total_usage\<close>, \<open>system_cpu_usage\<close>) and \<open>u32\<close> (\<open>online_cpus\<close>); they are
  \<open>64 word\<close> / \<open>32 word\<close> here, so the two subtractions wrap around as in a release build
  (a debug build panics instead; \<open>sub_overflows\<close> says when). Absent fields read as \<open>0\<close>
  (\<open>unwrap_or_default\<close>). The result is an \<open>f64\<close>; it is modelled as the exact real
  quotient, i.e. the rounding of \<open>u64 as f64\<close> and of the float operations is not modelled.
\<close>

record cpu_usage =
  total_usage :: "u64 option"

record cpu_stats =
  cpu_usage :: "cpu_usage option"
  system_cpu_usage :: "u64 option"
  online_cpus :: "u32 option"

record stats_response =
  cpu_stats :: "cpu_stats option"
  precpu_stats :: "cpu_stats option"
  memory_usage :: "u64 option"

definition unwrap_or_default :: "'a::zero option \<Rightarrow> 'a" where
  "unwrap_or_default v = (case v of None \<Rightarrow> 0 | Some x \<Rightarrow> x)"

text \<open>\<open>stats.as_ref().and_then(|c| c.cpu_usage.as_ref().and_then(|c| c.total_usage))\<close>.\<close>

definition total_of :: "cpu_stats option \<Rightarrow> u64" where
  "total_of c = unwrap_or_default (Option.bind c (\<lambda>c. Option.bind (cpu_usage c) total_usage))"

definition system_of :: "cpu_stats option \<Rightarrow> u64" where
  "system_of c = unwrap_or_default (Option.bind c system_cpu_usage)"

definition cpu_delta :: "stats_response \<Rightarrow> u64" where
  "cpu_delta st = total_of (cpu_stats st) - total_of (precpu_stats st)"

definition system_delta :: "stats_response \<Rightarrow> u64" where
  "system_delta st = system_of (cpu_stats st) - system_of (precpu_stats st)"

definition calculate_cpu_percent :: "stats_response \<Rightarrow> real" where
  "calculate_cpu_percent st =
     (if 0 < system_delta st \<and> 0 < cpu_delta st then
        let cpu_count = real (unat (unwrap_or_default (Option.bind (cpu_stats st) online_cpus)))
        in (real (unat (cpu_delta st)) / real (unat (system_delta st))) * cpu_count * 100
      else 0)"

text \<open>A subtraction \<open>a - b\<close> of \<open>u64\<close> overflows (panics in a debug build) iff \<open>a < b\<close>.\<close>

definition sub_overflows :: "u64 \<Rightarrow> u64 \<Rightarrow> bool" where
  "sub_overflows a b \<longleftrightarrow> unat a < unat b"

text \<open>A sample built from the four counters and the CPU count.\<close>

definition sample :: "u64 \<Rightarrow> u64 \<Rightarrow> u64 \<Rightarrow> u64 \<Rightarrow> u32 \<Rightarrow> stats_response" where
  "sample cur_total pre_total cur_sys pre_sys cpus =
     \<lparr>cpu_stats = Some \<lparr>cpu_usage = Some \<lparr>total_usage = Some cur_total\<rparr>,
                         system_cpu_usage = Some cur_sys, online_cpus = Some cpus\<rparr>,
      precpu_stats = Some \<lparr>cpu_usage = Some \<lparr>total_usage = Some pre_total\<rparr>,
                         system_cpu_usage = Some pre_sys, online_cpus = None\<rparr>,
      memory_usage = None\<rparr>"

section \<open>Properties of the CPU percentage\<close>

text \<open>Reals read from \<open>unat\<close> stay in that form in the proofs below.\<close>

declare of_nat_unat [simp del]


lemma scale_bounds: "(0::real) \<le> a \<Longrightarrow> a \<le> n \<Longrightarrow> c = a * 100 \<Longrightarrow> 0 \<le> c \<and> c \<le> 100 * n"
  by linarith

lemma scale_above: "(n::real) < a \<Longrightarrow> c = a * 100 \<Longrightarrow> 100 * n < c"
  by linarith

lemma cpu_percent_zero_guard:
  "cpu_delta st = 0 \<or> system_delta st = 0 \<Longrightarrow> calculate_cpu_percent st = 0"
  by (auto simp: calculate_cpu_percent_def)

lemma cpu_percent_example: "calculate_cpu_percent (sample 150 100 1100 1000 4) = 200"
  by (simp add: calculate_cpu_percent_def cpu_delta_def system_delta_def sample_def
      total_of_def system_of_def unwrap_or_default_def)

text \<open>C29: The CPU percentage lies in [0, 100 * online_cpus] when the CPU delta is at most the system delta.\<close>

lemma cpu_percent_bounds:
  assumes "unat (cpu_delta st) \<le> unat (system_delta st)"
  shows "0 \<le> calculate_cpu_percent st \<and>
         calculate_cpu_percent st \<le> 100 * real (unat (unwrap_or_default (Option.bind (cpu_stats st) online_cpus)))"
proof (cases "0 < system_delta st \<and> 0 < cpu_delta st")
  case True
  let ?n = "real (unat (unwrap_or_default (Option.bind (cpu_stats st) online_cpus)))"
  have sd0: "0 < unat (system_delta st)" using True unat_gt_0 word_gt_0 by metis
  then have sd: "0 < real (unat (system_delta st))" by (simp only: of_nat_0_less_iff)
  have q: "real (unat (cpu_delta st)) / real (unat (system_delta st)) \<le> 1"
    using assms sd by (simp add: divide_le_eq_1 del: of_nat_unat)
  have q0: "0 \<le> real (unat (cpu_delta st)) / real (unat (system_delta st))"
    by (simp only: of_nat_0_le_iff divide_nonneg_nonneg)
  have "real (unat (cpu_delta st)) / real (unat (system_delta st)) * ?n \<le> ?n"
    by (rule mult_left_le_one_le [OF _ q0 q]) (simp del: of_nat_unat)
  moreover have "calculate_cpu_percent st =
      real (unat (cpu_delta st)) / real (unat (system_delta st)) * ?n * 100"
    using True by (simp add: calculate_cpu_percent_def Let_def del: of_nat_unat)
  moreover have "0 \<le> real (unat (cpu_delta st)) / real (unat (system_delta st)) * ?n"
    using q0 by (simp del: of_nat_unat)
  ultimately show ?thesis using scale_bounds by blast
next
  case False
  then show ?thesis by (auto simp: calculate_cpu_percent_def)
qed

lemma cpu_delta_wrap:
  assumes "sub_overflows (total_of (cpu_stats st)) (total_of (precpu_stats st))"
  shows "unat (cpu_delta st) =
           2 ^ 64 - (unat (total_of (precpu_stats st)) - unat (total_of (cpu_stats st)))"
  using assms unsigned_less [of "total_of (precpu_stats st)"]
  by (simp add: cpu_delta_def sub_overflows_def unat_sub_if')

text \<open>C30: A total-usage counter that goes backwards wraps around and yields more than 100 * online_cpus percent.\<close>

lemma cpu_percent_backwards_counter:
  assumes hback: "sub_overflows (total_of (cpu_stats st)) (total_of (precpu_stats st))"
    and hsmall: "unat (total_of (precpu_stats st)) - unat (total_of (cpu_stats st)) < 2 ^ 63"
    and sys: "system_delta st \<noteq> 0" "unat (system_delta st) < 2 ^ 63"
    and cpus: "unwrap_or_default (Option.bind (cpu_stats st) online_cpus) \<noteq> 0"
  shows "100 * real (unat (unwrap_or_default (Option.bind (cpu_stats st) online_cpus)))
           < calculate_cpu_percent st"
proof -
  let ?n = "real (unat (unwrap_or_default (Option.bind (cpu_stats st) online_cpus)))"
  have cd: "unat (system_delta st) < unat (cpu_delta st)"
    using cpu_delta_wrap [OF hback] hsmall sys(2) by simp
  then have cd0: "cpu_delta st \<noteq> 0" by auto
  have sd0: "0 < unat (system_delta st)" using sys(1) unat_gt_0 by metis
  have n0: "0 < ?n" using cpus unat_gt_0 by (metis of_nat_0_less_iff)
  have "1 < real (unat (cpu_delta st)) / real (unat (system_delta st))"
    using cd sd0 by (simp add: less_divide_eq_1 del: of_nat_unat)
  then have "?n < real (unat (cpu_delta st)) / real (unat (system_delta st)) * ?n"
    using mult_strict_right_mono [OF _ n0] by (metis mult.left_neutral)
  moreover have "0 < system_delta st \<and> 0 < cpu_delta st"
    using sys(1) cd0 word_gt_0 by metis
  then have "calculate_cpu_percent st =
      real (unat (cpu_delta st)) / real (unat (system_delta st)) * ?n * 100"
    by (simp add: calculate_cpu_percent_def Let_def del: of_nat_unat)
  ultimately show ?thesis using scale_above by blast
qed

end
