(* ===== verification/F64.thy ===== *)
theory F64
  imports Prelude
begin

text \<open>
  The two \<open>f64\<close> conversions the program applies to command output:
  \<open>str::parse::<f64>\<close> (Rust's \<open>dec2flt\<close> grammar) and \<open>Display\<close> (\<open>format!("{}")\<close>,
  \<open>to_string\<close>), plus the fixed one-decimal format \<open>{:.1}\<close>. A finite value is kept as the
  exact decimal it was parsed from, \<open>(-1)^neg * mant * 10^exp\<close>. Rounding to the nearest
  binary64 number is not modelled. For inputs of at most 15 significant digits within the
  normal range, the decimal printed by \<open>Display\<close> (the shortest string that reads back to
  the same float) is exactly this decimal without trailing zeros, and that is what
  \<open>show_f64\<close> prints. Out-of-range literals (\<open>"1e400"\<close>, which Rust reads as \<open>inf\<close>)
  are outside the model.
\<close>

datatype f64 = Fin bool nat int | Infinity bool | NaN

section \<open>Parsing\<close>

definition digit_val :: "char \<Rightarrow> nat" where
  "digit_val c = of_char c - 48"

definition digits_nat :: "string \<Rightarrow> nat" where
  "digits_nat ds = foldl (\<lambda>n c. 10 * n + digit_val c) 0 ds"

definition to_lower_ascii :: "char \<Rightarrow> char" where
  "to_lower_ascii c =
     (if 65 \<le> (of_char c :: nat) \<and> (of_char c :: nat) \<le> 90 then char_of (of_char c + (32::nat)) else c)"

definition to_upper_ascii :: "char \<Rightarrow> char" where
  "to_upper_ascii c =
     (if 97 \<le> (of_char c :: nat) \<and> (of_char c :: nat) \<le> 122 then char_of (of_char c - (32::nat)) else c)"

text \<open>An optional sign, then the rest.\<close>

definition split_sign :: "string \<Rightarrow> bool \<times> string" where
  "split_sign s =
     (case s of c # r \<Rightarrow> if c = CHR ''-'' then (True, r) else if c = CHR ''+'' then (False, r) else (False, s)
      | [] \<Rightarrow> (False, []))"

text \<open>The exponent after \<open>e\<close>/\<open>E\<close>: an optional sign and at least one digit, nothing after.\<close>

definition parse_exp :: "string \<Rightarrow> int option" where
  "parse_exp s =
     (let (neg, ds) = split_sign s
      in if ds \<noteq> [] \<and> (\<forall>c \<in> set ds. is_ascii_digit c)
         then Some (if neg then - int (digits_nat ds) else int (digits_nat ds)) else None)"

text \<open>
  The number after the sign: digits, optionally \<open>'.'\<close> and digits (at least one digit in
  all), optionally an exponent.
\<close>

definition parse_number :: "bool \<Rightarrow> string \<Rightarrow> f64 option" where
  "parse_number neg r =
     (let ip = takeWhile is_ascii_digit r; r1 = drop (length ip) r;
          fp = (case r1 of c # t \<Rightarrow> if c = CHR ''.'' then takeWhile is_ascii_digit t else [] | [] \<Rightarrow> []);
          r2 = (case r1 of c # t \<Rightarrow> if c = CHR ''.'' then drop (length fp) t else r1 | [] \<Rightarrow> []);
          m = digits_nat (ip @ fp); e = - int (length fp)
      in if ip = [] \<and> fp = [] then None
         else case r2 of
                [] \<Rightarrow> Some (Fin neg m e)
              | c # t \<Rightarrow> if c = CHR ''e'' \<or> c = CHR ''E''
                         then map_option (\<lambda>x. Fin neg m (e + x)) (parse_exp t) else None)"

definition parse_f64 :: "string \<Rightarrow> f64 option" where
  "parse_f64 s =
     (let (neg, r) = split_sign s; l = map to_lower_ascii r
      in if l = ''inf'' \<or> l = ''infinity'' then Some (Infinity neg)
         else if l = ''nan'' then Some NaN
         else parse_number neg r)"

section \<open>Printing\<close>

text \<open>Trailing zeros of the mantissa moved into the exponent.\<close>

fun normalize :: "nat \<Rightarrow> int \<Rightarrow> nat \<times> int" where
  "normalize m e = (if 0 < m \<and> m mod 10 = 0 then normalize (m div 10) (e + 1) else (m, e))"

declare normalize.simps [simp del]

text \<open>A non-negative decimal \<open>m * 10^e\<close> in positional notation, never with an exponent.\<close>

definition show_decimal :: "nat \<Rightarrow> int \<Rightarrow> string" where
  "show_decimal m e =
     (let ds = show_nat m
      in if 0 \<le> e then ds @ replicate (nat e) (CHR ''0'')
         else let k = nat (- e)
              in if k < length ds then take (length ds - k) ds @ CHR ''.'' # drop (length ds - k) ds
                 else ''0.'' @ replicate (k - length ds) (CHR ''0'') @ ds)"

definition show_f64 :: "f64 \<Rightarrow> string" where
  "show_f64 x =
     (case x of
        NaN \<Rightarrow> ''NaN''
      | Infinity neg \<Rightarrow> (if neg then ''-inf'' else ''inf'')
      | Fin neg m e \<Rightarrow>
          (if neg then ''-'' else []) @
          (if m = 0 then ''0'' else case normalize m e of (m', e') \<Rightarrow> show_decimal m' e'))"

text \<open>
  \<open>{:.1}\<close>: one fractional digit, the exact decimal rounded half to even. It agrees with
  Rust's whenever the value has at most one fractional digit, where nothing is rounded.
\<close>

definition round_half_even :: "nat \<Rightarrow> nat \<Rightarrow> nat" where
  "round_half_even n d =
     (let q = n div d; r = n mod d
      in if 2 * r < d \<or> (2 * r = d \<and> even q) then q else q + 1)"

definition show_f64_1 :: "f64 \<Rightarrow> string" where
  "show_f64_1 x =
     (case x of
        NaN \<Rightarrow> ''NaN''
      | Infinity neg \<Rightarrow> (if neg then ''-inf'' else ''inf'')
      | Fin neg m e \<Rightarrow>
          (let tenths = (if 1 + e \<ge> 0 then m * 10 ^ nat (1 + e)
                         else round_half_even m (10 ^ nat (- (1 + e))))
           in (if neg then ''-'' else []) @ show_nat (tenths div 10) @ CHR ''.'' #
              [digit_char (tenths mod 10)]))"

section \<open>Properties\<close>

lemma digits_nat_snoc: "digits_nat (xs @ [c]) = 10 * digits_nat xs + digit_val c"
  by (simp add: digits_nat_def)

lemma digit_val_digit_char: "d < 10 \<Longrightarrow> digit_val (digit_char d) = d"
  by (auto simp: digit_val_def digit_char_def less_Suc_eq numeral_eq_Suc)

text \<open>Reading back a printed natural number gives the number.\<close>

lemma digits_nat_show_nat: "digits_nat (show_nat n) = n"
proof (induction n rule: show_nat.induct)
  case (1 n)
  then show ?case
    by (subst show_nat.simps) (simp add: digits_nat_snoc digit_val_digit_char digits_nat_def)
qed

lemma normalize_shift:
  "normalize m e = (m', e') \<Longrightarrow> \<exists>k. e' = e + int k \<and> m = m' * 10 ^ k \<and> (m = 0 \<longleftrightarrow> m' = 0)"
proof (induction m e arbitrary: m' e' rule: normalize.induct)
  case (1 m e)
  show ?case
  proof (cases "0 < m \<and> m mod 10 = 0")
    case True
    with "1.prems" have "normalize (m div 10) (e + 1) = (m', e')" by (simp add: normalize.simps)
    with "1.IH" [OF True] obtain k where "e' = e + 1 + int k" "m div 10 = m' * 10 ^ k"
      "(m div 10 = 0) = (m' = 0)" by blast
    with True show ?thesis
      by (intro exI [of _ "Suc k"]) (auto simp: algebra_simps)
  next
    case False
    with "1.prems" show ?thesis by (simp add: normalize.simps)
  qed
qed

text \<open>An integral value prints as the integer.\<close>

lemma show_f64_nat: "show_f64 (Fin False n 0) = show_nat n"
proof (cases "n = 0")
  case True
  then show ?thesis by (simp add: show_f64_def show_nat.simps digit_char_def)
next
  case False
  obtain m' e' where ne: "normalize n 0 = (m', e')" by fastforce
  from normalize_shift [OF ne] obtain k where k: "e' = int k" "n = m' * 10 ^ k" "m' \<noteq> 0"
    using False by auto
  then show ?thesis
    using False ne by (simp add: show_f64_def show_decimal_def show_nat_pow10)
qed

lemma split_sign_digit: "is_ascii_digit c \<Longrightarrow> split_sign (c # r) = (False, c # r)"
  by (auto simp: split_sign_def is_ascii_digit_def)

lemma split_sign_show_nat: "split_sign (show_nat n @ r) = (False, show_nat n @ r)"
proof -
  obtain c t where "show_nat n = c # t" using show_nat_not_Nil by (metis neq_Nil_conv)
  with show_nat_hd_digit [of n] show ?thesis by (simp add: split_sign_digit)
qed

lemma to_lower_ascii_digit: "is_ascii_digit c \<Longrightarrow> to_lower_ascii c = c"
  by (simp add: to_lower_ascii_def is_ascii_digit_def)

text \<open>A non-empty string of digits reads as the integer it denotes.\<close>

lemma parse_f64_digits:
  assumes "ds \<noteq> []" "\<forall>c \<in> set ds. is_ascii_digit c"
  shows "parse_f64 ds = Some (Fin False (digits_nat ds) 0)"
proof -
  obtain c r where ds: "ds = c # r" using assms(1) by (cases ds) auto
  have sg: "split_sign ds = (False, ds)" using assms ds by (simp add: split_sign_digit)
  have lw: "map to_lower_ascii ds = ds" using assms(2) by (simp add: map_idI to_lower_ascii_digit)
  have nd: "\<not> is_ascii_digit CHR ''i''" "\<not> is_ascii_digit CHR ''n''"
    by (simp_all add: is_ascii_digit_def)
  have "ds \<noteq> ''inf'' \<and> ds \<noteq> ''infinity'' \<and> ds \<noteq> ''nan''" using assms(2) ds nd by auto
  moreover have "parse_number False ds = Some (Fin False (digits_nat ds) 0)"
    using assms by (simp add: parse_number_def Let_def takeWhile_eq_all_conv[THEN iffD2])
  ultimately show ?thesis using sg lw by (simp add: parse_f64_def)
qed

lemma show_f64_parse_show_nat: "map_option show_f64 (parse_f64 (show_nat k)) = Some (show_nat k)"
  using show_nat_digits [of k]
  by (simp add: parse_f64_digits digits_nat_show_nat show_f64_nat)

text \<open>A reading with one fractional digit is read exactly.\<close>

lemma parse_f64_one_decimal:
  assumes "b < 10"
  shows "parse_f64 (show_nat a @ CHR ''.'' # [digit_char b]) = Some (Fin False (10 * a + b) (- 1))"
proof -
  let ?s = "show_nat a @ CHR ''.'' # [digit_char b]"
  have dg: "\<forall>c \<in> set (show_nat a). is_ascii_digit c" by (rule show_nat_digits)
  have db: "is_ascii_digit (digit_char b)" using assms by (rule digit_char_is_digit)
  have pt: "\<not> is_ascii_digit CHR ''.''" "to_lower_ascii CHR ''.'' = CHR ''.''"
    by (simp_all add: is_ascii_digit_def to_lower_ascii_def)
  have lw: "map to_lower_ascii ?s = ?s"
    using dg db pt by (simp add: map_idI to_lower_ascii_digit)
  have hd: "is_ascii_digit (hd ?s)" using show_nat_hd_digit [of a] by simp
  have "?s \<noteq> ''inf'' \<and> ?s \<noteq> ''infinity'' \<and> ?s \<noteq> ''nan''"
    using hd by (auto simp: is_ascii_digit_def)
  moreover have "parse_number False ?s = Some (Fin False (10 * a + b) (- 1))"
    using dg db pt assms
    by (simp add: parse_number_def Let_def takeWhile_append2 digits_nat_snoc
        digits_nat_show_nat digit_val_digit_char)
  ultimately show ?thesis
    using lw by (simp add: parse_f64_def split_sign_show_nat [of a "CHR ''.'' # [digit_char b]"])
qed

lemma show_f64_1_one_decimal:
  "b < 10 \<Longrightarrow> show_f64_1 (Fin False (10 * a + b) (- 1)) = show_nat a @ CHR ''.'' # [digit_char b]"
  by (simp add: show_f64_1_def)

end
