(* ===== verification/Transforms.thy ===== *)
theory Transforms
  imports Sensor F64
begin

text \<open>
  What a command sensor does with the output of its command. \<open>CommandSensorReporter::get_value\<close>
  (\<open>src/config.rs\<close>) trims the captured standard output and passes it through the
  sensor's transform closure. The closures are the \<open>PostProcess\<close> ones built by
  \<open>From<&CommandSensor>\<close> (\<open>src/config.rs\<close>) and the five built-in ones of
  \<open>UnraidStats::sensors\<close> (\<open>src/unraid_stats.rs\<close>), which call the output parsers
  \<open>parse_disk_usage\<close>, \<open>parse_cpu_temp\<close> and \<open>parse_array_status\<close>. A closure is the
  constructor of the datatype \<open>transform\<close> (theory \<open>Sensor\<close>), and \<open>apply_transform\<close>
  applies it. Running the command is not modelled: its standard output is an input, and
  \<open>None\<close> stands for a command that could not be started. Case mapping and
  \<open>char::is_numeric\<close> are modelled on ASCII.
\<close>

section \<open>Output parsers\<close>

record disk_info =
  di_total :: string
  di_available :: string
  di_usage_percent :: f64

text \<open>
  \<open>parse_disk_usage\<close>: the second line of the \<open>df\<close> output, split at whitespace. It
  needs at least five fields. The total and available sizes are fields 1 and 3, and the
  usage is field 4 with its trailing \<open>'%'\<close> removed, read as an \<open>f64\<close>.
\<close>

definition parse_disk_usage :: "string \<Rightarrow> disk_info option" where
  "parse_disk_usage df_output =
     (case drop 1 (str_lines df_output) of
        [] \<Rightarrow> None
      | line # _ \<Rightarrow>
          (let parts = split_whitespace line
           in if 5 \<le> length parts then
                map_option (\<lambda>u. \<lparr>di_total = parts ! 1, di_available = parts ! 3, di_usage_percent = u\<rparr>)
                  (parse_f64 (trim_end_matches_char CHR ''%'' (parts ! 4)))
              else None))"

text \<open>
  \<open>parse_cpu_temp\<close>: the first line containing \<open>"Package id 0"\<close>, its first word containing
  \<open>"\<degree>C"\<close>, without leading \<open>'+'\<close> and trailing \<open>"\<degree>C"\<close>, read as an \<open>f64\<close>.
\<close>

definition parse_cpu_temp :: "string \<Rightarrow> f64 option" where
  "parse_cpu_temp sensors_output =
     (case find (sublist ''Package id 0'') (str_lines sensors_output) of
        None \<Rightarrow> None
      | Some line \<Rightarrow>
          (case find (sublist degree_c) (split_whitespace line) of
             None \<Rightarrow> None
           | Some temp \<Rightarrow> parse_f64 (trim_end_matches degree_c (trim_start_matches_char CHR ''+'' temp))))"

text \<open>\<open>parse_array_status\<close>: the first line starting with \<open>"mdState="\<close>, without that prefix.\<close>

definition parse_array_status :: "string \<Rightarrow> string option" where
  "parse_array_status status_output =
     map_option (trim_start_matches ''mdState='') (find (prefix ''mdState='') (str_lines status_output))"

section \<open>The transform closures\<close>

text \<open>\<open>str::parse::<i64>\<close>: an optional sign, at least one digit and nothing else, within range.\<close>

definition parse_i64 :: "string \<Rightarrow> int option" where
  "parse_i64 s =
     (let (neg, ds) = split_sign s;
          v = (if neg then - int (digits_nat ds) else int (digits_nat ds))
      in if ds \<noteq> [] \<and> (\<forall>c \<in> set ds. is_ascii_digit c) \<and> - (2 ^ 63) \<le> v \<and> v < 2 ^ 63
         then Some v else None)"

text \<open>
  \<open>char::is_numeric\<close> on ASCII: the decimal digits (not \<open>'.'\<close>, not \<open>'-'\<close>). On the
  bytes of a non-ASCII character the model keeps nothing, where Rust keeps the Unicode
  numerals (superscript two, vulgar fractions); the claims about it assume ASCII input.
\<close>

definition is_numeric :: "char \<Rightarrow> bool" where
  "is_numeric c = is_ascii_digit c"

text \<open>The closures of \<open>From<&CommandSensor>\<close>, one per \<open>PostProcess\<close> variant.\<close>

definition post_apply :: "post_process \<Rightarrow> string \<Rightarrow> string option" where
  "post_apply p s =
     (case p of
        TrimWhitespace \<Rightarrow> Some (trim s)
      | ParseFloat \<Rightarrow> map_option show_f64 (parse_f64 s)
      | ParseInteger \<Rightarrow> map_option show_int (parse_i64 s)
      | ExtractNumber \<Rightarrow> map_option show_f64 (parse_f64 (filter is_numeric s))
      | ToUpperCase \<Rightarrow> Some (map to_upper_ascii s)
      | ToLowerCase \<Rightarrow> Some (map to_lower_ascii s))"

text \<open>The built-in closures of the \<open>df\<close>, \<open>sensor\<close> and \<open>mdcmd\<close> sensors.\<close>

definition disk_usage_percent_transform :: "string \<Rightarrow> string option" where
  "disk_usage_percent_transform s = map_option (\<lambda>d. show_f64 (di_usage_percent d)) (parse_disk_usage s)"

definition disk_total_transform :: "string \<Rightarrow> string option" where
  "disk_total_transform s = map_option di_total (parse_disk_usage s)"

definition disk_available_transform :: "string \<Rightarrow> string option" where
  "disk_available_transform s = map_option di_available (parse_disk_usage s)"

definition cpu_temp_transform :: "string \<Rightarrow> string option" where
  "cpu_temp_transform s = map_option show_f64_1 (parse_cpu_temp s)"

definition array_status_transform :: "string \<Rightarrow> string option" where
  "array_status_transform s = parse_array_status s"

definition apply_transform :: "transform \<Rightarrow> string \<Rightarrow> string option" where
  "apply_transform t s =
     (case t of
        Post p \<Rightarrow> post_apply p s
      | PassThrough \<Rightarrow> Some s
      | DiskUsagePercent \<Rightarrow> disk_usage_percent_transform s
      | DiskTotal \<Rightarrow> disk_total_transform s
      | DiskAvailable \<Rightarrow> disk_available_transform s
      | CpuTemp \<Rightarrow> cpu_temp_transform s
      | ArrayStatus \<Rightarrow> array_status_transform s)"

text \<open>
  \<open>CommandSensorReporter::get_value\<close>: the standard output, if the command could be started,
  trimmed and transformed.
\<close>

definition command_get_value :: "command_reporter \<Rightarrow> string option \<Rightarrow> string option" where
  "command_get_value r stdout =
     (case stdout of
        None \<Rightarrow> None
      | Some out \<Rightarrow>
          (let result = trim out
           in case transform r of Some t \<Rightarrow> apply_transform t result | None \<Rightarrow> Some result))"

section \<open>Properties\<close>

subsection \<open>The \<open>PostProcess\<close> closures\<close>

lemma parse_i64_show_int:
  "parse_i64 (show_int i) = (if - (2 ^ 63) \<le> i \<and> i < 2 ^ 63 then Some i else None)"
proof (cases "i < 0")
  case True
  then show ?thesis using show_nat_digits [of "nat (- i)"]
    by (simp add: parse_i64_def show_int_def split_sign_def digits_nat_show_nat nat_le_iff)
next
  case False
  then show ?thesis using show_nat_digits [of "nat i"] split_sign_show_nat [of "nat i" "[]"]
    by (simp add: parse_i64_def show_int_def digits_nat_show_nat nat_less_iff)
qed

lemma integer_transform_canonical:
  "- (2 ^ 63) \<le> i \<Longrightarrow> i < 2 ^ 63 \<Longrightarrow> post_apply ParseInteger (show_int i) = Some (show_int i)"
  by (simp add: post_apply_def parse_i64_show_int)

text \<open>C27: The ParseInteger transform yields no value for integers outside the i64 range.\<close>

lemma integer_transform_overflow:
  "i < - (2 ^ 63) \<or> 2 ^ 63 \<le> i \<Longrightarrow> post_apply ParseInteger (show_int i) = None"
  by (auto simp: post_apply_def parse_i64_show_int)

text \<open>C26: For an ASCII input with at most 15 digits, the ExtractNumber transform publishes the number spelled by the digits of its input, or no value when it has none.\<close>

lemma extract_number_char:
  assumes "\<forall>c \<in> set s. of_char c < (128 :: nat)" and "length (filter is_numeric s) \<le> 15"
  shows "post_apply ExtractNumber s =
     (if filter is_numeric s = [] then None else Some (show_nat (digits_nat (filter is_numeric s))))"
proof (cases "filter is_numeric s = []")
  case True
  then show ?thesis
    by (simp add: post_apply_def parse_f64_def split_sign_def parse_number_def)
next
  case False
  have "\<forall>c \<in> set (filter is_numeric s). is_ascii_digit c" by (simp add: is_numeric_def)
  with False show ?thesis by (simp add: post_apply_def parse_f64_digits show_f64_nat)
qed

lemma extract_number_drops_point: "post_apply ExtractNumber ''3.5 GB'' = Some ''35''"
  by code_simp

subsection \<open>The reporter\<close>

lemma trim_pad:
  assumes "\<forall>c \<in> set w1 \<union> set w2. is_whitespace c"
  shows "trim (w1 @ out @ w2) = trim out"
proof (cases "\<forall>x \<in> set out. is_whitespace x")
  case True
  have a: "dropWhile is_whitespace (w1 @ out @ w2) = []" using assms True by simp
  have b: "dropWhile is_whitespace out = []" using True by simp
  show ?thesis unfolding trim_def a b by simp
next
  case False
  then obtain x where "x \<in> set out" "\<not> is_whitespace x" by blast
  then have d: "dropWhile is_whitespace (out @ w2) = dropWhile is_whitespace out @ w2"
    by (rule dropWhile_append1)
  have e: "dropWhile is_whitespace (w1 @ out @ w2) = dropWhile is_whitespace (out @ w2)"
    by (rule dropWhile_append2) (use assms in auto)
  have f: "dropWhile is_whitespace (rev w2 @ rev (dropWhile is_whitespace out)) =
           dropWhile is_whitespace (rev (dropWhile is_whitespace out))"
    by (rule dropWhile_append2) (use assms in auto)
  show ?thesis unfolding trim_def e d rev_append f ..
qed

lemma command_value_padding:
  "\<forall>c \<in> set w1 \<union> set w2. is_whitespace c \<Longrightarrow>
     command_get_value r (Some (w1 @ out @ w2)) = command_get_value r (Some out)"
  by (simp add: command_get_value_def trim_pad)

text \<open>A command that starts, whatever its exit status, and prints only white space gives the
  empty value when the sensor has no transform.\<close>

lemma command_blank_output:
  "transform r = None \<Longrightarrow> trim out = [] \<Longrightarrow> command_get_value r (Some out) = Some []"
  by (simp add: command_get_value_def)

subsection \<open>The output parsers\<close>

lemma parse_disk_usage_table:
  assumes "CHR 0x0A \<notin> set hdr" "words_ok (fs # tot # used # avl # pct # rest_fields)"
    "tail = [] \<or> hd tail = CHR 0x0A"
  shows "parse_disk_usage (hdr @ CHR 0x0A # join_with CHR '' '' (fs # tot # used # avl # pct # rest_fields) @ tail) =
           map_option (\<lambda>u. \<lparr>di_total = tot, di_available = avl, di_usage_percent = u\<rparr>)
             (parse_f64 (trim_end_matches_char CHR ''%'' pct))"
proof -
  define line where "line = join_with CHR '' '' (fs # tot # used # avl # pct # rest_fields)"
  obtain rest where r: "str_lines (line @ tail) = line # rest"
    using str_lines_words [OF assms(2) _ assms(3)] unfolding line_def by blast
  have sw: "split_whitespace line = fs # tot # used # avl # pct # rest_fields"
    using assms(2) unfolding line_def by (intro split_whitespace_join) (simp add: words_ok_def)
  have "CHR 0x0A \<notin> set hdr" by (rule assms(1))
  then have "drop 1 (str_lines (hdr @ CHR 0x0A # line @ tail)) = line # rest"
    using r by (simp add: str_lines_line)
  then show ?thesis unfolding line_def [symmetric] by (simp add: parse_disk_usage_def sw)
qed

lemma trim_percent_show_nat: "trim_end_matches_char CHR ''%'' (show_nat k @ ''%'') = show_nat k"
proof -
  obtain c r where cr: "rev (show_nat k) = c # r" using show_nat_not_Nil [of k]
    by (metis Nil_is_rev_conv neq_Nil_conv)
  have "c \<in> set (show_nat k)" using cr by (metis list.set_intros(1) set_rev)
  then have "c \<noteq> CHR ''%''" using show_nat_digits [of k] by (auto simp: is_ascii_digit_def)
  then show ?thesis using cr by (simp add: trim_end_matches_char_def)
qed

lemma df_table:
  assumes "CHR 0x0A \<notin> set hdr" "words_ok [fs, tot, used, avl]" "words_ok rest_fields"
    "tail = [] \<or> hd tail = CHR 0x0A"
  shows "parse_disk_usage
           (hdr @ CHR 0x0A # join_with CHR '' '' (fs # tot # used # avl # (show_nat k @ ''%'') # rest_fields) @ tail) =
         Some \<lparr>di_total = tot, di_available = avl, di_usage_percent = Fin False k 0\<rparr>"
proof -
  have "words_ok (fs # tot # used # avl # (show_nat k @ ''%'') # rest_fields)"
    using assms(2,3) show_nat_word [of k] by (simp add: is_whitespace_def)
  from parse_disk_usage_table [OF assms(1) this assms(4)] show ?thesis
    using show_nat_digits [of k]
    by (simp add: trim_percent_show_nat parse_f64_digits digits_nat_show_nat)
qed

text \<open>C25: The disk usage published for a df table is the number in its fifth field, without the percent sign.\<close>

lemma disk_usage_percent_table:
  assumes "CHR 0x0A \<notin> set hdr" "words_ok [fs, tot, used, avl]" "words_ok rest_fields"
    "tail = [] \<or> hd tail = CHR 0x0A"
  shows "disk_usage_percent_transform
           (hdr @ CHR 0x0A # join_with CHR '' '' (fs # tot # used # avl # (show_nat k @ ''%'') # rest_fields) @ tail) =
         Some (show_nat k)"
  using df_table [OF assms] by (simp add: disk_usage_percent_transform_def show_f64_nat)

lemma disk_size_fields_table:
  assumes "CHR 0x0A \<notin> set hdr" "words_ok [fs, tot, used, avl]" "words_ok rest_fields"
    "tail = [] \<or> hd tail = CHR 0x0A"
  shows "disk_total_transform
           (hdr @ CHR 0x0A # join_with CHR '' '' (fs # tot # used # avl # (show_nat k @ ''%'') # rest_fields) @ tail) =
         Some tot \<and>
         disk_available_transform
           (hdr @ CHR 0x0A # join_with CHR '' '' (fs # tot # used # avl # (show_nat k @ ''%'') # rest_fields) @ tail) =
         Some avl"
  using df_table [OF assms] by (simp add: disk_total_transform_def disk_available_transform_def)

lemma parse_array_status_lines:
  assumes "\<forall>l \<in> set (pre @ (''mdState='' @ v) # post). CHR 0x0A \<notin> set l \<and> (l = [] \<or> last l \<noteq> CHR 0x0D)"
    "\<forall>l \<in> set pre. \<not> prefix ''mdState='' l" "\<not> prefix ''mdState='' v"
  shows "parse_array_status (unlines (pre @ (''mdState='' @ v) # post)) = Some v"
proof -
  have f: "find (prefix ''mdState='') (str_lines (unlines (pre @ (''mdState='' @ v) # post))) =
           Some (''mdState='' @ v)"
    using assms(1,2) by (simp only: str_lines_unlines) (rule find_first, simp_all)
  have "trim_start_matches ''mdState='' (''mdState='' @ v) = trim_start_matches ''mdState='' v"
    by (rule trim_start_matches_prefix) simp
  also have "\<dots> = v" using assms(3) by (rule trim_start_matches_no_prefix)
  finally show ?thesis using f by (simp add: parse_array_status_def)
qed

lemma reading_word:
  assumes "b < 10"
  shows "\<not> suffix degree_c (show_nat a @ CHR ''.'' # [digit_char b])"
    "trim_start_matches_char CHR ''+'' (CHR ''+'' # show_nat a @ r) = show_nat a @ r"
    "\<forall>x \<in> set (CHR ''+'' # show_nat a @ CHR ''.'' # digit_char b # degree_c). \<not> is_whitespace x"
proof -
  have "is_ascii_digit (digit_char b)" using assms by (rule digit_char_is_digit)
  then show "\<not> suffix degree_c (show_nat a @ CHR ''.'' # [digit_char b])"
    by (auto simp: degree_c_def suffix_def is_ascii_digit_def)
  have "hd (show_nat a) \<noteq> CHR ''+''"
    using show_nat_hd_digit [of a] by (auto simp: is_ascii_digit_def)
  then show "trim_start_matches_char CHR ''+'' (CHR ''+'' # show_nat a @ r) = show_nat a @ r"
    using show_nat_not_Nil [of a] by (simp add: trim_start_matches_char_def dropWhile_eq_self_iff)
  show "\<forall>x \<in> set (CHR ''+'' # show_nat a @ CHR ''.'' # digit_char b # degree_c). \<not> is_whitespace x"
    using show_nat_word [of a] digit_not_whitespace [OF digit_char_is_digit [OF assms]]
    by (simp add: degree_c_def is_whitespace_def)
qed

text \<open>C24: The CPU temperature published is the one-decimal reading on the first "Package id 0" line.\<close>

lemma cpu_temp_reading:
  assumes "\<forall>l \<in> set (pre @ post). CHR 0x0A \<notin> set l \<and> (l = [] \<or> last l \<noteq> CHR 0x0D)"
    "\<forall>l \<in> set pre. \<not> sublist ''Package id 0'' l" "words_ok rest_words" "b < 10"
  shows "cpu_temp_transform (unlines (pre @ join_with CHR '' ''
            (''Package'' # ''id'' # ''0:'' # (CHR ''+'' # show_nat a @ CHR ''.'' # digit_char b # degree_c)
             # rest_words) # post)) =
         Some (show_nat a @ CHR ''.'' # [digit_char b])"
proof -
  let ?x = "show_nat a @ CHR ''.'' # [digit_char b]"
  let ?w = "CHR ''+'' # show_nat a @ CHR ''.'' # digit_char b # degree_c"
  let ?ws = "''Package'' # ''id'' # ''0:'' # ?w # rest_words"
  define line where "line = join_with CHR '' '' ?ws"
  have wok: "words_ok ?ws" using assms(3) reading_word(3) [OF assms(4), of a]
    by (simp add: is_whitespace_def)
  note wl = words_line [OF wok, folded line_def]
  have "str_lines (unlines (pre @ line # post)) = pre @ line # post"
    using assms(1) wl by (intro str_lines_unlines) auto
  moreover have "prefix ''Package id 0'' line" by (simp add: line_def)
  then have "sublist ''Package id 0'' line" by (rule prefix_imp_sublist)
  ultimately have l: "find (sublist ''Package id 0'') (str_lines (unlines (pre @ line # post))) = Some line"
    using assms(2) by (simp add: find_first)
  have sw: "split_whitespace line = ?ws"
    using wok unfolding line_def by (intro split_whitespace_join) (simp add: words_ok_def)
  have "?w = (CHR ''+'' # ?x) @ degree_c @ []" by simp
  then have "sublist degree_c ?w" by (metis sublist_appendI)
  then have "find (sublist degree_c) ?ws = Some ?w" by (simp add: no_degree_c)
  moreover have "trim_end_matches degree_c (trim_start_matches_char CHR ''+'' ?w) = ?x"
  proof -
    have t1: "trim_start_matches_char CHR ''+'' ?w = show_nat a @ CHR ''.'' # digit_char b # degree_c"
      by (rule reading_word(2) [OF assms(4)])
    have t2: "trim_end_matches degree_c (show_nat a @ CHR ''.'' # digit_char b # degree_c) = ?x"
      using trim_end_matches_suffix [of degree_c ?x] reading_word(1) [OF assms(4), of a]
      by (simp add: degree_c_def)
    show ?thesis by (simp only: t1 t2)
  qed
  ultimately show ?thesis
    using l sw assms(4) unfolding line_def [symmetric]
    by (simp add: cpu_temp_transform_def parse_cpu_temp_def parse_f64_one_decimal show_f64_1_one_decimal)
qed

end
