(* ===== verification/Reporters.thy ===== *)
theory Reporters
  imports Transforms CpuStats
begin

text \<open>
  \<open>SensorReporterType::get_value\<close> and its four variants (\<open>src/config.rs\<close>). What the
  reporters read from outside is the record \<open>env\<close>: the \<open>sysinfo\<close> snapshot, the answers
  of the Docker engine to the listing and stats queries (\<open>None\<close> is a failed query), the
  standard output of each command, the contents of \<open>/etc/unraid-version\<close>, whether
  the engine's socket connects, and the outcome of reading the configuration file:
  \<open>None\<close> when it cannot be read, \<open>Some None\<close> when its TOML does not parse, else the
  table (TOML parsing is not modelled). An \<open>f64\<close>
  computed by floating-point arithmetic is printed by \<open>Display\<close> (\<open>{}\<close>) or with one
  fractional digit (\<open>{:.1}\<close>). Those two printers are the fields \<open>show_real\<close> and
  \<open>show_real_1\<close> of the environment, because the model computes the exact real value and
  does not model binary rounding. Division follows IEEE: \<open>x / 0\<close> is \<open>inf\<close> and
  \<open>0 / 0\<close> is \<open>NaN\<close>.

  The \<open>stats_stash\<close> cells are an explicit store from stash references to the cached
  stats sample (\<open>rstate\<close>). The store also records the container ids of the stats queries
  issued with the cell they fill, so that the number of queries per cell can be stated.
\<close>

section \<open>The environment\<close>

text \<open>The fields of \<open>sysinfo::System\<close> the program reads.\<close>

record sys_info =
  total_memory :: u64
  used_memory :: u64
  global_cpu_usage :: real
  uptime :: u64

text \<open>
  What the program reads from outside. \<open>run_command\<close> is the standard output of
  \<open>Command::output()\<close>, \<open>None\<close> when the process cannot be started; the exit status is
  not an input, since \<open>CommandSensorReporter::get_value\<close> never reads it.
  \<open>config_file\<close> is the configuration file's TOML table (\<open>None\<close>: unreadable,
  \<open>Some None\<close>: unparsable) and \<open>dump_writes\<close> whether \<open>fs::write\<close> of the dump succeeds.
\<close>

record env =
  sysinfo :: sys_info
  image_sizes :: "i64 list option"
  volume_names :: "string list option option"
  running_containers :: "container_summary list option"
  unhealthy_containers :: "container_summary list option"
  container_stats :: "string \<Rightarrow> stats_response option"
  run_command :: "string \<Rightarrow> string list \<Rightarrow> string option"
  version_file :: "string option"
  docker_connects :: bool
  config_file :: "config option option"
  dump_writes :: bool
  process_id :: u32
  show_real :: "real \<Rightarrow> string"
  show_real_1 :: "real \<Rightarrow> string"

text \<open>An \<open>f64\<close> result: a finite value, an infinity (negative or not) or \<open>NaN\<close>.\<close>

datatype fres = FNum real | FInf bool | FNaN

definition f64_div :: "real \<Rightarrow> real \<Rightarrow> fres" where
  "f64_div x y = (if y = 0 then (if x = 0 then FNaN else FInf (x < 0)) else FNum (x / y))"

definition fres_scale :: "real \<Rightarrow> fres \<Rightarrow> fres" where
  "fres_scale k r = (case r of FNum x \<Rightarrow> FNum (x * k) | _ \<Rightarrow> r)"

definition show_fres_1 :: "env \<Rightarrow> fres \<Rightarrow> string" where
  "show_fres_1 e r =
     (case r of FNum x \<Rightarrow> show_real_1 e x | FInf neg \<Rightarrow> (if neg then ''-inf'' else ''inf'') | FNaN \<Rightarrow> ''NaN'')"

section \<open>The reporters\<close>

text \<open>
  \<open>SystemSensorReporter::get_value\<close>. \<open>{:.1}\<close> on an integer ignores the precision, so
  the memory figures print as integers.
\<close>

definition system_get_value :: "env \<Rightarrow> system_stat \<Rightarrow> string option" where
  "system_get_value e stat =
     (let si = sysinfo e
      in case stat of
           MemoryUsage \<Rightarrow>
             Some (show_fres_1 e (fres_scale 100
                     (f64_div (real (unat (used_memory si))) (real (unat (total_memory si))))))
         | MemoryUsed \<Rightarrow> Some (show_nat (unat (used_memory si)))
         | MemoryTotal \<Rightarrow> Some (show_nat (unat (total_memory si)))
         | CpuUsage \<Rightarrow> Some (show_real_1 e (global_cpu_usage si))
         | Uptime \<Rightarrow> Some (show_nat (unat (uptime si))))"

text \<open>
  \<open>DockerSensorReporter::get_value\<close>: a count or the summed image size. The sum is an
  \<open>i64\<close> sum, which wraps around on overflow (release build).
\<close>

definition docker_get_value :: "env \<Rightarrow> docker_stat \<Rightarrow> string option" where
  "docker_get_value e stat =
     (case stat of
        ImagesCount \<Rightarrow> map_option (\<lambda>is. show_nat (length is)) (image_sizes e)
      | ImagesSize \<Rightarrow> map_option (\<lambda>is. show_int (sint (sum_list is))) (image_sizes e)
      | VolumesCount \<Rightarrow>
          map_option (\<lambda>v. show_nat (case v of None \<Rightarrow> 0 | Some vs \<Rightarrow> length vs)) (volume_names e)
      | RunningCount \<Rightarrow> map_option (\<lambda>cs. show_nat (length cs)) (running_containers e)
      | UnhealthyCount \<Rightarrow> map_option (\<lambda>cs. show_nat (length cs)) (unhealthy_containers e))"

record rstate =
  stash :: "stash_ref \<Rightarrow> stats_response option"
  queries :: "(stash_ref \<times> string) list"

text \<open>
  \<open>DockerContainerSensorReporter::get_value\<close>, second half: the value read from the cached
  sample, if there is one.
\<close>

definition container_read :: "env \<Rightarrow> container_summary \<Rightarrow> container_stat \<Rightarrow> stats_response option \<Rightarrow> string option" where
  "container_read e c stat cached =
     (case cached of
        None \<Rightarrow> None
      | Some st \<Rightarrow>
          (case stat of
             ContainerCpuUsage \<Rightarrow> Some (show_real e (calculate_cpu_percent st))
           | ContainerMemoryUsage \<Rightarrow> Some (show_nat (unat (unwrap_or_default (memory_usage st))))
           | ContainerStatus \<Rightarrow> cs_status c))"

text \<open>
  First half: with an empty cell, the stats stream of the container is opened and its first
  sample, if any, is stored. \<open>container.id.as_ref().unwrap()\<close> panics when the summary has
  no id.
\<close>

definition container_get_value ::
  "env \<Rightarrow> container_summary \<Rightarrow> stash_ref \<Rightarrow> container_stat \<Rightarrow> 'a rstate_scheme \<Rightarrow>
     (error + string option) \<times> 'a rstate_scheme" where
  "container_get_value e c r stat s =
     (if stash s r = None then
        (case cs_id c of
           None \<Rightarrow> (Inl (Panic ''called `Option::unwrap()` on a `None` value''), s)
         | Some cid \<Rightarrow>
             (let s1 = s\<lparr>queries := queries s @ [(r, cid)]\<rparr>;
                  s2 = (case container_stats e cid of
                          None \<Rightarrow> s1
                        | Some st \<Rightarrow> s1\<lparr>stash := (stash s1)(r := Some st)\<rparr>)
              in (Inr (container_read e c stat (stash s2 r)), s2)))
      else (Inr (container_read e c stat (stash s r)), s))"

text \<open>\<open>SensorReporterType::get_value\<close>: dispatch on the variant.\<close>

definition reporter_get_value ::
  "env \<Rightarrow> reporter \<Rightarrow> 'a rstate_scheme \<Rightarrow> (error + string option) \<times> 'a rstate_scheme" where
  "reporter_get_value e rep s =
     (case rep of
        System stat \<Rightarrow> (Inr (system_get_value e stat), s)
      | Command r \<Rightarrow>
          (Inr (command_get_value r
                  (run_command e (command r) (case args r of None \<Rightarrow> [] | Some a \<Rightarrow> a))), s)
      | DockerContainer c r stat \<Rightarrow> container_get_value e c r stat s
      | Docker stat \<Rightarrow> (Inr (docker_get_value e stat), s))"

section \<open>Properties\<close>

subsection \<open>Host and engine statistics\<close>

text \<open>C31: The memory usage sensor publishes "NaN" or "inf" when the total memory is 0.\<close>

lemma memory_usage_zero_total:
  assumes "unat (total_memory (sysinfo e)) = 0"
  shows "system_get_value e MemoryUsage = Some (if unat (used_memory (sysinfo e)) = 0 then ''NaN'' else ''inf'')"
proof -
  have t: "real (unat (total_memory (sysinfo e))) = 0" using assms by (simp del: of_nat_unat)
  have u: "real (unat (used_memory (sysinfo e))) = 0 \<longleftrightarrow> unat (used_memory (sysinfo e)) = 0"
    "\<not> real (unat (used_memory (sysinfo e))) < 0"
    by (simp_all del: of_nat_unat)
  show ?thesis
    using t u by (simp add: system_get_value_def f64_div_def fres_scale_def show_fres_1_def Let_def
        del: of_nat_unat)
qed

lemma sum_list_word_of_int: "sum_list (is :: i64 list) = word_of_int (\<Sum>i\<leftarrow>is. sint i)"
  by (induction "is") (simp_all add: wi_hom_add)

lemma sint_sum_list: "sint (sum_list (is :: i64 list)) = signed_take_bit 63 (\<Sum>i\<leftarrow>is. sint i)"
  by (simp add: sum_list_word_of_int sint_sbintrunc')

text \<open>C34: The images-size sensor publishes the exact sum of the image sizes when it fits in an i64.\<close>

lemma images_size_exact:
  assumes "image_sizes e = Some is" "- (2 ^ 63) \<le> (\<Sum>i\<leftarrow>is. sint i)" "(\<Sum>i\<leftarrow>is. sint i) < 2 ^ 63"
  shows "docker_get_value e ImagesSize = Some (show_int (\<Sum>i\<leftarrow>is. sint i))"
  using assms by (simp add: docker_get_value_def sint_sum_list signed_take_bit_int_eq_self)

text \<open>C35: When the image sizes add up to between 2^63 and 2^64, the i64 sum wraps and the images-size sensor publishes the negative number sum - 2^64.\<close>

lemma images_size_wraps:
  assumes "image_sizes e = Some is" "2 ^ 63 \<le> (\<Sum>i\<leftarrow>is. sint i)" "(\<Sum>i\<leftarrow>is. sint i) < 2 ^ 64"
  shows "docker_get_value e ImagesSize = Some (show_int ((\<Sum>i\<leftarrow>is. sint i) - 2 ^ 64)) \<and>
         (\<Sum>i\<leftarrow>is. sint i) - 2 ^ 64 < 0"
  using assms by (simp add: docker_get_value_def sint_sum_list signed_take_bit_63_wrap)

subsection \<open>The stats cache of a container\<close>

text \<open>The three laws of the cache: a hit, a fetch that stores a sample, a fetch that finds none.\<close>

lemma container_cached:
  "stash s r = Some st \<Longrightarrow> container_get_value e c r stat s = (Inr (container_read e c stat (Some st)), s)"
  by (simp add: container_get_value_def)

lemma container_fetch:
  "stash s r = None \<Longrightarrow> cs_id c = Some cid \<Longrightarrow> container_stats e cid = Some st \<Longrightarrow>
     container_get_value e c r stat s =
       (Inr (container_read e c stat (Some st)),
        s\<lparr>queries := queries s @ [(r, cid)], stash := (stash s)(r := Some st)\<rparr>)"
  by (simp add: container_get_value_def)

lemma container_fetch_fails:
  "stash s r = None \<Longrightarrow> cs_id c = Some cid \<Longrightarrow> container_stats e cid = None \<Longrightarrow>
     container_get_value e c r stat s = (Inr None, s\<lparr>queries := queries s @ [(r, cid)]\<rparr>)"
  by (simp add: container_get_value_def container_read_def)

lemma container_no_id:
  "stash s r = None \<Longrightarrow> cs_id c = None \<Longrightarrow>
     container_get_value e c r stat s = (Inl (Panic ''called `Option::unwrap()` on a `None` value''), s)"
  by (simp add: container_get_value_def)

text \<open>C32: The container status sensor yields no value when the stats query fails.\<close>

lemma status_needs_stats:
  "stash s r = None \<Longrightarrow> cs_id c = Some cid \<Longrightarrow> container_stats e cid = None \<Longrightarrow>
     fst (container_get_value e c r ContainerStatus s) = Inr None"
  by (simp add: container_fetch_fails)

subsection \<open>Faults and the store\<close>

text \<open>C33: A reporter call fails only for a container without an id whose stats cell is empty.\<close>

lemma reporter_error_only_panic:
  "fst (reporter_get_value e rep s) = Inl err \<Longrightarrow>
     \<exists>c r stat. rep = DockerContainer c r stat \<and> cs_id c = None \<and> stash s r = None"
  by (auto simp: reporter_get_value_def container_get_value_def Let_def
      split: reporter.splits if_splits option.splits)

lemma reporter_stash_mono:
  "stash s r' = Some x \<Longrightarrow> stash (snd (reporter_get_value e rep s)) r' = Some x"
  by (auto simp: reporter_get_value_def container_get_value_def Let_def
      split: reporter.splits if_splits option.splits)

end
