(* ===== verification/Device.thy ===== *)
theory Device
  imports Sensor
begin

text \<open>
  \<open>UnraidStats::get_unraid_version\<close> and \<open>UnraidStats::get_device_info\<close>
  (\<open>src/unraid_stats.rs\<close>). The contents of \<open>/etc/unraid-version\<close> are an input; \<open>None\<close>
  stands for a failed read, which \<open>?\<close> returns as an error. The device document is the
  JSON value the discovery configs embed under \<open>"device"\<close>.
\<close>

text \<open>The loop over the lines, with its early return.\<close>

fun version_lines :: "string list \<Rightarrow> string" where
  "version_lines [] = ''Unknown''"
| "version_lines (l # ls) =
     (if prefix ''version='' l then trim_matches_char CHR 0x22 (trim_start_matches ''version='' l)
      else version_lines ls)"

definition get_unraid_version :: "string option \<Rightarrow> error + string" where
  "get_unraid_version content =
     (case content of None \<Rightarrow> Inl Io | Some c \<Rightarrow> Inr (version_lines (str_lines c)))"

definition get_device_info :: "string \<Rightarrow> string option \<Rightarrow> json" where
  "get_device_info device_name version_file =
     JObj [(''identifiers'', JArr [JStr (''unraid_'' @ device_name)]),
           (''name'', JStr (''Unraid '' @ device_name)),
           (''model'', JStr ''Unraid Server''),
           (''manufacturer'', JStr ''Lime Technology''),
           (''sw_version'', JStr (case get_unraid_version version_file of Inr v \<Rightarrow> v | Inl _ \<Rightarrow> ''Unknown''))]"

section \<open>Properties\<close>

lemma version_lines_first:
  "\<forall>l \<in> set pre. \<not> prefix ''version='' l \<Longrightarrow> prefix ''version='' l \<Longrightarrow>
     version_lines (pre @ l # post) = trim_matches_char CHR 0x22 (trim_start_matches ''version='' l)"
  by (induction pre) auto

lemma version_lines_find:
  "version_lines ls =
     (case find (prefix ''version='') ls of
        None \<Rightarrow> ''Unknown''
      | Some l \<Rightarrow> trim_matches_char CHR 0x22 (trim_start_matches ''version='' l))"
  by (induction ls) auto

text \<open>C36: The sw_version of the device document is the quoted value of the first "version=" line.\<close>

lemma version_roundtrip:
  assumes "\<forall>l \<in> set (pre @ (''version='' @ CHR 0x22 # v @ [CHR 0x22]) # post). CHR 0x0A \<notin> set l \<and> (l = [] \<or> last l \<noteq> CHR 0x0D)"
    "\<forall>l \<in> set pre. \<not> prefix ''version='' l" "v = [] \<or> (hd v \<noteq> CHR 0x22 \<and> last v \<noteq> CHR 0x22)"
  shows "json_get (get_device_info d (Some (unlines (pre @ (''version='' @ CHR 0x22 # v @ [CHR 0x22]) # post)))) ''sw_version'' =
           Some (JStr v)"
proof -
  let ?l = "''version='' @ CHR 0x22 # v @ [CHR 0x22]"
  have t: "trim_start_matches ''version='' ?l = CHR 0x22 # v @ [CHR 0x22]"
  proof -
    have "trim_start_matches ''version='' ?l = trim_start_matches ''version='' (CHR 0x22 # v @ [CHR 0x22])"
      by (rule trim_start_matches_prefix) simp
    also have "\<dots> = CHR 0x22 # v @ [CHR 0x22]" by (rule trim_start_matches_no_prefix) simp
    finally show ?thesis .
  qed
  have q: "trim_matches_char CHR 0x22 (CHR 0x22 # v @ [CHR 0x22]) = v"
    using assms(3) by (rule trim_matches_char_wrap)
  have "version_lines (pre @ ?l # post) = v"
    using version_lines_first [OF assms(2), of ?l post] t q by simp
  then show ?thesis
    using assms(1) by (simp add: get_device_info_def get_unraid_version_def json_get_def str_lines_unlines)
qed

end
