(* ===== verification/MqttConfig.thy ===== *)
theory MqttConfig
  imports Prelude
begin

text \<open>
  The command-line arguments (\<open>Args\<close>, \<open>src/cli.rs\<close>, after clap has parsed them and applied
  the environment variables and defaults) and the MQTT settings derived from them
  (\<open>MqttConfig::from_args_and_file\<close>, \<open>MqttConfig::create_mqtt_client\<close>,
  \<open>src/mqtt_config.rs\<close>). Paths are strings. \<open>std::process::id()\<close> is an input. The
  options handed to \<open>rumqttc\<close> are the record \<open>mqtt_options\<close>.
\<close>

record args =
  a_host :: "string option"
  a_port :: u16
  a_client_id :: "string option"
  a_username :: "string option"
  a_password :: "string option"
  a_config_file :: "string option"
  a_sensor_dump :: "string option"
  a_json_output :: bool
  a_discovery_prefix :: string
  a_device_name :: string
  a_skip_discovery :: bool

record mqtt_config =
  m_host :: string
  m_port :: u16
  m_client_id :: string
  m_username :: string
  m_password :: string

definition from_args_and_file :: "args \<Rightarrow> u32 \<Rightarrow> error + mqtt_config" where
  "from_args_and_file a pid =
     (let c0 = \<lparr>m_host = [], m_port = a_port a, m_client_id = [], m_username = [], m_password = []\<rparr>;
          c1 = (case a_host a of Some h \<Rightarrow> c0\<lparr>m_host := h\<rparr> | None \<Rightarrow> c0);
          c2 = (case a_client_id a of Some i \<Rightarrow> c1\<lparr>m_client_id := i\<rparr> | None \<Rightarrow> c1);
          c3 = (case a_username a of Some u \<Rightarrow> c2\<lparr>m_username := u\<rparr> | None \<Rightarrow> c2);
          c4 = (case a_password a of Some p \<Rightarrow> c3\<lparr>m_password := p\<rparr> | None \<Rightarrow> c3)
      in if m_host c4 = []
         then Inl (Bail ''MQTT host is required. Set via --host, MQTT_HOST env var, or config file'')
         else if m_client_id c4 = []
         then Inr (c4\<lparr>m_client_id := ''unraid-mqtt-stats-'' @ show_nat (unat pid)\<rparr>)
         else Inr c4)"

record mqtt_options =
  mo_client_id :: string
  mo_host :: string
  mo_port :: u16
  mo_credentials :: "(string \<times> string) option"
  mo_keep_alive_secs :: nat
  mo_request_cap :: nat

text \<open>
  \<open>create_mqtt_client\<close>: the options, and the capacity 10 of the request channel of
  \<open>AsyncClient::new\<close>. It never fails.
\<close>

definition create_mqtt_client :: "mqtt_config \<Rightarrow> error + mqtt_options" where
  "create_mqtt_client c =
     Inr \<lparr>mo_client_id = m_client_id c, mo_host = m_host c, mo_port = m_port c,
          mo_credentials = (if m_username c \<noteq> [] \<and> m_password c \<noteq> [] then Some (m_username c, m_password c) else None),
          mo_keep_alive_secs = 5, mo_request_cap = 10\<rparr>"

section \<open>Properties\<close>

lemma host_required:
  "a_host a = None \<or> a_host a = Some [] \<Longrightarrow>
     from_args_and_file a pid = Inl (Bail ''MQTT host is required. Set via --host, MQTT_HOST env var, or config file'')"
  by (auto simp: from_args_and_file_def Let_def split: option.splits)

lemma mqtt_config_from_args:
  assumes "a_host a = Some h" "h \<noteq> []"
  shows "from_args_and_file a pid =
           Inr \<lparr>m_host = h, m_port = a_port a,
                m_client_id = (case a_client_id a of Some i \<Rightarrow> if i = [] then ''unraid-mqtt-stats-'' @ show_nat (unat pid) else i
                               | None \<Rightarrow> ''unraid-mqtt-stats-'' @ show_nat (unat pid)),
                m_username = (case a_username a of Some u \<Rightarrow> u | None \<Rightarrow> []),
                m_password = (case a_password a of Some p \<Rightarrow> p | None \<Rightarrow> [])\<rparr>"
  using assms by (auto simp: from_args_and_file_def Let_def split: option.splits)

lemma credentials_need_both:
  "create_mqtt_client c = Inr opts \<Longrightarrow>
     mo_credentials opts = (if m_username c \<noteq> [] \<and> m_password c \<noteq> [] then Some (m_username c, m_password c) else None)"
  by (auto simp: create_mqtt_client_def)

end
