(* ===== verification/Dump.thy ===== *)
theory Dump
  imports Override
begin

text \<open>
  The sensor dump: \<open>ConfigDump\<close>, \<open>SensorsDump\<close>, \<open>dump_serialize_sensors\<close> and
  \<open>dump_deserialize_sensors\<close> (\<open>src/config.rs\<close>) and the table that
  \<open>UnraidStats::dump_sensors_toml\<close> (\<open>src/unraid_stats.rs\<close>) writes. The TOML text is not
  modelled: a written entry is the data it carries, the tag \<open>type = "override"\<close> and the
  five fields \<open>Sensor\<close> serialises (\<open>id\<close> is skipped both ways, \<open>reporter\<close> is
  skipped and reads back as its default). The file can be read back in two ways: as a
  \<open>ConfigDump\<close>, whose hook gives every sensor its key as id, or as the user's
  \<open>Config\<close>, where the entry is a \<open>SensorConfig\<close> patch and \<open>deserialize_sensors\<close>
  gives it its key as id.
\<close>

section \<open>The dump's types and hooks\<close>

datatype sensors_dump = DumpSensorOverride sensor

record config_dump =
  cd_sensors :: "(string \<times> sensors_dump) list"

text \<open>What \<open>Serialize\<close> of a \<open>Sensor\<close> writes: every field but \<open>id\<close> and \<open>reporter\<close>.\<close>

record dump_entry =
  d_name :: string
  d_unit :: "string option"
  d_device_class :: "device_class option"
  d_icon :: "string option"
  d_disabled :: bool

definition serialize_sensor :: "sensor \<Rightarrow> dump_entry" where
  "serialize_sensor s =
     \<lparr>d_name = s_name s, d_unit = s_unit s, d_device_class = s_device_class s,
      d_icon = s_icon s, d_disabled = s_disabled s\<rparr>"

text \<open>\<open>Deserialize\<close> of a \<open>Sensor\<close>: the skipped fields take their defaults.\<close>

definition deserialize_sensor :: "dump_entry \<Rightarrow> sensor" where
  "deserialize_sensor d =
     default_sensor\<lparr>s_name := d_name d, s_unit := d_unit d, s_device_class := d_device_class d,
                    s_icon := d_icon d, s_disabled := d_disabled d\<rparr>"

text \<open>\<open>dump_serialize_sensors\<close>: the map serialised as it is, each value under its key.\<close>

definition dump_serialize_sensors :: "(string \<times> sensors_dump) list \<Rightarrow> (string \<times> dump_entry) list" where
  "dump_serialize_sensors m =
     map (\<lambda>(k, d). (k, case d of DumpSensorOverride s \<Rightarrow> serialize_sensor s)) m"

text \<open>\<open>dump_deserialize_sensors\<close>: the map read back, then every sensor takes its key as id.\<close>

definition dump_deserialize_sensors :: "(string \<times> dump_entry) list \<Rightarrow> (string \<times> sensors_dump) list" where
  "dump_deserialize_sensors w =
     map (\<lambda>(k, s). (k, case s of DumpSensorOverride x \<Rightarrow> DumpSensorOverride (x\<lparr>s_id := k\<rparr>)))
         (map (\<lambda>(k, d). (k, DumpSensorOverride (deserialize_sensor d))) w)"

text \<open>
  A written entry read as an entry of the user's \<open>Config\<close>: the tag selects
  \<open>Sensors::SensorOverride\<close>, the \<open>SensorConfig\<close> has the default id (it is
  \<open>skip_deserializing\<close>) and the name as \<open>Some\<close>.
\<close>

definition read_config_entry :: "dump_entry \<Rightarrow> sensors" where
  "read_config_entry d =
     SensorOverride \<lparr>c_id = [], c_name = Some (d_name d), c_unit = d_unit d,
                     c_device_class = d_device_class d, c_icon = d_icon d, c_disabled = d_disabled d\<rparr>"

text \<open>
  \<open>dump_sensors_toml\<close>: \<open>.map(|s| (s.id.clone(), SensorsDump::SensorOverride(s)))\<close>
  collected into a \<open>HashMap\<close>, so a later sensor with the same id replaces an earlier one.
\<close>

definition dump_sensors :: "sensor list \<Rightarrow> config_dump" where
  "dump_sensors xs = \<lparr>cd_sensors = fold (\<lambda>x m. AList.update (s_id x) (DumpSensorOverride x) m) xs []\<rparr>"

text \<open>The written dump read back as a \<open>ConfigDump\<close>, and as the user's \<open>Config\<close>.\<close>

definition load_dump :: "config_dump \<Rightarrow> config_dump" where
  "load_dump d = \<lparr>cd_sensors = dump_deserialize_sensors (dump_serialize_sensors (cd_sensors d))\<rparr>"

text \<open>The written file as the TOML table \<open>load_config\<close> parses, before its hook runs.\<close>

definition dump_config_table :: "config_dump \<Rightarrow> config" where
  "dump_config_table d = map (\<lambda>(k, w). (k, read_config_entry w)) (dump_serialize_sensors (cd_sensors d))"

definition load_dump_as_config :: "config_dump \<Rightarrow> config" where
  "load_dump_as_config d =
     deserialize_sensors (map (\<lambda>(k, w). (k, read_config_entry w)) (dump_serialize_sensors (cd_sensors d)))"

section \<open>Lookups in the dump\<close>

lemma deserialize_dump_table: "deserialize_sensors (dump_config_table d) = load_dump_as_config d"
  by (simp add: dump_config_table_def load_dump_as_config_def)

lemma map_of_fold_update:
  "map_of (fold (\<lambda>x m. AList.update (f x) (g x) m) xs m0) = fold (\<lambda>x m. m(f x \<mapsto> g x)) xs (map_of m0)"
  by (induction xs arbitrary: m0) (simp_all add: update_conv')

lemma fold_upd_distinct:
  "distinct (map f xs) \<Longrightarrow> fold (\<lambda>x m. m(f x \<mapsto> g x)) xs m0 = m0 ++ map_of (map (\<lambda>x. (f x, g x)) xs)"
proof (induction xs arbitrary: m0)
  case Nil
  then show ?case by simp
next
  case (Cons x xs)
  let ?M = "map_of (map (\<lambda>x. (f x, g x)) xs)"
  have d: "f x \<notin> dom ?M" using Cons.prems by (auto simp: dom_map_of_conv_image_fst image_image)
  have "fold (\<lambda>x m. m(f x \<mapsto> g x)) (x # xs) m0 = fold (\<lambda>x m. m(f x \<mapsto> g x)) xs (m0(f x \<mapsto> g x))"
    by (simp only: fold_Cons comp_apply)
  also have "\<dots> = m0(f x \<mapsto> g x) ++ ?M" by (rule Cons.IH) (use Cons.prems in simp)
  also have "\<dots> = (m0 ++ ?M)(f x \<mapsto> g x)" by (rule map_add_upd_left [OF d])
  also have "\<dots> = m0 ++ map_of (map (\<lambda>x. (f x, g x)) (x # xs))" by simp
  finally show ?case .
qed

text \<open>A lookup in a map whose values are rewritten with their key.\<close>

lemma map_of_map_keyed:
  "map_of (map (\<lambda>(k, v). (k, h k v)) xs) k = map_option (h k) (map_of xs k)"
  by (induction xs) auto

lemma dump_sensors_lookup:
  "distinct (map s_id xs) \<Longrightarrow>
     map_of (cd_sensors (dump_sensors xs)) = map_of (map (\<lambda>x. (s_id x, DumpSensorOverride x)) xs)"
  by (simp add: dump_sensors_def map_of_fold_update fold_upd_distinct)

lemma set_update_subset: "set (AList.update k v al) \<subseteq> insert (k, v) (set al)"
  by (induction al) auto

text \<open>Every key of the dump is the id of the sensor stored under it.\<close>

lemma fold_update_keys:
  "\<forall>(k, d) \<in> set m0. k = (case d of DumpSensorOverride s \<Rightarrow> s_id s) \<Longrightarrow>
     \<forall>(k, d) \<in> set (fold (\<lambda>x m. AList.update (s_id x) (DumpSensorOverride x) m) xs m0).
       k = (case d of DumpSensorOverride s \<Rightarrow> s_id s)"
proof (induction xs arbitrary: m0)
  case (Cons x xs)
  have "set (AList.update (s_id x) (DumpSensorOverride x) m0) \<subseteq> insert (s_id x, DumpSensorOverride x) (set m0)"
    by (rule set_update_subset)
  with Cons.prems have "\<forall>(k, d) \<in> set (AList.update (s_id x) (DumpSensorOverride x) m0).
                          k = (case d of DumpSensorOverride s \<Rightarrow> s_id s)" by fastforce
  then show ?case by (simp add: Cons.IH)
qed simp

lemma dump_sensors_keys:
  assumes "(k, DumpSensorOverride s) \<in> set (cd_sensors (dump_sensors xs))"
  shows "k = s_id s"
  using fold_update_keys [of "[]" xs] assms by (fastforce simp: dump_sensors_def)

lemma deserialize_serialize: "(deserialize_sensor (serialize_sensor s))\<lparr>s_id := s_id s\<rparr> = s\<lparr>s_reporter := None\<rparr>"
  by (cases s) (simp add: deserialize_sensor_def serialize_sensor_def default_sensor_def)

lemma read_config_entry_serialize:
  "read_config_entry (serialize_sensor s) = SensorOverride ((dump_override s)\<lparr>c_id := []\<rparr>)"
  by (simp add: read_config_entry_def serialize_sensor_def dump_override_def)

lemma deserialize_sensors_lookup:
  "map_of (deserialize_sensors c) k =
     map_option (\<lambda>e. case e of SensorOverride u \<Rightarrow> SensorOverride (u\<lparr>c_id := k\<rparr>)
                           | SensorCommand x \<Rightarrow> SensorCommand (x\<lparr>cmd_id := k\<rparr>)) (map_of c k)"
  unfolding deserialize_sensors_def by (rule map_of_map_keyed)

lemma dump_serialize_lookup:
  "map_of (dump_serialize_sensors m) k =
     map_option (\<lambda>d. case d of DumpSensorOverride s \<Rightarrow> serialize_sensor s) (map_of m k)"
  unfolding dump_serialize_sensors_def by (rule map_of_map_keyed)

lemma load_dump_as_config_lookup:
  "map_of (load_dump_as_config D) k =
     map_option (\<lambda>d. case d of DumpSensorOverride s \<Rightarrow> SensorOverride ((dump_override s)\<lparr>c_id := k\<rparr>))
       (map_of (cd_sensors D) k)"
proof -
  have r: "map_of (map (\<lambda>(k, w). (k, read_config_entry w)) W) k = map_option read_config_entry (map_of W k)"
    for W by (rule map_of_map_keyed)
  show ?thesis
    by (cases "map_of (cd_sensors D) k")
       (auto simp: load_dump_as_config_def deserialize_sensors_lookup r dump_serialize_lookup
          read_config_entry_serialize split: sensors_dump.splits)
qed

lemma load_dump_as_config_no_commands: "command_sensors (load_dump_as_config D) = []"
  by (induction "cd_sensors D" arbitrary: D)
     (auto simp: command_sensors_def load_dump_as_config_def deserialize_sensors_def
        dump_serialize_sensors_def read_config_entry_def split: sensors_dump.splits)

text \<open>C15: The dump read back as a ConfigDump gives every dumped sensor back under its id, only without its reporter.\<close>

theorem dump_reload:
  "load_dump (dump_sensors xs) =
     \<lparr>cd_sensors = map (\<lambda>(k, d). (k, case d of DumpSensorOverride s \<Rightarrow> DumpSensorOverride (s\<lparr>s_reporter := None\<rparr>)))
                     (cd_sensors (dump_sensors xs))\<rparr>"
proof -
  have k: "(deserialize_sensor (serialize_sensor s))\<lparr>s_id := k\<rparr> = s\<lparr>s_reporter := None\<rparr>"
    if "(k, DumpSensorOverride s) \<in> set (cd_sensors (dump_sensors xs))" for k s
    using dump_sensors_keys [OF that] deserialize_serialize by simp
  show ?thesis
    unfolding load_dump_def dump_deserialize_sensors_def dump_serialize_sensors_def
    by (auto intro!: map_cong simp: k split: sensors_dump.splits)
qed

lemma dump_reapply_same:
  assumes dist: "distinct (map s_id xs)" and nostar: "\<forall>s \<in> set xs. \<not> sublist ''_*_'' (s_id s)"
  shows "apply_config (Some (load_dump_as_config (dump_sensors xs))) xs = xs"
proof -
  let ?cfg = "load_dump_as_config (dump_sensors xs)"
  have dist': "distinct (map fst (map (\<lambda>x. (s_id x, DumpSensorOverride x)) xs))"
    using dist by (simp add: comp_def)
  have "override_sensor ?cfg s = s" if s: "s \<in> set xs" for s
  proof -
    have "star_id (s_id s) \<notin> fst ` set (map (\<lambda>x. (s_id x, DumpSensorOverride x)) xs)"
      using nostar star_id_has_star [of "s_id s"] by auto
    then have star: "map_of ?cfg (star_id (s_id s)) = None"
      by (simp add: load_dump_as_config_lookup dump_sensors_lookup [OF dist] map_of_eq_None_iff)
    have "map_of (map (\<lambda>x. (s_id x, DumpSensorOverride x)) xs) (s_id s) = Some (DumpSensorOverride s)"
      using s by (intro map_of_is_SomeI [OF dist']) auto
    then have own: "map_of ?cfg (s_id s) = Some (SensorOverride (dump_override s))"
      by (simp add: load_dump_as_config_lookup dump_sensors_lookup [OF dist] dump_override_def)
    show ?thesis by (simp add: override_sensor_def star own merge_dump)
  qed
  then show ?thesis
    by (simp add: apply_config_def load_dump_as_config_no_commands map_idI)
qed

text \<open>C13: Reading the dump back as the configuration file and applying it to the sensors it was taken from changes nothing, when their ids are distinct and none contains "_*_".\<close>

theorem dump_reapply:
  assumes dist: "distinct (map s_id xs)" and nostar: "\<forall>s \<in> set xs. \<not> sublist ''_*_'' (s_id s)"
  shows "apply_config (Some (load_dump_as_config (dump_sensors xs))) xs = xs"
  using assms by (rule dump_reapply_same)

end
