(* ===== verification/Publisher.thy ===== *)
theory Publisher
  imports Catalog Reporters Device MqttConfig Dump
begin

text \<open>
  The publisher of \<open>UnraidStats\<close> (\<open>src/unraid_stats.rs\<close>): \<open>publish_raw\<close>,
  \<open>publish_ha_state\<close>, the discovery pass \<open>publish_discovery\<close>, the value pass
  \<open>publish_stats\<close>, and the program entry \<open>main\<close> (\<open>src/main.rs\<close>) that sequences them.
  The state \<open>pstate\<close> extends the reporters' store with the messages emitted so far and
  with the answers the MQTT client will give to the coming publishes (\<open>link\<close>: \<open>True\<close>
  accepted, \<open>False\<close> rejected, all accepted once the list is used up). A message is a
  line printed in JSON mode, a publish handed to the client, or the dump file written. A
  discovery payload is kept as the JSON value (its serialisation by \<open>serde_json\<close> is not
  modelled). \<open>?\<close> is \<open>try_then\<close>: an error ends the pass and is returned with the state
  reached.
\<close>

record app =
  sensor_config :: "config option"
  json_output :: bool
  discovery_prefix :: string
  device_name :: string
  skip_discovery :: bool

datatype payload = PText string | PJson json

datatype message =
    Print string payload
  | Publish string payload bool
  | DumpFile string config_dump

record pstate = rstate +
  log :: "message list"
  link :: "bool list"

definition try_then ::
  "(error + 'a) \<times> 's \<Rightarrow> ('s \<Rightarrow> (error + 'b) \<times> 's) \<Rightarrow> (error + 'b) \<times> 's" where
  "try_then r f = (case r of (Inl err, s') \<Rightarrow> (Inl err, s') | (Inr _, s') \<Rightarrow> f s')"

section \<open>Messages\<close>

text \<open>\<open>client.publish(topic, QoS::AtLeastOnce, retain, payload).await?\<close>.\<close>

definition transport_publish ::
  "string \<Rightarrow> payload \<Rightarrow> bool \<Rightarrow> 'a pstate_scheme \<Rightarrow> (error + unit) \<times> 'a pstate_scheme" where
  "transport_publish topic p retain s =
     (case link s of
        [] \<Rightarrow> (Inr (), s\<lparr>log := log s @ [Publish topic p retain]\<rparr>)
      | ok # rest \<Rightarrow>
          (if ok then (Inr (), s\<lparr>log := log s @ [Publish topic p retain], link := rest\<rparr>)
           else (Inl Transport, s\<lparr>link := rest\<rparr>)))"

definition publish_raw ::
  "app \<Rightarrow> bool \<Rightarrow> string \<Rightarrow> payload \<Rightarrow> bool \<Rightarrow> 'a pstate_scheme \<Rightarrow> (error + unit) \<times> 'a pstate_scheme" where
  "publish_raw a client topic p retain s =
     (if json_output a then (Inr (), s\<lparr>log := log s @ [Print topic p]\<rparr>)
      else if client then transport_publish topic p retain s
      else (Inr (), s))"

definition publish_ha_state ::
  "app \<Rightarrow> bool \<Rightarrow> string \<Rightarrow> string \<Rightarrow> 'a pstate_scheme \<Rightarrow> (error + unit) \<times> 'a pstate_scheme" where
  "publish_ha_state a client topic v s =
     (if json_output a then (Inr (), s\<lparr>log := log s @ [Print topic (PText v)]\<rparr>)
      else if client then publish_raw a True topic (PText v) False s
      else (Inr (), s))"

section \<open>The two passes\<close>

text \<open>\<open>UnraidStats::sensors\<close> with the running containers the engine reports.\<close>

definition sensors_of :: "app \<Rightarrow> env \<Rightarrow> sensor list" where
  "sensors_of a e = unraid_sensors (device_name a) (running_containers e) (sensor_config a)"

definition node_id :: "app \<Rightarrow> string" where
  "node_id a = ''unraid_'' @ device_name a"

fun discovery_loop ::
  "app \<Rightarrow> bool \<Rightarrow> json \<Rightarrow> sensor list \<Rightarrow> 'a pstate_scheme \<Rightarrow> (error + unit) \<times> 'a pstate_scheme" where
  "discovery_loop a client di [] s = (Inr (), s)"
| "discovery_loop a client di (x # xs) s =
     (if s_disabled x then discovery_loop a client di xs s
      else try_then
             (publish_raw a client (discovery_topic x (discovery_prefix a) (node_id a))
                (PJson (disovery_config x (device_name a) (node_id a) di)) True s)
             (discovery_loop a client di xs))"

definition publish_discovery ::
  "app \<Rightarrow> env \<Rightarrow> bool \<Rightarrow> 'a pstate_scheme \<Rightarrow> (error + unit) \<times> 'a pstate_scheme" where
  "publish_discovery a e client s =
     (if skip_discovery a then (Inr (), s)
      else discovery_loop a client (get_device_info (device_name a) (version_file e)) (sensors_of a e) s)"

fun stats_loop ::
  "app \<Rightarrow> env \<Rightarrow> bool \<Rightarrow> sensor list \<Rightarrow> 'a pstate_scheme \<Rightarrow> (error + unit) \<times> 'a pstate_scheme" where
  "stats_loop a e client [] s = (Inr (), s)"
| "stats_loop a e client (x # xs) s =
     (if s_disabled x then stats_loop a e client xs s
      else case s_reporter x of
             None \<Rightarrow> stats_loop a e client xs s
           | Some rep \<Rightarrow>
               (case reporter_get_value e rep s of
                  (Inl err, s') \<Rightarrow> (Inl err, s')
                | (Inr None, s') \<Rightarrow> stats_loop a e client xs s'
                | (Inr (Some v), s') \<Rightarrow>
                    try_then (publish_ha_state a client (sensor_topic x (node_id a)) v s')
                      (stats_loop a e client xs)))"

text \<open>
  \<open>publish_stats\<close> builds the sensors anew, so every stats cell starts empty: the store is
  cleared before the pass.
\<close>

definition publish_stats ::
  "app \<Rightarrow> env \<Rightarrow> bool \<Rightarrow> 'a pstate_scheme \<Rightarrow> (error + unit) \<times> 'a pstate_scheme" where
  "publish_stats a e client s = stats_loop a e client (sensors_of a e) (s\<lparr>stash := (\<lambda>_. None)\<rparr>)"

section \<open>The program\<close>

text \<open>
  \<open>config::load_config\<close>: both \<open>expect\<close> calls panic (the panic message is followed by
  the error's \<open>Debug\<close> form, not modelled); a parsed table goes through the
  \<open>deserialize_sensors\<close> hook.
\<close>

definition load_config :: "config option option \<Rightarrow> error + config" where
  "load_config r =
     (case r of
        None \<Rightarrow> Inl (Panic ''Failed to read config file'')
      | Some None \<Rightarrow> Inl (Panic ''Failed to parse config file'')
      | Some (Some t) \<Rightarrow> Inr (deserialize_sensors t))"

text \<open>
  \<open>UnraidStats::new\<close>: \<open>Docker::connect_with_socket_defaults()?\<close> first, then the
  configuration is loaded when a file is given.
\<close>

definition new_app :: "args \<Rightarrow> env \<Rightarrow> error + app" where
  "new_app a e =
     (if \<not> docker_connects e then Inl Engine
      else case (case a_config_file a of
                   None \<Rightarrow> Inr None
                 | Some _ \<Rightarrow> (case load_config (config_file e) of Inl err \<Rightarrow> Inl err | Inr c \<Rightarrow> Inr (Some c))) of
             Inl err \<Rightarrow> Inl err
           | Inr sc \<Rightarrow>
               Inr \<lparr>sensor_config = sc, json_output = a_json_output a, discovery_prefix = a_discovery_prefix a,
                    device_name = a_device_name a, skip_discovery = a_skip_discovery a\<rparr>)"

text \<open>
  \<open>dump_sensors_toml\<close>: the dump (theory \<open>Dump\<close>) of the sensors. \<open>toml::to_string\<close>
  cannot fail on it (string keys, one level of tables of scalars); \<open>fs::write(filename, ..)?\<close>
  fails when the environment's \<open>dump_writes\<close> is false, with the I/O error.
\<close>

definition dump_table :: "app \<Rightarrow> env \<Rightarrow> config_dump" where
  "dump_table a e = dump_sensors (sensors_of a e)"

definition main_run :: "args \<Rightarrow> env \<Rightarrow> 'a pstate_scheme \<Rightarrow> (error + unit) \<times> 'a pstate_scheme" where
  "main_run a e s =
     (case new_app a e of
        Inl err \<Rightarrow> (Inl err, s)
      | Inr st \<Rightarrow>
        case a_sensor_dump a of
           Some path \<Rightarrow>
             if dump_writes e then (Inr (), s\<lparr>log := log s @ [DumpFile path (dump_table st e)]\<rparr>)
             else (Inl Io, s)
         | None \<Rightarrow>
             if a_json_output a then try_then (publish_discovery st e False s) (publish_stats st e False)
             else case from_args_and_file a (process_id e) of
                    Inl err \<Rightarrow> (Inl err, s)
                  | Inr c \<Rightarrow>
                      (case create_mqtt_client c of
                         Inl err \<Rightarrow> (Inl err, s)
                       | Inr _ \<Rightarrow>
                           try_then (if \<not> a_skip_discovery a then publish_discovery st e True s else (Inr (), s))
                             (publish_stats st e True)))"

section \<open>What the passes should do\<close>

text \<open>The discovery messages of the enabled sensors, in list order, each retained.\<close>

definition discovery_messages :: "app \<Rightarrow> json \<Rightarrow> sensor list \<Rightarrow> message list" where
  "discovery_messages a di xs =
     map (\<lambda>x. Publish (discovery_topic x (discovery_prefix a) (node_id a))
                 (PJson (disovery_config x (device_name a) (node_id a) di)) True)
         (filter (\<lambda>x. \<not> s_disabled x) xs)"

text \<open>The line printed in JSON mode in place of a publish.\<close>

fun to_print :: "message \<Rightarrow> message" where
  "to_print (Publish t p r) = Print t p"
| "to_print m = m"

text \<open>A message of the value pass: the state topic of an enabled sensor, never retained.\<close>

definition state_message :: "app \<Rightarrow> sensor list \<Rightarrow> message \<Rightarrow> bool" where
  "state_message a xs m \<longleftrightarrow>
     (\<exists>x \<in> set xs. \<not> s_disabled x \<and>
        (\<exists>v. m = Publish (sensor_topic x (node_id a)) (PText v) False \<or> m = Print (sensor_topic x (node_id a)) (PText v)))"

text \<open>
  \<open>rep_ok e r rep\<close>: a container reporter on cell \<open>r\<close> has an id whose stats query returns a
  sample; \<open>cell_ok\<close> says it of every reporter of a sensor list.
\<close>

definition rep_ok :: "env \<Rightarrow> stash_ref \<Rightarrow> reporter \<Rightarrow> bool" where
  "rep_ok e r rep =
     (case rep of
        DockerContainer c r' stat \<Rightarrow>
          r' \<noteq> r \<or> (case cs_id c of None \<Rightarrow> False
                      | Some cid \<Rightarrow> (case container_stats e cid of None \<Rightarrow> False | Some _ \<Rightarrow> True))
      | _ \<Rightarrow> True)"

definition cell_ok :: "env \<Rightarrow> stash_ref \<Rightarrow> sensor list \<Rightarrow> bool" where
  "cell_ok e r xs = list_all (\<lambda>x. case s_reporter x of None \<Rightarrow> True | Some rep \<Rightarrow> rep_ok e r rep) xs"

text \<open>The stats queries issued for cell \<open>r\<close>, and the same count plus one while the cell is empty.\<close>

definition cell_queries :: "stash_ref \<Rightarrow> 'a rstate_scheme \<Rightarrow> nat" where
  "cell_queries r s = length (filter (\<lambda>q. fst q = r) (queries s))"

definition cell_phi :: "stash_ref \<Rightarrow> 'a rstate_scheme \<Rightarrow> nat" where
  "cell_phi r s = cell_queries r s + (if stash s r = None then 1 else 0)"

section \<open>Properties\<close>

subsection \<open>Messages\<close>

lemma try_then_Inl [simp]: "try_then (Inl err, s) f = (Inl err, s)"
  by (simp add: try_then_def)

lemma try_then_Inr [simp]: "try_then (Inr x, s) f = f s"
  by (simp add: try_then_def)

lemma discovery_messages_simps [simp]:
  "discovery_messages a di [] = []"
  "s_disabled x \<Longrightarrow> discovery_messages a di (x # xs) = discovery_messages a di xs"
  "\<not> s_disabled x \<Longrightarrow> discovery_messages a di (x # xs) =
     Publish (discovery_topic x (discovery_prefix a) (node_id a))
       (PJson (disovery_config x (device_name a) (node_id a) di)) True # discovery_messages a di xs"
  by (simp_all add: discovery_messages_def)

lemma length_discovery_messages:
  "length (discovery_messages a di xs) = length (filter (\<lambda>x. \<not> s_disabled x) xs)"
  by (simp add: discovery_messages_def)

lemma publish_ha_state_eq_raw:
  "publish_ha_state a client topic v s = publish_raw a client topic (PText v) False s"
  by (simp add: publish_ha_state_def publish_raw_def)

lemma publish_raw_store:
  "stash (snd (publish_raw a client t p r s)) = stash s"
  "queries (snd (publish_raw a client t p r s)) = queries s"
  by (simp_all add: publish_raw_def transport_publish_def split: list.splits)

lemma publish_raw_log:
  "\<exists>ms. log (snd (publish_raw a client t p r s)) = log s @ ms \<and> length ms \<le> 1 \<and>
        (\<forall>m \<in> set ms. m = Publish t p r \<or> m = Print t p)"
  by (auto simp: publish_raw_def transport_publish_def split: list.splits)

lemma reporter_log: "log (snd (reporter_get_value e rep s)) = log s \<and> link (snd (reporter_get_value e rep s)) = link s"
  by (simp add: reporter_get_value_def container_get_value_def Let_def
      split: reporter.splits option.splits)

lemma reporter_not_transport: "reporter_get_value e rep t \<noteq> (Inl Transport, t')"
  by (auto simp: reporter_get_value_def container_get_value_def Let_def
      split: reporter.splits if_splits option.splits)

subsection \<open>The discovery pass\<close>

lemma discovery_loop_accepted:
  assumes "\<not> json_output a" "\<forall>b \<in> set (take (length (filter (\<lambda>x. \<not> s_disabled x) xs)) (link s)). b"
  shows "discovery_loop a True di xs s =
           (Inr (), s\<lparr>log := log s @ discovery_messages a di xs,
                     link := drop (length (filter (\<lambda>x. \<not> s_disabled x) xs)) (link s)\<rparr>)"
  using assms(2)
proof (induction xs arbitrary: s)
  case Nil
  then show ?case by simp
next
  case (Cons x xs)
  show ?case
  proof (cases "s_disabled x")
    case True
    with Cons show ?thesis by simp
  next
    case False
    show ?thesis
    proof (cases "link s")
      case Nil
      with Cons.IH [of "s\<lparr>log := log s @ _\<rparr>"] False assms(1) show ?thesis
        by (simp add: publish_raw_def transport_publish_def)
    next
      case (Cons b bs)
      with Cons.prems False have "b" by simp
      with Cons.IH [of "s\<lparr>log := _, link := bs\<rparr>"] Cons.prems \<open>link s = b # bs\<close> False assms(1)
      show ?thesis by (simp add: publish_raw_def transport_publish_def)
    qed
  qed
qed

lemma discovery_loop_rejected:
  assumes "\<not> json_output a" "discovery_loop a True di xs s = (Inl err, s')"
  shows "err = Transport \<and>
         log s' = log s @ take (length (takeWhile id (link s))) (discovery_messages a di xs) \<and>
         length (takeWhile id (link s)) < length (discovery_messages a di xs)"
  using assms(2)
proof (induction xs arbitrary: s)
  case Nil
  then show ?case by simp
next
  case (Cons x xs)
  show ?case
  proof (cases "s_disabled x")
    case True
    with Cons show ?thesis by simp
  next
    case False
    show ?thesis
    proof (cases "link s")
      case Nil
      have "discovery_loop a True di (x # xs) s =
              (Inr (), s\<lparr>log := log s @ discovery_messages a di (x # xs),
                        link := drop (length (filter (\<lambda>x. \<not> s_disabled x) (x # xs))) (link s)\<rparr>)"
        by (rule discovery_loop_accepted [OF assms(1)]) (simp add: Nil)
      with Cons.prems show ?thesis by simp
    next
      case (Cons b bs)
      show ?thesis
      proof (cases b)
        case True
        with Cons Cons.prems False assms(1)
        have "discovery_loop a True di xs
                (s\<lparr>log := log s @ [hd (discovery_messages a di (x # xs))], link := bs\<rparr>) = (Inl err, s')"
          by (simp add: publish_raw_def transport_publish_def)
        from Cons.IH [OF this] \<open>link s = b # bs\<close> True False show ?thesis by simp
      next
        case b: False
        with Cons Cons.prems False assms(1) show ?thesis
          by (auto simp: publish_raw_def transport_publish_def)
      qed
    qed
  qed
qed

lemma discovery_loop_json:
  "json_output a \<Longrightarrow>
     discovery_loop a client di xs s = (Inr (), s\<lparr>log := log s @ map to_print (discovery_messages a di xs)\<rparr>)"
  by (induction xs arbitrary: s) (auto simp: publish_raw_def)

text \<open>C7: With an accepting client the discovery pass publishes one retained document per enabled sensor, in order.\<close>

lemma discovery_pass_accepted:
  assumes "\<not> skip_discovery a" "\<not> json_output a" "\<forall>b \<in> set (link s). b"
  shows "publish_discovery a e True s =
           (Inr (), s\<lparr>log := log s @ discovery_messages a (get_device_info (device_name a) (version_file e)) (sensors_of a e),
                     link := drop (length (filter (\<lambda>x. \<not> s_disabled x) (sensors_of a e))) (link s)\<rparr>)"
proof -
  have "\<forall>b \<in> set (take (length (filter (\<lambda>x. \<not> s_disabled x) (sensors_of a e))) (link s)). b"
    using assms(3) by (auto dest: in_set_takeD)
  then show ?thesis by (simp add: publish_discovery_def assms(1) discovery_loop_accepted [OF assms(2)])
qed

text \<open>C8: A rejected publish ends the discovery pass with the transport error after the documents accepted before it.\<close>

lemma discovery_pass_rejected:
  assumes "\<not> json_output a" "publish_discovery a e True s = (Inl err, s')"
  shows "err = Transport \<and>
         log s' = log s @ take (length (takeWhile id (link s)))
                    (discovery_messages a (get_device_info (device_name a) (version_file e)) (sensors_of a e))"
proof -
  have "\<not> skip_discovery a" using assms(2) by (auto simp: publish_discovery_def)
  then have "discovery_loop a True (get_device_info (device_name a) (version_file e)) (sensors_of a e) s = (Inl err, s')"
    using assms(2) by (simp add: publish_discovery_def)
  from discovery_loop_rejected [OF assms(1) this] show ?thesis by simp
qed

lemma discovery_json:
  "json_output a \<Longrightarrow> fst (publish_discovery a e client s) = Inr ()"
  by (simp add: publish_discovery_def discovery_loop_json)

subsection \<open>The value pass\<close>

text \<open>Every reporter call and every publish leaves \<open>cell_phi r\<close> unchanged, so a pass issues at most one query per cell whose container has stats.\<close>

lemma reporter_cell_phi:
  "rep_ok e r rep \<Longrightarrow> cell_phi r (snd (reporter_get_value e rep s)) = cell_phi r s"
  by (auto simp: rep_ok_def cell_phi_def cell_queries_def reporter_get_value_def container_get_value_def
      Let_def split: reporter.splits option.splits if_splits)

lemma stats_loop_invariant:
  assumes rep: "\<And>x rep t. x \<in> set xs \<Longrightarrow> s_reporter x = Some rep \<Longrightarrow> Q t \<Longrightarrow> Q (snd (reporter_get_value e rep t))"
    and pub: "\<And>x v t. x \<in> set xs \<Longrightarrow> Q t \<Longrightarrow> Q (snd (publish_ha_state a client (sensor_topic x (node_id a)) v t))"
    and q: "Q s"
  shows "Q (snd (stats_loop a e client xs s))"
  using rep pub q
proof (induction xs arbitrary: s)
  case (Cons x xs)
  have ih: "Q t \<Longrightarrow> Q (snd (stats_loop a e client xs t))" for t
    using Cons.prems(1,2) by (intro Cons.IH) auto
  show ?case
  proof (cases "\<not> s_disabled x \<and> s_reporter x \<noteq> None")
    case True
    then obtain rep where r: "s_reporter x = Some rep" "\<not> s_disabled x" by auto
    obtain res s' where g: "reporter_get_value e rep s = (res, s')" by fastforce
    have q': "Q s'" using Cons.prems(1) [of x rep s] Cons.prems(3) r g by simp
    obtain res2 s2 where h: "publish_ha_state a client (sensor_topic x (node_id a)) (the (projr res)) s' = (res2, s2)"
      by fastforce
    have "Q (snd (publish_ha_state a client (sensor_topic x (node_id a)) (the (projr res)) s'))"
      by (rule Cons.prems(2)) (simp_all add: q')
    then have q2: "Q s2" using h by simp
    show ?thesis
      using r g q' q2 h ih by (cases res2) (auto split: sum.splits option.splits)
  next
    case False
    with ih [OF Cons.prems(3)] show ?thesis by (auto split: option.splits)
  qed
qed simp

lemma stats_loop_cell_phi:
  "cell_ok e r xs \<Longrightarrow> cell_phi r (snd (stats_loop a e client xs s)) = cell_phi r s"
proof (rule stats_loop_invariant [where Q = "\<lambda>t. cell_phi r t = cell_phi r s"])
  fix x rep and t :: "'a pstate_scheme"
  assume "cell_ok e r xs" "x \<in> set xs" "s_reporter x = Some rep" "cell_phi r t = cell_phi r s"
  then show "cell_phi r (snd (reporter_get_value e rep t)) = cell_phi r s"
    by (auto simp: cell_ok_def list_all_iff reporter_cell_phi)
next
  fix x v and t :: "'a pstate_scheme"
  have "cell_phi r (snd (publish_ha_state a client (sensor_topic x (node_id a)) v t)) = cell_phi r t"
    by (simp add: publish_ha_state_def publish_raw_def transport_publish_def cell_phi_def
        cell_queries_def split: list.splits)
  also assume "cell_phi r t = cell_phi r s"
  finally show "cell_phi r (snd (publish_ha_state a client (sensor_topic x (node_id a)) v t)) = cell_phi r s" .
qed simp

text \<open>C5: A value pass queries the stats of a container at most once when its stats stream yields a sample.\<close>

lemma one_query_per_cell:
  assumes "cell_ok e r (sensors_of a e)"
  shows "cell_queries r (snd (publish_stats a e client s)) \<le> cell_queries r s + 1"
proof -
  let ?s0 = "s\<lparr>stash := (\<lambda>_. None)\<rparr>"
  have "cell_phi r (snd (stats_loop a e client (sensors_of a e) ?s0)) = cell_phi r ?s0"
    by (rule stats_loop_cell_phi [OF assms])
  moreover have "cell_phi r ?s0 = cell_queries r s + 1" by (simp add: cell_phi_def cell_queries_def)
  ultimately show ?thesis by (simp add: publish_stats_def cell_phi_def split: if_splits)
qed

lemma state_message_Cons: "state_message a xs m \<Longrightarrow> state_message a (x # xs) m"
  by (auto simp: state_message_def)

lemma stats_loop_Cons_step:
  "\<exists>t ms. log t = log s @ ms \<and> length ms \<le> (if s_disabled x then 0 else 1) \<and>
          (\<forall>m \<in> set ms. state_message a [x] m) \<and>
          (stats_loop a e client (x # xs) s = stats_loop a e client xs t \<or>
           (\<exists>err. stats_loop a e client (x # xs) s = (Inl err, t)))"
proof (cases "\<not> s_disabled x \<and> s_reporter x \<noteq> None")
  case False
  then show ?thesis by (intro exI [of _ s] exI [of _ "[]"]) (auto split: option.splits)
next
  case True
  then obtain rep where r: "s_reporter x = Some rep" "\<not> s_disabled x" by auto
  obtain res s' where g: "reporter_get_value e rep s = (res, s')" by fastforce
  have l': "log s' = log s" using reporter_log [of e rep s] g by simp
  show ?thesis
  proof (cases "\<exists>val. res = Inr (Some val)")
    case False
    then consider err where "res = Inl err" | "res = Inr None" by (metis old.sum.exhaust option.exhaust)
    then show ?thesis using r g l' by cases (intro exI [of _ s'] exI [of _ "[]"], simp)+
  next
    case True
    then obtain val where v: "res = Inr (Some val)" by blast
    obtain res2 s2 where h: "publish_ha_state a client (sensor_topic x (node_id a)) val s' = (res2, s2)"
      by fastforce
    obtain ms1 where m1: "log s2 = log s' @ ms1" "length ms1 \<le> 1"
      "\<forall>m \<in> set ms1. m = Publish (sensor_topic x (node_id a)) (PText val) False \<or>
                      m = Print (sensor_topic x (node_id a)) (PText val)"
      using publish_raw_log [of a client "sensor_topic x (node_id a)" "PText val" False s'] h
      by (auto simp: publish_ha_state_eq_raw)
    have "\<forall>m \<in> set ms1. state_message a [x] m" using m1(3) r(2) by (auto simp: state_message_def)
    with r g v h m1 l' show ?thesis by (intro exI [of _ s2] exI [of _ ms1]) (cases res2; simp)
  qed
qed

lemma stats_loop_log:
  "\<exists>ms. log (snd (stats_loop a e client xs s)) = log s @ ms \<and>
        length ms \<le> length (filter (\<lambda>x. \<not> s_disabled x) xs) \<and> (\<forall>m \<in> set ms. state_message a xs m)"
proof (induction xs arbitrary: s)
  case Nil
  then show ?case by simp
next
  case (Cons x xs)
  obtain t ms where st: "log t = log s @ ms" "length ms \<le> (if s_disabled x then 0 else 1)"
      "\<forall>m \<in> set ms. state_message a [x] m"
    and k: "stats_loop a e client (x # xs) s = stats_loop a e client xs t \<or>
            (\<exists>err. stats_loop a e client (x # xs) s = (Inl err, t))"
    using stats_loop_Cons_step [of s x a e client xs] by blast
  have sm: "\<forall>m \<in> set ms. state_message a (x # xs) m" using st(3) by (auto simp: state_message_def)
  from k show ?case
  proof
    assume eq: "stats_loop a e client (x # xs) s = stats_loop a e client xs t"
    obtain ms2 where "log (snd (stats_loop a e client xs t)) = log t @ ms2"
      "length ms2 \<le> length (filter (\<lambda>x. \<not> s_disabled x) xs)" "\<forall>m \<in> set ms2. state_message a xs m"
      using Cons.IH [of t] by blast
    with eq st sm state_message_Cons show ?thesis by (intro exI [of _ "ms @ ms2"]) auto
  next
    assume "\<exists>err. stats_loop a e client (x # xs) s = (Inl err, t)"
    with st sm show ?thesis by (intro exI [of _ ms]) auto
  qed
qed

text \<open>C9: The value pass emits at most one unretained message per enabled sensor, on that sensor state topic.\<close>

lemma stats_pass_messages:
  "\<exists>ms. log (snd (publish_stats a e client s)) = log s @ ms \<and>
        length ms \<le> length (filter (\<lambda>x. \<not> s_disabled x) (sensors_of a e)) \<and>
        (\<forall>m \<in> set ms. state_message a (sensors_of a e) m)"
  using stats_loop_log [of a e client "sensors_of a e" "s\<lparr>stash := (\<lambda>_. None)\<rparr>"]
  by (simp add: publish_stats_def)

lemma stats_loop_json_no_transport:
  "json_output a \<Longrightarrow> fst (stats_loop a e client xs s) \<noteq> Inl Transport"
proof (induction xs arbitrary: s)
  case Nil
  then show ?case by simp
next
  case (Cons x xs)
  show ?case
  proof (cases "\<not> s_disabled x \<and> s_reporter x \<noteq> None")
    case True
    then obtain rep where rep: "s_reporter x = Some rep" "\<not> s_disabled x" by auto
    obtain res s' where g: "reporter_get_value e rep s = (res, s')" by fastforce
    have "res \<noteq> Inl Transport" using reporter_not_transport [of e rep s s'] g by auto
    with rep g Cons show ?thesis
      by (auto simp: publish_ha_state_def split: option.splits sum.splits)
  next
    case False
    with Cons show ?thesis by (auto split: option.splits)
  qed
qed

subsection \<open>The program\<close>

subsection \<open>Start-up\<close>

lemma load_config_Inl: "load_config r = Inl err \<Longrightarrow> \<exists>m. err = Panic m"
  by (auto simp: load_config_def split: option.splits)

lemma new_app_Inl:
  "new_app a e = Inl err \<longleftrightarrow>
     (\<not> docker_connects e \<and> err = Engine) \<or>
     (docker_connects e \<and> a_config_file a \<noteq> None \<and> load_config (config_file e) = Inl err)"
  by (auto simp: new_app_def split: option.splits sum.splits)


lemma main_json_never_transport:
  "a_sensor_dump a = None \<Longrightarrow> a_json_output a \<Longrightarrow> fst (main_run a e s) \<noteq> Inl Transport"
proof (cases "new_app a e")
  case (Inl err)
  then have "err = Engine \<or> (\<exists>m. err = Panic m)" using load_config_Inl by (auto simp: new_app_Inl)
  with Inl show ?thesis by (auto simp: main_run_def)
next
  case (Inr st)
  assume d: "a_sensor_dump a = None" and j: "a_json_output a"
  let ?st = st
  have js: "json_output ?st" using j Inr by (auto simp: new_app_def split: if_splits option.splits sum.splits)
  obtain r' s' where p0: "publish_discovery ?st e False s = (r', s')" by (cases "publish_discovery ?st e False s")
  with discovery_json [OF js, of e False s] have p: "publish_discovery ?st e False s = (Inr (), s')" by simp
  have "fst (stats_loop ?st e False (sensors_of ?st e) (s'\<lparr>stash := (\<lambda>_. None)\<rparr>)) \<noteq> Inl Transport"
    by (rule stats_loop_json_no_transport [OF js])
  with d j p Inr show ?thesis by (simp add: main_run_def publish_stats_def)
qed

end
