(* ===== verification/DockerStats.thy ===== *)
theory DockerStats
  imports Catalog
begin

text \<open>
  The module \<open>src/docker_stats.rs\<close>: a free-standing copy of the Docker part of the
  catalogue. \<open>sensor_list\<close> builds the five engine aggregate sensors,
  \<open>containers\<close> asks the engine for the running containers, \<open>container_sensors\<close>
  (here \<open>container_sensors_ds\<close>, to keep it apart from the method of \<open>UnraidStats\<close>)
  builds the three sensors of one container, and \<open>container_sensor_list\<close> puts them
  together with \<open>?\<close>. The module is not declared in \<open>main.rs\<close>, so no binary runs it;
  the lemmas below compare it with the catalogue of theory \<open>Catalog\<close>, which the program
  does run. The engine handle (\<open>Arc<Docker>\<close>) is dropped, as in \<open>Catalog\<close>; the engine's
  answer to \<open>list_containers\<close> is an input, \<open>None\<close> for a \<open>bollard\<close> error.
\<close>

section \<open>The module's definitions\<close>

definition sensor_list :: "sensor list" where
  "sensor_list =
    [default_sensor\<lparr>s_id := ''docker_containers_running'', s_name := ''Docker Containers Running'',
       s_icon := Some ''docker'', s_reporter := Some (Docker RunningCount)\<rparr>,
     default_sensor\<lparr>s_id := ''docker_containers_unhealthy'', s_name := ''Docker Containers Unhealthy'',
       s_icon := Some ''docker'', s_reporter := Some (Docker UnhealthyCount)\<rparr>,
     default_sensor\<lparr>s_id := ''docker_images_count'', s_name := ''Docker Images'',
       s_icon := Some ''docker'', s_reporter := Some (Docker ImagesCount)\<rparr>,
     default_sensor\<lparr>s_id := ''docker_images_size'', s_name := ''Docker Images Size'',
       s_icon := Some ''data_size'', s_device_class := Some DataSize, s_unit := Some ''B'',
       s_reporter := Some (Docker ImagesSize)\<rparr>,
     default_sensor\<lparr>s_id := ''docker_volumes_count'', s_name := ''Docker Volumes'',
       s_icon := Some ''docker'', s_reporter := Some (Docker VolumesCount)\<rparr>]"

text \<open>\<open>docker.list_containers(..).await?\<close>: the engine's error is returned.\<close>

definition containers :: "container_summary list option \<Rightarrow> error + container_summary list" where
  "containers answer = (case answer of None \<Rightarrow> Inl Engine | Some l \<Rightarrow> Inr l)"

definition container_sensors_ds :: "string \<Rightarrow> stash_ref \<Rightarrow> container_summary \<Rightarrow> sensor list" where
  "container_sensors_ds device_name stash c =
     (let n = container_name c in
      [default_sensor\<lparr>s_id := container_sensor_id n ''_cpu'',
         s_name := device_name @ '' Docker '' @ n @ '' CPU'',
         s_icon := Some ''mdi:cpu-64-bit'', s_unit := Some ''%'',
         s_reporter := Some (DockerContainer c stash ContainerCpuUsage)\<rparr>,
       default_sensor\<lparr>s_id := container_sensor_id n ''_memory'',
         s_name := device_name @ '' Docker '' @ n @ '' Memory'',
         s_icon := Some ''mdi:memory'', s_unit := Some ''B'', s_device_class := Some DataSize,
         s_reporter := Some (DockerContainer c stash ContainerMemoryUsage)\<rparr>,
       default_sensor\<lparr>s_id := container_sensor_id n ''_uptime'',
         s_name := device_name @ '' Docker '' @ n @ '' Uptime'',
         s_icon := Some ''mdi:docker'',
         s_reporter := Some (DockerContainer c stash ContainerStatus)\<rparr>])"

text \<open>
  \<open>Ok(containers(docker).await?.into_iter().flat_map(..).collect())\<close>: each container with a
  fresh stats cell, the \<open>i\<close>-th container's cell being the store reference \<open>i\<close>.
\<close>

definition container_sensor_list ::
  "string \<Rightarrow> container_summary list option \<Rightarrow> error + sensor list" where
  "container_sensor_list device_name answer =
     (case containers answer of
        Inl err \<Rightarrow> Inl err
      | Inr cs \<Rightarrow> Inr (concat (map (\<lambda>(i, c). container_sensors_ds device_name i c) (enumerate 0 cs))))"

section \<open>The module against the catalogue\<close>

lemma container_sensors_ds_catalog: "container_sensors_ds = container_sensors"
  by (intro ext) (simp add: container_sensors_ds_def container_sensors_def)

lemma container_sensor_list_Some:
  "container_sensor_list d (Some cs) = Inr (container_list d (Some cs))"
  by (simp add: container_sensor_list_def containers_def container_list_def container_sensors_ds_catalog)

lemma container_sensor_list_None: "container_sensor_list d None = Inl Engine"
  by (simp add: container_sensor_list_def containers_def)

lemma builtin_sensors_split: "take 10 builtin_sensors @ sensor_list @ ys = builtin_sensors @ ys"
  by (simp add: builtin_sensors_def sensor_list_def)

theorem docker_module_catalog:
  "catalog d cs =
     take 10 builtin_sensors @ sensor_list @
       (case container_sensor_list d cs of Inr ys \<Rightarrow> ys | Inl _ \<Rightarrow> [])"
  by (cases cs)
     (simp_all add: catalog_def container_list_def container_sensor_list_None
       container_sensor_list_Some builtin_sensors_split builtin_sensors_split [of "[]", simplified])

text \<open>C23: When the engine fails to list the containers, the docker_stats module returns the engine error, while the catalogue the program builds goes on with no container sensors.\<close>

theorem container_sensor_list_engine_error:
  "(container_sensor_list d cs = Inl err \<longleftrightarrow> cs = None \<and> err = Engine) \<and>
   catalog d None = builtin_sensors"
  by (cases cs) (auto simp: container_sensor_list_None container_sensor_list_Some catalog_def container_list_def)

end
