(* ===== verification/EventLoop.thy ===== *)
theory EventLoop
  imports Prelude
begin

text \<open>
  The MQTT event loop task of \<open>main\<close> (\<open>src/main.rs\<close>, line 39):
  \<open>tokio::spawn(async move { while let Ok(_) = eventloop.poll().await {} })\<close>.
  Each \<open>poll()\<close> drives the connection one step and answers \<open>Ok(event)\<close> or
  \<open>Err(connection error)\<close>; the answers are an input, \<open>polls k\<close> being whether the
  \<open>k\<close>-th poll succeeded. The loop may run for ever, so it is a
  \<open>partial_function (option)\<close>: \<open>None\<close> is "does not return", and \<open>Some k\<close> is the
  task ending after its polls \<open>0 .. k\<close>, the \<open>k\<close>-th one failed (the task itself returns
  \<open>()\<close>; the count is what a reader of the task observes).
\<close>

partial_function (option) event_loop :: "(nat \<Rightarrow> bool) \<Rightarrow> nat \<Rightarrow> nat option" where
  "event_loop polls k = (if polls k then event_loop polls (Suc k) else Some k)"

declare event_loop.simps [code]

text \<open>Partial correctness: when the task ends, it ends at a failed poll after successful ones.\<close>

lemma event_loop_returns:
  assumes ret: "event_loop polls k = Some m"
  shows "k \<le> m \<and> \<not> polls m \<and> (\<forall>i. k \<le> i \<and> i < m \<longrightarrow> polls i)"
proof (rule event_loop.raw_induct
    [where P = "\<lambda>polls k m. k \<le> m \<and> \<not> polls m \<and> (\<forall>i. k \<le> i \<and> i < m \<longrightarrow> polls i)", OF _ ret])
  fix f polls k m
  assume IH: "\<And>polls k m. f polls k = Some m \<Longrightarrow>
                 k \<le> m \<and> \<not> polls m \<and> (\<forall>i. k \<le> i \<and> i < m \<longrightarrow> polls i)"
    and eq: "(if polls k then f polls (Suc k) else Some k) = Some m"
  show "k \<le> m \<and> \<not> polls m \<and> (\<forall>i. k \<le> i \<and> i < m \<longrightarrow> polls i)"
  proof (cases "polls k")
    case True
    with eq have "f polls (Suc k) = Some m" by simp
    from IH [OF this] True show ?thesis by (auto simp: le_less_Suc_eq Suc_le_eq dest: le_neq_implies_less)
  next
    case False
    with eq show ?thesis by auto
  qed
qed

text \<open>Unfolding the loop over a run of successful polls.\<close>

lemma event_loop_skip:
  "\<forall>i. k \<le> i \<and> i < k + n \<longrightarrow> polls i \<Longrightarrow> event_loop polls k = event_loop polls (k + n)"
proof (induction n arbitrary: k)
  case 0
  then show ?case by simp
next
  case (Suc n)
  then have "polls k" by simp
  then have "event_loop polls k = event_loop polls (Suc k)" by (subst event_loop.simps) simp
  also have "\<dots> = event_loop polls (Suc k + n)" using Suc.prems by (intro Suc.IH) simp
  finally show ?case by simp
qed

text \<open>C38: When a poll at or after the k-th fails, the event loop task ends, at the first failed poll, after polling every earlier one successfully.\<close>

theorem event_loop_ends:
  assumes "k \<le> j" "\<not> polls j"
  shows "\<exists>m. event_loop polls k = Some m \<and> k \<le> m \<and> m \<le> j \<and> \<not> polls m \<and>
             (\<forall>i. k \<le> i \<and> i < m \<longrightarrow> polls i)"
proof -
  define m where "m = (LEAST i. k \<le> i \<and> \<not> polls i)"
  have ex: "k \<le> j \<and> \<not> polls j" using assms by simp
  have m: "k \<le> m \<and> \<not> polls m" unfolding m_def by (rule LeastI [where P = "\<lambda>i. k \<le> i \<and> \<not> polls i", OF ex])
  have mj: "m \<le> j" unfolding m_def by (rule Least_le [where P = "\<lambda>i. k \<le> i \<and> \<not> polls i", OF ex])
  have run: "\<forall>i. k \<le> i \<and> i < m \<longrightarrow> polls i"
    using not_less_Least [where P = "\<lambda>i. k \<le> i \<and> \<not> polls i"] unfolding m_def by blast
  have "event_loop polls k = event_loop polls (k + (m - k))"
    using run m by (intro event_loop_skip) simp
  also have "\<dots> = Some m" using m by (subst event_loop.simps) simp
  finally show ?thesis using m mj run by blast
qed

text \<open>C39: While every poll succeeds the event loop task never ends: it keeps driving the connection.\<close>

theorem event_loop_runs:
  assumes "\<forall>i \<ge> k. polls i"
  shows "event_loop polls k = None"
proof (cases "event_loop polls k")
  case (Some m)
  then have "k \<le> m \<and> \<not> polls m" using event_loop_returns by blast
  with assms show ?thesis by blast
qed simp

end
