(* ===== verification/JsonSchema.thy ===== *)
theory JsonSchema
  imports Device
begin

text \<open>
  A type system for the JSON values the program publishes, and the type of a Home
  Assistant discovery document: the "stable field set" of \<open>Sensor::disovery_config\<close>
  (\<open>src/config.rs\<close>) with the device document of \<open>UnraidStats::get_device_info\<close>
  (\<open>src/unraid_stats.rs\<close>) under \<open>"device"\<close>. An object type lists its keys with their
  types and whether the key is required; a value of an object type has distinct keys, only
  listed ones, each of its type, and every required one.
\<close>

datatype jty = TNull | TBool | TStr | TArr jty | TOr jty jty | TObj "(string \<times> jty \<times> bool) list"

fun has_type :: "jty \<Rightarrow> json \<Rightarrow> bool" where
  "has_type TNull v = (v = JNull)"
| "has_type TBool v = (case v of JBool _ \<Rightarrow> True | _ \<Rightarrow> False)"
| "has_type TStr v = (case v of JStr _ \<Rightarrow> True | _ \<Rightarrow> False)"
| "has_type (TArr t) v = (case v of JArr vs \<Rightarrow> list_all (has_type t) vs | _ \<Rightarrow> False)"
| "has_type (TOr t u) v = (has_type t v \<or> has_type u v)"
| "has_type (TObj fs) v =
     (case v of
        JObj kvs \<Rightarrow>
          distinct (map fst kvs) \<and>
          list_all (\<lambda>(k, x). case map_of fs k of None \<Rightarrow> False | Some (t, _) \<Rightarrow> has_type t x) kvs \<and>
          list_all (\<lambda>(k, _, req). if req then k \<in> set (map fst kvs) else True) fs
      | _ \<Rightarrow> False)"

definition device_ty :: jty where
  "device_ty =
     TObj [(''identifiers'', TArr TStr, True), (''name'', TStr, True), (''model'', TStr, True),
           (''manufacturer'', TStr, True), (''sw_version'', TStr, True)]"

definition discovery_ty :: jty where
  "discovery_ty =
     TObj [(''name'', TStr, True), (''state_topic'', TStr, True), (''unique_id'', TStr, True),
           (''device'', device_ty, True), (''unit_of_measurement'', TOr TStr TNull, True),
           (''device_class'', TStr, False), (''icon'', TStr, False)]"

lemma device_info_typed: "has_type device_ty (get_device_info d vf)"
  by (simp add: get_device_info_def device_ty_def)

text \<open>C11: A discovery document has the type of a Home Assistant discovery document exactly when the device document it embeds has the device type; with the program device document it always has.\<close>

theorem discovery_config_typed:
  "has_type discovery_ty (disovery_config s d node dev) = has_type device_ty dev \<and>
   has_type discovery_ty (disovery_config s d node (get_device_info d vf))"
proof -
  have h: "has_type discovery_ty (disovery_config s d node v) = has_type device_ty v" for v
    by (cases "s_device_class s"; cases "s_icon s")
       (simp_all add: disovery_config_def discovery_ty_def json_opt_str_def split: option.splits)
  show ?thesis by (simp add: h device_info_typed)
qed

end
