(* ===== verification/StatsPass.thy ===== *)
theory StatsPass
  imports Publisher
begin

text \<open>
  The value pass of \<open>UnraidStats::publish_stats\<close> (\<open>src/unraid_stats.rs\<close>) against a
  reference that reads every reporter directly, without the containers' stats cells. The
  cells are an optimisation: the three sensors of a container share the first stats
  sample instead of opening three streams. The reference says what the pass promises; the
  refinement lemma says the cached pass implements it, under two conditions the catalogue
  meets: every container has an id, and sensors that share a cell belong to the same
  container.
\<close>

section \<open>The reference\<close>

text \<open>The value of a reporter read directly: a container reporter opens its stream anew.\<close>

definition direct_value :: "env \<Rightarrow> reporter \<Rightarrow> string option" where
  "direct_value e rep =
     (case rep of
        System stat \<Rightarrow> system_get_value e stat
      | Command r \<Rightarrow> command_get_value r (run_command e (command r) (case args r of None \<Rightarrow> [] | Some a \<Rightarrow> a))
      | DockerContainer c r stat \<Rightarrow>
          (case cs_id c of None \<Rightarrow> None | Some cid \<Rightarrow> container_read e c stat (container_stats e cid))
      | Docker stat \<Rightarrow> docker_get_value e stat)"

text \<open>The messages \<open>publish_ha_state\<close> emits for a value when the client accepts.\<close>

definition state_msgs :: "app \<Rightarrow> bool \<Rightarrow> string \<Rightarrow> string \<Rightarrow> message list" where
  "state_msgs a client t v =
     (if json_output a then [Print t (PText v)]
      else if client then [Publish t (PText v) False] else [])"

definition stats_reference :: "app \<Rightarrow> env \<Rightarrow> bool \<Rightarrow> sensor list \<Rightarrow> message list" where
  "stats_reference a e client xs =
     concat (map (\<lambda>x. if s_disabled x then []
                      else case s_reporter x of
                             None \<Rightarrow> []
                           | Some rep \<Rightarrow>
                               (case direct_value e rep of
                                  None \<Rightarrow> []
                                | Some v \<Rightarrow> state_msgs a client (sensor_topic x (node_id a)) v)) xs)"

section \<open>The conditions\<close>

text \<open>The cell of a container sensor, with its container's id.\<close>

definition cell_of :: "sensor \<Rightarrow> (stash_ref \<times> string option) option" where
  "cell_of x = (case s_reporter x of Some (DockerContainer c r _) \<Rightarrow> Some (r, cs_id c) | _ \<Rightarrow> None)"

definition ids_ok :: "sensor list \<Rightarrow> bool" where
  "ids_ok xs = list_all (\<lambda>x. case cell_of x of Some (_, None) \<Rightarrow> False | _ \<Rightarrow> True) xs"

definition cells_agree :: "sensor list \<Rightarrow> bool" where
  "cells_agree xs =
     list_all (\<lambda>x. list_all (\<lambda>y. case (cell_of x, cell_of y) of
                                    (Some (r, i), Some (r', i')) \<Rightarrow> (if r = r' then i = i' else True)
                                  | _ \<Rightarrow> True) xs) xs"

text \<open>A cell holding a sample holds the sample a fresh query of its container would give.\<close>

definition coherent :: "env \<Rightarrow> sensor list \<Rightarrow> 'a rstate_scheme \<Rightarrow> bool" where
  "coherent e xs s \<longleftrightarrow>
     (\<forall>x \<in> set xs. \<forall>r i cid st. cell_of x = Some (r, i) \<longrightarrow> i = Some cid \<longrightarrow> stash s r = Some st \<longrightarrow>
        container_stats e cid = Some st)"

text \<open>The enabled sensors that read cell \<open>r\<close>.\<close>

definition cell_readers :: "stash_ref \<Rightarrow> sensor list \<Rightarrow> nat" where
  "cell_readers r xs = length (filter (\<lambda>x. \<not> s_disabled x \<and> map_option fst (cell_of x) = Some r) xs)"

section \<open>One step\<close>

lemma publish_ha_state_accepted:
  assumes "\<forall>b \<in> set (link s). b"
  shows "publish_ha_state a client t v s =
           (Inr (), s\<lparr>log := log s @ state_msgs a client t v,
                      link := (if \<not> json_output a \<and> client then tl (link s) else link s)\<rparr>)"
  using assms by (cases "link s") (auto simp: publish_ha_state_def publish_raw_def transport_publish_def state_msgs_def)

lemma reporter_direct:
  assumes "s_reporter x = Some rep" "coherent e [x] s" "ids_ok [x]"
  shows "fst (reporter_get_value e rep s) = Inr (direct_value e rep)"
  using assms
  by (auto simp: reporter_get_value_def direct_value_def container_get_value_def coherent_def cell_of_def
        ids_ok_def Let_def split: reporter.splits option.splits)

lemma reporter_stash_step:
  assumes "s_reporter x = Some rep"
  shows "stash (snd (reporter_get_value e rep s)) = stash s \<or>
         (\<exists>r cid st. cell_of x = Some (r, Some cid) \<and> container_stats e cid = Some st \<and>
            stash (snd (reporter_get_value e rep s)) = (stash s)(r := Some st))"
  using assms
  by (auto simp: reporter_get_value_def container_get_value_def cell_of_def Let_def
        split: reporter.splits option.splits)

lemma cells_agreeD:
  assumes "cells_agree xs" "x \<in> set xs" "y \<in> set xs" "cell_of x = Some (r, i)" "cell_of y = Some (r, i')"
  shows "i = i'"
proof -
  have "\<forall>x \<in> set xs. \<forall>y \<in> set xs. case (cell_of x, cell_of y) of
          (Some (r, i), Some (r', i')) \<Rightarrow> (if r = r' then i = i' else True) | _ \<Rightarrow> True"
    using assms(1) unfolding cells_agree_def list_all_iff .
  then have "case (cell_of x, cell_of y) of
               (Some (r, i), Some (r', i')) \<Rightarrow> (if r = r' then i = i' else True) | _ \<Rightarrow> True"
    using assms(2,3) by blast
  then show ?thesis using assms(4,5) by simp
qed

lemma conditions_ConsD:
  "ids_ok (x # xs) \<Longrightarrow> ids_ok [x] \<and> ids_ok xs"
  "coherent e (x # xs) s \<Longrightarrow> coherent e [x] s \<and> coherent e xs s"
  by (simp_all add: ids_ok_def coherent_def)

lemma cells_agree_tl: "cells_agree (x # xs) \<Longrightarrow> cells_agree xs"
  unfolding cells_agree_def list_all_iff by (meson list.set_intros(2))

lemma coherent_stash: "stash t = stash s \<Longrightarrow> coherent e xs t = coherent e xs s"
  by (simp add: coherent_def)

lemma coherent_step:
  assumes rep: "s_reporter x = Some rep" and ag: "cells_agree (x # xs)" and co: "coherent e xs s"
  shows "coherent e xs (snd (reporter_get_value e rep s))"
  using reporter_stash_step [OF rep, of e s]
proof
  assume "stash (snd (reporter_get_value e rep s)) = stash s"
  with co coherent_stash [of "snd (reporter_get_value e rep s)" s e xs] show ?thesis by simp
next
  assume "\<exists>r cid st. cell_of x = Some (r, Some cid) \<and> container_stats e cid = Some st \<and>
            stash (snd (reporter_get_value e rep s)) = (stash s)(r := Some st)"
  then obtain r cid st where c: "cell_of x = Some (r, Some cid)" "container_stats e cid = Some st"
    and st: "stash (snd (reporter_get_value e rep s)) = (stash s)(r := Some st)" by blast
  show ?thesis unfolding coherent_def
  proof (intro ballI allI impI)
    fix y r' i cid' st'
    assume y: "y \<in> set xs" and cy: "cell_of y = Some (r', i)" and i: "i = Some cid'"
      and s': "stash (snd (reporter_get_value e rep s)) r' = Some st'"
    show "container_stats e cid' = Some st'"
    proof (cases "r' = r")
      case True
      have "Some cid = i" using cells_agreeD [OF ag, of x y r "Some cid" i] y cy True c(1) by simp
      with i True s' st c(2) show ?thesis by simp
    next
      case False
      with s' st have "stash s r' = Some st'" by simp
      with co y cy i show ?thesis unfolding coherent_def by blast
    qed
  qed
qed

lemma stats_reference_Cons:
  "stats_reference a e client (x # xs) =
     (if s_disabled x then []
      else case s_reporter x of
             None \<Rightarrow> []
           | Some rep \<Rightarrow> (case direct_value e rep of None \<Rightarrow> [] | Some v \<Rightarrow> state_msgs a client (sensor_topic x (node_id a)) v))
     @ stats_reference a e client xs"
  by (simp add: stats_reference_def)

section \<open>The refinement\<close>

lemma stats_loop_reference:
  assumes "\<forall>b \<in> set (link s). b" "ids_ok xs" "cells_agree xs" "coherent e xs s"
  shows "fst (stats_loop a e client xs s) = Inr () \<and>
         log (snd (stats_loop a e client xs s)) = log s @ stats_reference a e client xs"
  using assms
proof (induction xs arbitrary: s)
  case Nil
  then show ?case by (simp add: stats_reference_def)
next
  case (Cons x xs)
  have ag: "cells_agree xs" using Cons.prems(3) by (rule cells_agree_tl)
  have ix: "ids_ok [x]" and ixs: "ids_ok xs" using conditions_ConsD(1) [OF Cons.prems(2)] by simp_all
  have cx: "coherent e [x] s" and cxs: "coherent e xs s"
    using conditions_ConsD(2) [OF Cons.prems(4)] by simp_all
  show ?case
  proof (cases "\<not> s_disabled x \<and> s_reporter x \<noteq> None")
    case False
    with Cons.IH [OF Cons.prems(1) ixs ag cxs] show ?thesis
      by (auto simp: stats_reference_Cons split: option.splits)
  next
    case True
    then obtain rep where rep: "s_reporter x = Some rep" "\<not> s_disabled x" by auto
    define s' where "s' = snd (reporter_get_value e rep s)"
    have g: "reporter_get_value e rep s = (Inr (direct_value e rep), s')"
      using reporter_direct [OF rep(1) cx ix] unfolding s'_def by (metis prod.collapse)
    have l: "log s' = log s" "link s' = link s" using reporter_log [of e rep s] unfolding s'_def by simp_all
    have co: "coherent e xs s'" unfolding s'_def by (rule coherent_step [OF rep(1) Cons.prems(3) cxs])
    show ?thesis
    proof (cases "direct_value e rep")
      case None
      have acc: "\<forall>b \<in> set (link s'). b" using Cons.prems(1) l by simp
      with None rep g l Cons.IH [OF acc ixs ag co] show ?thesis by (simp add: stats_reference_Cons)
    next
      case (Some v)
      let ?s2 = "s'\<lparr>log := log s' @ state_msgs a client (sensor_topic x (node_id a)) v,
                       link := (if \<not> json_output a \<and> client then tl (link s') else link s')\<rparr>"
      have "\<forall>b \<in> set (link s'). b" using Cons.prems(1) l by simp
      then have acc: "\<forall>b \<in> set (link ?s2). b" by (cases "link s'") auto
      have co2: "coherent e xs ?s2" using co coherent_stash [of ?s2 s' e xs] by simp
      have p: "publish_ha_state a client (sensor_topic x (node_id a)) v s' = (Inr (), ?s2)"
        using Cons.prems(1) l by (intro publish_ha_state_accepted) simp
      from Cons.IH [OF acc ixs ag co2] rep g p l Some show ?thesis
        by (simp add: stats_reference_Cons)
    qed
  qed
qed

section \<open>The program's sensors meet the conditions\<close>

lemma command_sensors_cell: "x \<in> set (command_sensors cfg) \<Longrightarrow> cell_of x = None"
  by (auto simp: command_sensors_def cell_of_def from_command_def split: sensors.splits)

lemma catalog_cell:
  assumes "y \<in> set (catalog d cs)" "cell_of y = Some (r, i)"
  shows "\<exists>l. cs = Some l \<and> r < length l \<and> i = cs_id (l ! r)"
proof -
  have "cell_of y = None" if "y \<in> set builtin_sensors"
    using that by (auto simp: builtin_sensors_def cell_of_def default_sensor_def cmd_reporter_def)
  with assms obtain l where l: "cs = Some l" "y \<in> set (container_list d (Some l))"
    by (cases cs) (auto simp: catalog_def container_list_def)
  from container_list_stash [OF l(2)] assms(2) l(1) show ?thesis by (auto simp: cell_of_def)
qed

lemma sensors_of_cell:
  assumes x: "x \<in> set (sensors_of a e)" and c: "cell_of x = Some (r, i)"
  shows "\<exists>l. running_containers e = Some l \<and> r < length l \<and> i = cs_id (l ! r)"
proof (cases "sensor_config a")
  case None
  with x have "x \<in> set (catalog (device_name a) (running_containers e))"
    by (simp add: sensors_of_def unraid_sensors_def apply_config_def)
  from catalog_cell [OF this c] show ?thesis .
next
  case (Some cfg)
  with x have "x \<in> override_sensor cfg ` set (catalog (device_name a) (running_containers e)) \<or>
               x \<in> set (command_sensors cfg)"
    by (simp add: sensors_of_def unraid_sensors_def apply_config_def)
  then show ?thesis
  proof
    assume "x \<in> override_sensor cfg ` set (catalog (device_name a) (running_containers e))"
    then obtain y where y: "y \<in> set (catalog (device_name a) (running_containers e))"
      and xy: "x = override_sensor cfg y" by blast
    have "cell_of y = Some (r, i)" using c xy by (simp add: cell_of_def)
    from catalog_cell [OF y this] show ?thesis .
  next
    assume "x \<in> set (command_sensors cfg)"
    with c show ?thesis by (simp add: command_sensors_cell)
  qed
qed

lemma sensors_of_cells_agree: "cells_agree (sensors_of a e)"
  unfolding cells_agree_def list_all_iff
proof (intro ballI)
  fix x y assume x: "x \<in> set (sensors_of a e)" and y: "y \<in> set (sensors_of a e)"
  show "case (cell_of x, cell_of y) of
          (Some (r, i), Some (r', i')) \<Rightarrow> (if r = r' then i = i' else True) | _ \<Rightarrow> True"
  proof (cases "cell_of x"; cases "cell_of y")
    fix cx cy assume cx: "cell_of x = Some cx" and cy: "cell_of y = Some cy"
    obtain r i r' i' where "cx = (r, i)" "cy = (r', i')" by fastforce
    with sensors_of_cell [OF x] sensors_of_cell [OF y] cx cy show ?thesis by auto
  qed auto
qed

lemma sensors_of_ids_ok:
  assumes "\<forall>c \<in> set (case running_containers e of None \<Rightarrow> [] | Some l \<Rightarrow> l). cs_id c \<noteq> None"
  shows "ids_ok (sensors_of a e)"
  unfolding ids_ok_def list_all_iff
proof
  fix x assume x: "x \<in> set (sensors_of a e)"
  show "case cell_of x of Some (_, None) \<Rightarrow> False | _ \<Rightarrow> True"
  proof (cases "cell_of x")
    case (Some ri)
    obtain r i where ri: "ri = (r, i)" by fastforce
    with sensors_of_cell [OF x] Some obtain l where "running_containers e = Some l" "r < length l"
      "i = cs_id (l ! r)" by auto
    with assms Some ri show ?thesis by (auto split: option.splits)
  qed simp
qed

lemma publish_stats_run:
  assumes "\<forall>b \<in> set (link s). b"
    and "\<forall>c \<in> set (case running_containers e of None \<Rightarrow> [] | Some l \<Rightarrow> l). cs_id c \<noteq> None"
  shows "fst (publish_stats st e client s) = Inr () \<and>
         log (snd (publish_stats st e client s)) = log s @ stats_reference st e client (sensors_of st e)"
proof -
  have "coherent e (sensors_of st e) (s\<lparr>stash := (\<lambda>_. None)\<rparr>)" by (simp add: coherent_def)
  with stats_loop_reference [of "s\<lparr>stash := (\<lambda>_. None)\<rparr>" "sensors_of st e" e st client]
    sensors_of_ids_ok [OF assms(2)] sensors_of_cells_agree assms(1)
  show ?thesis by (simp add: publish_stats_def)
qed

text \<open>C10: With a client that accepts every publish and running containers that all have an id, the value pass succeeds and emits exactly the reference messages: each enabled sensor value read directly, in list order. The shared stats cells change nothing but the number of queries.\<close>

theorem stats_pass_refines:
  assumes "\<forall>b \<in> set (link s). b"
    and "\<forall>c \<in> set (case running_containers e of None \<Rightarrow> [] | Some l \<Rightarrow> l). cs_id c \<noteq> None"
  shows "fst (publish_stats a e client s) = Inr () \<and>
         log (snd (publish_stats a e client s)) = log s @ stats_reference a e client (sensors_of a e)"
  using assms by (rule publish_stats_run)

section \<open>A container whose stream yields no sample\<close>

lemma all_true_tl: "\<forall>b \<in> set l. b \<Longrightarrow> \<forall>b \<in> set (tl l). b"
  by (cases l) auto

lemma reporter_requery:
  assumes "s_reporter x = Some rep" "ids_ok [x]" "\<forall>i. cell_of x = Some (r, i) \<longrightarrow> i = Some cid"
    "container_stats e cid = None" "stash s r = None"
  shows "(\<exists>v. fst (reporter_get_value e rep s) = Inr v) \<and> stash (snd (reporter_get_value e rep s)) r = None \<and>
         cell_queries r (snd (reporter_get_value e rep s)) =
           cell_queries r s + (if map_option fst (cell_of x) = Some r then 1 else 0)"
  using assms
  by (auto simp: reporter_get_value_def container_get_value_def cell_of_def ids_ok_def cell_queries_def Let_def
        split: reporter.splits option.splits)

lemma stats_loop_requery:
  assumes "\<forall>x \<in> set xs. \<forall>i. cell_of x = Some (r, i) \<longrightarrow> i = Some cid"
    and "container_stats e cid = None" "stash s r = None" "ids_ok xs" "\<forall>b \<in> set (link s). b"
  shows "cell_queries r (snd (stats_loop a e client xs (s :: 'a pstate_scheme))) = cell_queries r s + cell_readers r xs"
  using assms
proof (induction xs arbitrary: s)
  case Nil
  then show ?case by (simp add: cell_readers_def)
next
  case (Cons x xs)
  have ih: "cell_queries r (snd (stats_loop a e client xs t)) = cell_queries r t + cell_readers r xs"
    if "stash t r = None" "\<forall>b \<in> set (link t). b" for t :: "'a pstate_scheme"
    using Cons.IH [of t] Cons.prems(1,2,4) that conditions_ConsD(1) [OF Cons.prems(4)] by simp
  show ?case
  proof (cases "\<not> s_disabled x \<and> s_reporter x \<noteq> None")
    case False
    then have "cell_readers r (x # xs) = cell_readers r xs"
      by (auto simp: cell_readers_def cell_of_def)
    with False ih [OF Cons.prems(3,5)] show ?thesis by (auto split: option.splits)
  next
    case True
    then obtain rep where r: "s_reporter x = Some rep" "\<not> s_disabled x" by auto
    obtain res s' where g: "reporter_get_value e rep s = (res, s')" by fastforce
    have st: "(\<exists>v. res = Inr v) \<and> stash s' r = None \<and>
              cell_queries r s' = cell_queries r s + (if map_option fst (cell_of x) = Some r then 1 else 0)"
    proof -
      have "ids_ok [x]" using conditions_ConsD(1) [OF Cons.prems(4)] by simp
      moreover have "\<forall>i. cell_of x = Some (r, i) \<longrightarrow> i = Some cid" using Cons.prems(1) by simp
      ultimately show ?thesis using reporter_requery [OF r(1) _ _ Cons.prems(2,3)] g by auto
    qed
    have l: "link s' = link s" using reporter_log [of e rep s] g by simp
    have c: "cell_readers r (x # xs) = (if map_option fst (cell_of x) = Some r then 1 else 0) + cell_readers r xs"
      using r(2) by (simp add: cell_readers_def)
    from st obtain v where v: "res = Inr v" by blast
    show ?thesis
    proof (cases v)
      case None
      with r g v st l Cons.prems(5) ih [of s'] c show ?thesis by simp
    next
      case (Some w)
      let ?t = "s'\<lparr>log := log s' @ state_msgs a client (sensor_topic x (node_id a)) w,
                    link := (if \<not> json_output a \<and> client then tl (link s') else link s')\<rparr>"
      have p: "publish_ha_state a client (sensor_topic x (node_id a)) w s' = (Inr (), ?t)"
        using publish_ha_state_accepted [of s'] l Cons.prems(5) by simp
      have lk: "\<forall>b \<in> set (link s'). b" using l Cons.prems(5) by simp
      have "stash ?t r = None" using st by simp
      moreover have "\<forall>b \<in> set (link ?t). b" using all_true_tl [OF lk] lk by auto
      ultimately have "cell_queries r (snd (stats_loop a e client xs ?t)) = cell_queries r ?t + cell_readers r xs"
        by (rule ih)
      moreover have "cell_queries r ?t = cell_queries r s'" by (simp add: cell_queries_def)
      ultimately show ?thesis using r g v Some p st c by (simp add: try_then_def)
    qed
  qed
qed

lemma cell_readers_append: "cell_readers r (xs @ ys) = cell_readers r xs + cell_readers r ys"
  by (simp add: cell_readers_def)

lemma cell_readers_enumerate:
  "cell_readers r (concat (map (\<lambda>(i, c). container_sensors d i c) (enumerate k l))) =
     (if k \<le> r \<and> r < k + length l then 3 else 0)"
proof (induction l arbitrary: k)
  case Nil
  then show ?case by (simp add: cell_readers_def)
next
  case (Cons c l)
  have "cell_readers r (container_sensors d k c) = (if r = k then 3 else 0)"
    by (simp add: cell_readers_def container_sensors_def cell_of_def default_sensor_def Let_def)
  then show ?case using Cons.IH [of "Suc k"] by (auto simp: cell_readers_append)
qed

lemma cell_readers_catalog:
  "cell_readers r (catalog d (Some l)) = (if r < length l then 3 else 0)"
proof -
  have "cell_readers r builtin_sensors = 0"
    by (simp add: cell_readers_def builtin_sensors_def cell_of_def default_sensor_def cmd_reporter_def)
  then show ?thesis
    by (simp add: catalog_def container_list_def cell_readers_append cell_readers_enumerate)
qed

text \<open>C6: When the stats stream of a container yields no sample, a value pass opens a stats query of that container for every enabled sensor that reads its cell, three for a container without configuration, instead of sharing one query.\<close>

theorem failed_stats_requery:
  assumes ids: "\<forall>c \<in> set (case running_containers e of None \<Rightarrow> [] | Some l \<Rightarrow> l). cs_id c \<noteq> None"
    and acc: "\<forall>b \<in> set (link s). b"
    and rc: "running_containers e = Some l" and i: "i < length l" and cid: "cs_id (l ! i) = Some cid"
    and none: "container_stats e cid = None"
  shows "cell_queries i (snd (publish_stats a e client s)) = cell_queries i s + cell_readers i (sensors_of a e) \<and>
         (sensor_config a = None \<longrightarrow> cell_readers i (sensors_of a e) = 3)"
proof
  have agree: "\<forall>x \<in> set (sensors_of a e). \<forall>j. cell_of x = Some (i, j) \<longrightarrow> j = Some cid"
    using sensors_of_cell rc cid by fastforce
  have "cell_queries i (snd (stats_loop a e client (sensors_of a e) (s\<lparr>stash := (\<lambda>_. None)\<rparr>))) =
          cell_queries i (s\<lparr>stash := (\<lambda>_. None)\<rparr>) + cell_readers i (sensors_of a e)"
  proof (rule stats_loop_requery [OF agree none _ sensors_of_ids_ok [OF ids]])
    show "\<forall>b \<in> set (link (s\<lparr>stash := (\<lambda>_. None)\<rparr>)). b" using acc by simp
  qed simp
  then show "cell_queries i (snd (publish_stats a e client s)) = cell_queries i s + cell_readers i (sensors_of a e)"
    by (simp add: publish_stats_def cell_queries_def)
  show "sensor_config a = None \<longrightarrow> cell_readers i (sensors_of a e) = 3"
    using i rc by (simp add: sensors_of_def unraid_sensors_def apply_config_def cell_readers_catalog)
qed

end
