(* ===== verification/Program.thy ===== *)
theory Program
  imports StatsPass
begin

text \<open>
  The whole run of \<open>main\<close> (\<open>src/main.rs\<close>) against what it promises: after a successful
  start-up, in JSON mode and in MQTT mode with a host, the run succeeds and emits the
  discovery documents of the enabled sensors (printed in JSON mode, retained publishes in
  MQTT mode; none when discovery is skipped) followed by the value pass's reference list.
  The passes are composed with \<open>try_then\<close>; the lemmas below are the sequencing laws of the
  two passes under a client that accepts every publish.
\<close>

definition run_reference :: "app \<Rightarrow> env \<Rightarrow> bool \<Rightarrow> message list" where
  "run_reference st e client =
     (if skip_discovery st then []
      else (let dm = discovery_messages st (get_device_info (device_name st) (version_file e)) (sensors_of st e)
            in if json_output st then map to_print dm else dm))
     @ stats_reference st e client (sensors_of st e)"

section \<open>The start-up\<close>

lemma new_app_fields:
  assumes "new_app a e = Inr st"
  shows "json_output st = a_json_output a" "skip_discovery st = a_skip_discovery a"
  using assms by (auto simp: new_app_def split: if_splits option.splits sum.splits)

lemma from_args_host:
  "a_host a = Some h \<Longrightarrow> h \<noteq> [] \<Longrightarrow> \<exists>c. from_args_and_file a pid = Inr c"
  by (auto simp: from_args_and_file_def Let_def split: option.splits)

lemma new_app_no_config:
  "new_app a e = Inr st \<Longrightarrow> a_config_file a = None \<Longrightarrow> sensors_of st e = catalog (device_name st) (running_containers e)"
  by (auto simp: new_app_def sensors_of_def unraid_sensors_def apply_config_def split: if_splits)

lemma new_app_with_table:
  assumes "new_app a e = Inr st"
  shows "new_app (a\<lparr>a_config_file := Some p, a_sensor_dump := d\<rparr>) (e\<lparr>config_file := Some (Some t)\<rparr>) =
           Inr (st\<lparr>sensor_config := Some (deserialize_sensors t)\<rparr>)"
  using assms by (auto simp: new_app_def load_config_def split: if_splits option.splits sum.splits)

section \<open>The two passes under an accepting client\<close>

lemma publish_discovery_run:
  assumes "\<forall>b \<in> set (link s). b" "\<not> json_output st \<longrightarrow> client"
  shows "\<exists>s1. publish_discovery st e client s = (Inr (), s1) \<and> (\<forall>b \<in> set (link s1). b) \<and>
              stash s1 = stash s \<and>
              log s1 = log s @
                (if skip_discovery st then []
                 else (let dm = discovery_messages st (get_device_info (device_name st) (version_file e)) (sensors_of st e)
                       in if json_output st then map to_print dm else dm))"
proof (cases "skip_discovery st")
  case True
  with assms show ?thesis by (simp add: publish_discovery_def)
next
  case False
  show ?thesis
  proof (cases "json_output st")
    case True
    with False show ?thesis using assms(1)
      by (simp add: publish_discovery_def discovery_loop_json)
  next
    case json: False
    with assms(2) have "client" by simp
    let ?di = "get_device_info (device_name st) (version_file e)"
    let ?n = "length (filter (\<lambda>x. \<not> s_disabled x) (sensors_of st e))"
    have "\<forall>b \<in> set (take ?n (link s)). b" using assms(1) by (blast dest: in_set_takeD)
    from discovery_loop_accepted [OF json this, of ?di]
    have dl: "discovery_loop st True ?di (sensors_of st e) s =
                (Inr (), s\<lparr>log := log s @ discovery_messages st ?di (sensors_of st e), link := drop ?n (link s)\<rparr>)" .
    have "\<forall>b \<in> set (drop ?n (link s)). b" using assms(1) by (blast dest: in_set_dropD)
    with dl json False \<open>client\<close> show ?thesis by (simp add: publish_discovery_def)
  qed
qed

lemma main_discovery_step:
  "skip_discovery st = a_skip_discovery a \<Longrightarrow>
     (if \<not> a_skip_discovery a then publish_discovery st e True s else (Inr (), s)) = publish_discovery st e True s"
  by (simp add: publish_discovery_def)

section \<open>The run\<close>

text \<open>C2: After a successful start-up, with a client that accepts every publish and running containers that all have an id, a run in JSON mode, or in MQTT mode with a host, succeeds and emits the discovery documents of the enabled sensors followed by each enabled sensor value read directly, in list order.\<close>

theorem main_run_refines:
  assumes st: "new_app a e = Inr st" and nodump: "a_sensor_dump a = None"
    and mode: "a_json_output a \<or> (\<exists>h. a_host a = Some h \<and> h \<noteq> [])"
    and acc: "\<forall>b \<in> set (link s). b"
    and ids: "\<forall>c \<in> set (case running_containers e of None \<Rightarrow> [] | Some l \<Rightarrow> l). cs_id c \<noteq> None"
  shows "fst (main_run a e s) = Inr () \<and>
         log (snd (main_run a e s)) = log s @ run_reference st e (\<not> a_json_output a)"
proof -
  let ?client = "\<not> a_json_output a"
  have j: "json_output st = a_json_output a" and sk: "skip_discovery st = a_skip_discovery a"
    using new_app_fields [OF st] by simp_all
  obtain s1 where d: "publish_discovery st e ?client s = (Inr (), s1)" "\<forall>b \<in> set (link s1). b"
    "log s1 = log s @
       (if skip_discovery st then []
        else (let dm = discovery_messages st (get_device_info (device_name st) (version_file e)) (sensors_of st e)
              in if json_output st then map to_print dm else dm))"
    using publish_discovery_run [OF acc, of st ?client e] j by auto
  have p: "fst (publish_stats st e ?client s1) = Inr () \<and>
           log (snd (publish_stats st e ?client s1)) = log s1 @ stats_reference st e ?client (sensors_of st e)"
    by (rule publish_stats_run [OF d(2) ids])
  have run: "main_run a e s = try_then (publish_discovery st e ?client s) (publish_stats st e ?client)"
  proof (cases "a_json_output a")
    case True
    then show ?thesis by (simp add: main_run_def st nodump)
  next
    case False
    then obtain h where "a_host a = Some h" "h \<noteq> []" using mode by auto
    then obtain c where "from_args_and_file a (process_id e) = Inr c" using from_args_host by blast
    with False show ?thesis
      by (simp add: main_run_def st nodump main_discovery_step [OF sk] create_mqtt_client_def)
  qed
  show ?thesis using run d(1,3) p by (simp add: run_reference_def)
qed

section \<open>The dump run\<close>

text \<open>C14: A dump run without a configuration file writes the dump of its sensors, or fails with the I/O error of the write and writes nothing; the written file, given as the configuration file of the next run, makes that run start up and see the same sensors, when their ids are distinct and none contains "_*_".\<close>

theorem main_dump_replay:
  assumes st: "new_app a e = Inr st" and dump: "a_sensor_dump a = Some p" and nocfg: "a_config_file a = None"
    and dist: "distinct (map s_id (sensors_of st e))"
    and nostar: "\<forall>x \<in> set (sensors_of st e). \<not> sublist ''_*_'' (s_id x)"
  shows "main_run a e s = (if dump_writes e then (Inr (), s\<lparr>log := log s @ [DumpFile p (dump_table st e)]\<rparr>) else (Inl Io, s)) \<and>
         (\<exists>st'. new_app (a\<lparr>a_config_file := Some p, a_sensor_dump := None\<rparr>)
                          (e\<lparr>config_file := Some (Some (dump_config_table (dump_table st e)))\<rparr>) = Inr st' \<and>
                sensors_of st' (e\<lparr>config_file := Some (Some (dump_config_table (dump_table st e)))\<rparr>) = sensors_of st e)"
proof -
  let ?t = "dump_config_table (dump_table st e)"
  let ?st' = "st\<lparr>sensor_config := Some (load_dump_as_config (dump_table st e))\<rparr>"
  have run: "main_run a e s = (if dump_writes e then (Inr (), s\<lparr>log := log s @ [DumpFile p (dump_table st e)]\<rparr>) else (Inl Io, s))"
    by (simp add: main_run_def st dump)
  have n: "new_app (a\<lparr>a_config_file := Some p, a_sensor_dump := None\<rparr>) (e\<lparr>config_file := Some (Some ?t)\<rparr>) = Inr ?st'"
    using new_app_with_table [OF st] by (simp add: deserialize_dump_table)
  have c: "sensors_of st e = catalog (device_name st) (running_containers e)" by (rule new_app_no_config [OF st nocfg])
  have "sensors_of ?st' (e\<lparr>config_file := Some (Some ?t)\<rparr>) =
          apply_config (Some (load_dump_as_config (dump_sensors (sensors_of st e)))) (sensors_of st e)"
    by (simp add: sensors_of_def unraid_sensors_def dump_table_def c [unfolded sensors_of_def unraid_sensors_def])
  also have "\<dots> = sensors_of st e" by (rule dump_reapply_same [OF dist nostar])
  finally show ?thesis using run n by blast
qed

end
