(* ===== verification/Spec2Isabelle.thy ===== *)
theory Spec2Isabelle
  imports Catalog CpuStats Transforms Publisher DockerStats EventLoop JsonSchema StatsPass Program
begin

text \<open>
  \<^bold>\<open>A verification development for unraid_mqtt_stats.\<close>

  The program (\<open>src/\<close>) is a host-telemetry agent. Each run builds a list of sensors,
  applies the user's TOML configuration to it, and publishes each enabled sensor's
  Home-Assistant discovery document and current value over MQTT, or prints them as JSON.
  Its parts and how they interact:
  \<^item> \<open>src/config.rs\<close>: the data model (\<open>Sensor\<close>, \<open>SensorConfig\<close>, \<open>CommandSensor\<close>,
    \<open>Sensors\<close>, \<open>DeviceClass\<close>, the reporter types), \<open>Sensor::merge\<close>, the topic and
    discovery-document builders, \<open>From<&CommandSensor>\<close>, the reporters' \<open>get_value\<close>,
    and \<open>calculate_cpu_percent\<close>;
  \<^item> \<open>src/unraid_stats.rs\<close>: \<open>UnraidStats::sensors\<close> (the built-in catalogue, the
    per-container sensors, and the override engine), \<open>publish_discovery\<close>,
    \<open>publish_stats\<close>, and the three output parsers \<open>parse_disk_usage\<close>,
    \<open>parse_cpu_temp\<close> and \<open>parse_array_status\<close>;
  \<^item> \<open>src/main.rs\<close>, \<open>src/cli.rs\<close>, \<open>src/mqtt_config.rs\<close>: the arguments, the MQTT
    settings and the top-level sequence (dump, JSON output, or MQTT), with the spawned
    task that polls the MQTT event loop;
  \<^item> \<open>src/docker_stats.rs\<close>: a copy of the Docker part of the catalogue, not declared as
    a module in \<open>main.rs\<close> and so not compiled.

  \<^bold>\<open>Theories.\<close>
  \<^item> \<open>Prelude\<close>: the Rust \<open>str\<close> operations the program calls (\<open>trim\<close>, \<open>split\<close>,
    \<open>split_whitespace\<close>, \<open>lines\<close>, \<open>trim_start_matches\<close>, \<open>trim_end_matches\<close>,
    \<open>contains\<close> as \<open>sublist\<close>, \<open>starts_with\<close> as \<open>prefix\<close>), integer printing,
    \<open>u64\<close>/\<open>u32\<close>/\<open>u16\<close>/\<open>i64\<close> as words, and the \<open>error\<close> type of the program's faults. Strings are byte lists; all separators in the
    program are ASCII, so the byte-level operations agree with Rust's.
  \<^item> \<open>Sensor\<close> (\<open>config.rs\<close>): the structs as records (\<open>sensor\<close>, \<open>sensor_config\<close>,
    \<open>command_sensor\<close>, \<open>container_summary\<close>, \<open>command_reporter\<close>), the enums as
    datatypes, and the closures stored in command reporters defunctionalised into
    \<open>transform\<close>. \<open>merge\<close>, \<open>sensor_topic\<close>, \<open>discovery_topic\<close>, \<open>disovery_config\<close>
    (source spelling; JSON as the datatype \<open>json\<close>, objects as association lists),
    \<open>from_command\<close>, and \<open>dump_override\<close> (a dumped sensor read back as a patch).
  \<^item> \<open>Dump\<close> (\<open>config.rs\<close>, \<open>unraid_stats.rs\<close>): \<open>ConfigDump\<close> and \<open>SensorsDump\<close>,
    what \<open>Serialize\<close>/\<open>Deserialize\<close> of a \<open>Sensor\<close> keep (\<open>id\<close> and \<open>reporter\<close> are
    skipped), \<open>dump_serialize_sensors\<close>, \<open>dump_deserialize_sensors\<close>, the table
    \<open>dump_sensors\<close> that \<open>dump_sensors_toml\<close> collects, and the written file read back
    as a \<open>ConfigDump\<close> (\<open>load_dump\<close>) or, through the table \<open>dump_config_table\<close>
    that \<open>load_config\<close> parses, as the user's configuration (\<open>load_dump_as_config\<close>).
    The TOML text is abstracted to the data it carries.
  \<^item> \<open>Override\<close> (\<open>unraid_stats.rs\<close>, \<open>sensors\<close>): \<open>star_id\<close>, \<open>override_sensor\<close>
    (one loop iteration), \<open>command_sensors\<close>, \<open>apply_config\<close>, and
    \<open>deserialize_sensors\<close> (\<open>config.rs\<close>). A \<open>HashMap\<close> configuration is an
    association list. Its order stands for the unspecified iteration order, and no theorem
    depends on it. The abstract contract \<open>override_spec\<close> says, field by field: exact
    override, else wildcard override, else the old value; \<open>disabled\<close> only ever becomes
    true. \<open>override_sensor_eq_spec\<close> proves that the code refines it.
  \<^item> \<open>Catalog\<close> (\<open>unraid_stats.rs\<close>): \<open>builtin_sensors\<close> (15 sensors in source order),
    \<open>container_name\<close>, \<open>container_sensors\<close>, \<open>container_list\<close>, \<open>catalog\<close> and
    \<open>unraid_sensors\<close>. Each container's \<open>Arc<Mutex<Option<Stats>>>\<close> cell is the store reference
    of its position in the list, shared by its three sensors.
  \<^item> \<open>CpuStats\<close> (\<open>config.rs\<close>): \<open>calculate_cpu_percent\<close> over \<open>64 word\<close> counters.
    The subtractions wrap as in a release build. The \<open>f64\<close> result is the exact real
    quotient; float rounding is not modelled.
  \<^item> \<open>F64\<close>: \<open>str::parse::<f64>\<close> (the full grammar: sign, \<open>inf\<close>/\<open>infinity\<close>/\<open>nan\<close>,
    digits, fraction, exponent), \<open>Display\<close> and \<open>{:.1}\<close>, on finite values kept as exact
    decimals. Binary rounding is not modelled: the model agrees with Rust up to 15
    significant digits in the normal range, and \<open>{:.1}\<close> agrees whenever the value has at
    most one fractional digit.
  \<^item> \<open>Transforms\<close> (\<open>config.rs\<close>, \<open>unraid_stats.rs\<close>): the three output parsers, the
    \<open>PostProcess\<close> closures, the five built-in closures (\<open>apply_transform\<close>) and
    \<open>CommandSensorReporter::get_value\<close> (\<open>command_get_value\<close>). The command's standard
    output is an input (\<open>None\<close>: the command could not be started). \<open>char::is_numeric\<close>
    is modelled on ASCII (the decimal digits): Rust also keeps non-ASCII numerals, so the
    claims about ExtractNumber assume an ASCII input, and at most 15 digits so that the
    \<open>f64\<close> parse and print are exact.
  \<^item> \<open>Reporters\<close> (\<open>config.rs\<close>): the System, Docker and DockerContainer \<open>get_value\<close>
    bodies and the dispatch \<open>reporter_get_value\<close>, over the environment record \<open>env\<close>
    (sysinfo snapshot, engine answers, command outputs, version file, configuration table,
    whether the dump's \<open>fs::write\<close> succeeds).
    The stats cells are the explicit store \<open>rstate\<close>, which also logs each stats query
    with its cell. Reals computed by float arithmetic are printed by the environment's
    \<open>show_real\<close>/\<open>show_real_1\<close>. Division follows IEEE (\<open>NaN\<close>, \<open>inf\<close>). The \<open>i64\<close>
    image-size sum wraps.
  \<^item> \<open>Device\<close> (\<open>unraid_stats.rs\<close>): the \<open>/etc/unraid-version\<close> loop
    (\<open>version_lines\<close>) and \<open>get_device_info\<close>.
  \<^item> \<open>MqttConfig\<close> (\<open>cli.rs\<close>, \<open>mqtt_config.rs\<close>): \<open>Args\<close> as a record of parsed values,
    \<open>from_args_and_file\<close> with its \<open>bail!\<close>, and \<open>create_mqtt_client\<close>'s options.
  \<^item> \<open>Publisher\<close> (\<open>unraid_stats.rs\<close>, \<open>main.rs\<close>): \<open>publish_raw\<close>,
    \<open>publish_ha_state\<close>, the discovery and value passes, and \<open>main_run\<close>, as state passing
    over \<open>pstate\<close>. That state is the store plus the message log plus the client's answers
    to the coming publishes. \<open>?\<close> is the combinator \<open>try_then\<close>. Each value pass
    rebuilds the sensors, so it starts with an empty store. \<open>UnraidStats::new\<close>
    (\<open>new_app\<close>) fails with the engine error when the Docker socket does not connect, and
    \<open>load_config\<close> panics when the configuration file cannot be read or parsed. The
    dump branch of \<open>main_run\<close> returns the I/O error when the write fails.
  \<^item> \<open>StatsPass\<close>: the reference for the value pass (\<open>stats_reference\<close>: every
    enabled sensor's value read directly by \<open>direct_value\<close>, without the stats cells),
    the conditions under which the cells are transparent (\<open>ids_ok\<close>,
    \<open>cells_agree\<close>), the invariant \<open>coherent\<close> of the cells, and the refinement.
  \<^item> \<open>Program\<close> (\<open>main.rs\<close>): the reference of a whole run (\<open>run_reference\<close>:
    the discovery documents, then the value pass's reference), the sequencing laws of
    the two passes under an accepting client, and the dump run with its replay.
  \<^item> \<open>DockerStats\<close> (\<open>docker_stats.rs\<close>): \<open>sensor_list\<close>, \<open>containers\<close>,
    \<open>container_sensors_ds\<close> (the module's \<open>container_sensors\<close>) and
    \<open>container_sensor_list\<close>. The module is dead code; its lemmas compare it with
    \<open>Catalog\<close>.
  \<^item> \<open>EventLoop\<close> (\<open>main.rs\<close>, line 39): the task
    \<open>while let Ok(_) = eventloop.poll().await {}\<close> as the
    \<open>partial_function (option)\<close> \<open>event_loop\<close> over the answers of the polls
    (\<open>None\<close>: the task never ends).
  \<^item> \<open>JsonSchema\<close>: a type system for the JSON values (\<open>jty\<close>, \<open>has_type\<close>) and
    the type of a discovery document with its device document, from the spec's
    "stable field set".
  \<^item> this theory: the header, properties that span components, and one witness per claim.

  \<^bold>\<open>What the lemmas show.\<close>
  \<^item> \<open>merge\<close> changes only the fields present in the patch. It is idempotent, a dumped
    sensor merges back to itself, and \<open>disabled\<close> is never cleared.
  \<^item> The dump read back as a \<open>ConfigDump\<close> gives every sensor back under its id without
    its reporter. Read back as the configuration file and applied to the sensors it was
    taken from, it changes nothing when their ids are distinct and none contains
    \<open>"_*_"\<close>; the built-in catalogue meets both conditions.
  \<^item> The engine implements the field-by-field contract, and exact overrides win.
  \<^item> A wildcard that disables a family reaches every container, whatever underscores its
    name holds, and cannot be undone by an exact \<open>disabled = false\<close>.
    The spec's scenario in its section 8 expects the opposite.
  \<^item> \<open>star_id\<close> keeps the first and last segments. For an id without \<open>'_'\<close> it gives
    \<open>"{id}_*_"\<close>, not the \<open>"{id}_*_{id}"\<close> the spec asks for.
  \<^item> Sensor ids stay unique when container names are distinct and no command entry reuses
    an id. A command entry that reuses a built-in id is appended as a duplicate. Two
    unnamed containers both become \<open>"unknown"\<close> and collide.
  \<^item> The CPU percentage is 0 when either delta is 0, and lies in \<open>[0, 100 * cpus]\<close> when
    the deltas are ordered. A \<open>u64\<close> total counter that goes backwards wraps around, passes
    the \<open>> 0\<close> guard, and yields more than \<open>100 * cpus\<close>.
  \<^item> Parsers and transforms:
    \<^item> a \<open>df\<close> table yields its usage, total and available fields;
    \<^item> a \<open>sensors\<close> reading \<open>+a.b\<degree>C\<close> on the first \<open>Package id 0\<close> line is
      published as \<open>a.b\<close>;
    \<^item> \<open>mdState=\<close> and \<open>version=\<close> lines read back;
    \<^item> ParseInteger is the identity on \<open>i64\<close> decimals and fails outside the range;
    \<^item> on ASCII input, ExtractNumber keeps only the digits, so \<open>"3.5 GB"\<close> becomes
      \<open>"35"\<close>;
    \<^item> padding whitespace never changes a command value;
    \<^item> \<open>disk_total\<close> publishes the total field of any \<open>df\<close> table, which \<open>df\<close>
      counts in 1K blocks, under the unit \<open>"B"\<close>.
  \<^item> Reporters and stats store:
    \<^item> a cached stats sample is never replaced or cleared;
    \<^item> reporters only fail by the \<open>unwrap\<close> panic of a container without id;
    \<^item> memory usage with a zero total prints \<open>NaN\<close>/\<open>inf\<close>, not 0;
    \<^item> the status sensor needs a stats sample;
    \<^item> a value pass queries each cell at most once when the container's stream yields
      a sample (invariant \<open>cell_phi\<close>), but once per enabled sensor of the container
      (three without configuration) when it yields none;
    \<^item> the \<open>i64\<close> image-size sum wraps: a total between \<open>2^63\<close> and \<open>2^64\<close> is
      published as the negative number total minus \<open>2^64\<close>.
  \<^item> Publisher and program:
    \<^item> with an accepting client the discovery pass is the reference list
      \<open>discovery_messages\<close>;
    \<^item> a rejected publish ends it after exactly the accepted prefix;
    \<^item> the value pass emits at most one unretained message per enabled sensor;
    \<^item> with an accepting client and containers that have ids, the value pass is the
      reference list: the shared stats cells are transparent (invariant \<open>coherent\<close>:
      a filled cell holds what a fresh query of its container gives), and the catalogue
      always meets \<open>cells_agree\<close>;
    \<^item> JSON mode never fails by transport;
    \<^item> end to end: after a successful start-up, with an accepting client and containers
      that have ids, a run in JSON mode or in MQTT mode with a host succeeds and emits the
      discovery documents followed by the value pass's reference list;
    \<^item> a dump run without a configuration file writes the dump of its sensors or fails
      with the write's I/O error; the written file, as the next run's configuration,
      gives that run the same sensors (ids distinct, none containing \<open>"_*_"\<close>). The dump
      of a run with command sensors keeps them only as overrides, so they are lost;
    \<^item> MQTT mode without \<open>--host\<close> or \<open>MQTT_HOST\<close> fails before any message, whatever
      configuration file is given, though the error message names it as a source of the host;
    \<^item> every discovery document is well typed whenever its device document is, and
      the program's device document always is;
    \<^item> the event loop task ends exactly at the first failed poll (termination), and
      never while the polls succeed (liveness); nothing restarts it.
  \<^item> The \<open>docker_stats\<close> module: the program's catalogue is its ten host sensors
    followed by what the module builds, but the module returns the engine's error where
    the program goes on without container sensors.

  \<^bold>\<open>Plan for the parts still to model.\<close>
  Everything the program computes is modelled, and both passes have a reference list.
  Still open: the interplay of the client's request queue (capacity 10) with the event
  loop, which decides the client's answers that \<open>Publisher\<close> takes as an input.

  \<^bold>\<open>Not modelled.\<close>
  The following are I/O or libraries the sources only call:
  \<^item> argument parsing by clap (the parsed \<open>Args\<close> are modelled);
  \<^item> TOML parsing and serialisation (the dump's entries are the data they carry) and the
    JSON text of \<open>serde_json\<close>. \<open>toml::to_string\<close> cannot fail on the dump (string keys,
    one level of tables of scalars), so only the failure of \<open>fs::write\<close> is modelled;
  \<^item> the exit status of a command, which the program never reads;
  \<^item> logging and the sleep in \<open>main.rs\<close>; how the event loop's polls drain the
    client's request queue (the client's answers to publishes are an input of
    \<open>Publisher\<close>, the polls' answers an input of \<open>EventLoop\<close>);
  \<^item> binary float rounding (see \<open>F64\<close>, \<open>Reporters\<close>).
  The \<open>sysinfo\<close>, \<open>bollard\<close> and \<open>rumqttc\<close> clients are inputs. The reporters run one after
  another (\<open>await\<close> in a sequential loop), so the stats cells see no interleaving. No fuel
  or bounds are needed: every definition is total by structural recursion, or
  (\<open>trim_start_matches\<close>, \<open>normalize\<close>, \<open>has_type\<close>) by a decreasing measure, except
  the event loop, which may run for ever and is a \<open>partial_function (option)\<close>.
\<close>

section \<open>Example inputs\<close>

definition ex_web :: container_summary where
  "ex_web = \<lparr>cs_id = Some ''3f2a'', cs_names = Some [''/web''], cs_status = Some ''Up 2 hours''\<rparr>"

definition ex_db :: container_summary where
  "ex_db = \<lparr>cs_id = Some ''9c1e'', cs_names = Some [''/db''], cs_status = Some ''Up 5 days''\<rparr>"

definition ex_disable :: "string \<Rightarrow> bool \<Rightarrow> sensor_config" where
  "ex_disable k b =
     \<lparr>c_id = k, c_name = None, c_unit = None, c_device_class = None, c_icon = None, c_disabled = b\<rparr>"

text \<open>The configuration of the spec's scenario: disable all container memory sensors, re-enable one.\<close>

definition ex_scenario_cfg :: config where
  "ex_scenario_cfg =
     [(''dockercontainer_*_memory'', SensorOverride (ex_disable ''dockercontainer_*_memory'' True)),
      (''dockercontainer_web_memory'', SensorOverride (ex_disable ''dockercontainer_web_memory'' False))]"

definition ex_sensor :: sensor where
  "ex_sensor = default_sensor\<lparr>s_id := ''cpu_usage'', s_name := ''CPU Usage'', s_unit := Some ''%''\<rparr>"

definition ex_patch :: sensor_config where
  "ex_patch = \<lparr>c_id = ''cpu_usage'', c_name = Some ''Load'', c_unit = None, c_device_class = None,
               c_icon = Some ''chip'', c_disabled = True\<rparr>"

definition ex_name_cfg :: config where
  "ex_name_cfg = [(''cpu_usage'', SensorOverride ex_patch)]"

definition ex_cmd :: "string \<Rightarrow> command_sensor" where
  "ex_cmd k = \<lparr>cmd_id = k, cmd_name = ''Disk Usage'', cmd_unit = Some ''%'', cmd_device_class = None,
               cmd_icon = Some ''mdi:harddisk'', cmd_command = ''df'',
               cmd_args = Some [''-h'', ''/mnt/user/appdata''], cmd_post_process = None,
               cmd_disabled = False\<rparr>"

definition ex_cmd_cfg :: config where
  "ex_cmd_cfg = [(''disk_command'', SensorCommand (ex_cmd ''disk_command''))]"

definition ex_dup_cfg :: config where
  "ex_dup_cfg = [(''cpu_usage'', SensorCommand (ex_cmd ''cpu_usage''))]"

definition ex_container :: container_summary where
  "ex_container = \<lparr>cs_id = Some ''abc123'', cs_names = Some [''/web''], cs_status = Some ''Up 2 hours''\<rparr>"

definition ex_env :: "bool \<Rightarrow> env" where
  "ex_env ok =
     \<lparr>sysinfo = \<lparr>total_memory = 0, used_memory = 0, global_cpu_usage = 0, uptime = 3600\<rparr>,
      image_sizes = None, volume_names = None, running_containers = Some [ex_container],
      unhealthy_containers = None,
      container_stats = (\<lambda>cid. if ok then Some (sample 150 100 1100 1000 4) else None),
      run_command = (\<lambda>_ _. None), version_file = None, docker_connects = True, config_file = None, dump_writes = True, process_id = 42,
      show_real = (\<lambda>_. ''x''), show_real_1 = (\<lambda>_. ''x'')\<rparr>"

definition ex_app :: "bool \<Rightarrow> app" where
  "ex_app json = \<lparr>sensor_config = None, json_output = json, discovery_prefix = ''homeassistant'',
                  device_name = ''tower'', skip_discovery = False\<rparr>"

definition ex_state :: pstate where
  "ex_state = \<lparr>stash = (\<lambda>_. None), queries = [], log = [], link = []\<rparr>"

definition ex_args :: args where
  "ex_args = \<lparr>a_host = None, a_port = 1883, a_client_id = None, a_username = None, a_password = None,
              a_config_file = None, a_sensor_dump = None, a_json_output = False,
              a_discovery_prefix = ''homeassistant'', a_device_name = ''tower'', a_skip_discovery = False\<rparr>"

section \<open>Properties across components\<close>

text \<open>C4: A wildcard override that disables the container memory sensors disables the memory sensor of every container, whatever underscores its name holds, and cannot be undone by an exact override with disabled = false (the spec scenario of section 8 expects the opposite).\<close>

lemma wildcard_memory_disable_sticks:
  assumes "wf_config cfg" and "patch_lookup cfg ''dockercontainer_*_memory'' = Some u"
    and "c_disabled u" and "s_id s = container_sensor_id n ''_memory''"
  shows "s_disabled (override_sensor cfg s)"
proof -
  have "star_id (s_id s) = ''dockercontainer_*_memory''"
    using assms(4) star_id_container [of "''memory''" n] by simp
  with assms(1-3) show ?thesis by (simp add: override_disabled flag_of_def)
qed

lemma container_icon_double_prefix:
  "json_get (disovery_config (hd (container_sensors d i c)) d n info) ''icon'' =
     Some (JStr ''mdi:mdi:cpu-64-bit'')"
  by (simp add: json_get_def disovery_config_def container_sensors_def Let_def default_sensor_def)

lemma container_name_doubled:
  "json_get (disovery_config (hd (container_sensors d i c)) d n info) ''name'' =
     Some (JStr (d @ '' '' @ d @ '' Docker '' @ container_name c @ '' CPU''))"
  by (simp add: json_get_def disovery_config_def container_sensors_def Let_def default_sensor_def
      update_conv')

text \<open>C28: The built-in disk_total sensor declares the unit "B", runs "df /mnt/user", and publishes the total field of the df table it prints, which df counts in 1K blocks.\<close>

theorem disk_total_reports_blocks:
  assumes "CHR 0x0A \<notin> set hdr" "words_ok [fs, tot, used, avl]" "words_ok rest_fields"
    "tail = [] \<or> hd tail = CHR 0x0A"
    and out: "trim out = hdr @ CHR 0x0A # join_with CHR '' '' (fs # tot # used # avl # (show_nat k @ ''%'') # rest_fields) @ tail"
  shows "\<exists>x r. find (\<lambda>s. s_id s = ''disk_total'') builtin_sensors = Some x \<and> s_unit x = Some ''B'' \<and>
           s_reporter x = Some (Command r) \<and> command r = ''df'' \<and> args r = Some [''/mnt/user''] \<and>
           command_get_value r (Some out) = Some tot"
proof -
  let ?r = "\<lparr>command = ''df'', args = Some [''/mnt/user''], transform = Some DiskTotal\<rparr>"
  have f: "\<exists>x. find (\<lambda>s. s_id s = ''disk_total'') builtin_sensors = Some x \<and> s_unit x = Some ''B'' \<and>
             s_reporter x = Some (Command ?r)"
    by (simp add: builtin_sensors_def cmd_reporter_def default_sensor_def)
  have "command_get_value ?r (Some out) = Some tot"
    using disk_size_fields_table [OF assms(1-4), of k] out
    by (simp add: command_get_value_def apply_transform_def)
  with f show ?thesis by auto
qed

section \<open>Witnesses\<close>

text \<open>Each claim applied at a concrete input where its hypotheses hold.\<close>

lemma ex_scenario_cfg_wf: "wf_config ex_scenario_cfg"
  by (simp add: wf_config_def ex_scenario_cfg_def entry_id_def ex_disable_def)

lemma ex_name_cfg_wf: "wf_config ex_name_cfg"
  by (simp add: wf_config_def ex_name_cfg_def entry_id_def ex_patch_def)

lemma ex_cmd_cfg_wf: "wf_config ex_cmd_cfg"
  by (simp add: wf_config_def ex_cmd_cfg_def entry_id_def ex_cmd_def)

lemma ex_dup_cfg_wf: "wf_config ex_dup_cfg"
  by (simp add: wf_config_def ex_dup_cfg_def entry_id_def ex_cmd_def)

lemma apply_config_refines_witness:
  "wf_config ex_scenario_cfg \<and>
   apply_config (Some ex_scenario_cfg) [ex_sensor] =
     map (override_spec ex_scenario_cfg) [ex_sensor] @ command_sensors ex_scenario_cfg"
  using Override.apply_config_refines [OF ex_scenario_cfg_wf] ex_scenario_cfg_wf by simp

lemma override_exact_name_wins_witness:
  "wf_config ex_name_cfg \<and> patch_lookup ex_name_cfg ''cpu_usage'' = Some ex_patch \<and>
   c_name ex_patch = Some ''Load'' \<and> s_name (override_sensor ex_name_cfg ex_sensor) = ''Load''"
proof -
  have l: "patch_lookup ex_name_cfg ''cpu_usage'' = Some ex_patch"
    by (simp add: patch_lookup_def ex_name_cfg_def)
  have n: "c_name ex_patch = Some ''Load''" by (simp add: ex_patch_def)
  have i: "s_id ex_sensor = ''cpu_usage''" by (simp add: ex_sensor_def default_sensor_def)
  show ?thesis
    using Override.override_exact_name_wins [OF ex_name_cfg_wf _ n, of ex_sensor] l i ex_name_cfg_wf n
    by simp
qed

lemma wildcard_memory_disable_sticks_witness:
  "patch_lookup ex_scenario_cfg ''dockercontainer_web_memory'' =
     Some (ex_disable ''dockercontainer_web_memory'' False) \<and>
   s_id (container_sensors ''unraid'' 0 ex_web ! 1) = container_sensor_id ''web'' ''_memory'' \<and>
   s_disabled (override_sensor ex_scenario_cfg (container_sensors ''unraid'' 0 ex_web ! 1))"
proof -
  have l: "patch_lookup ex_scenario_cfg ''dockercontainer_*_memory'' =
             Some (ex_disable ''dockercontainer_*_memory'' True)"
    by (simp add: patch_lookup_def ex_scenario_cfg_def)
  have e: "patch_lookup ex_scenario_cfg ''dockercontainer_web_memory'' =
             Some (ex_disable ''dockercontainer_web_memory'' False)"
    by (simp add: patch_lookup_def ex_scenario_cfg_def)
  have d: "c_disabled (ex_disable ''dockercontainer_*_memory'' True)" by (simp add: ex_disable_def)
  have i: "s_id (container_sensors ''unraid'' 0 ex_web ! 1) = container_sensor_id ''web'' ''_memory''"
    by (simp add: container_sensors_def Let_def default_sensor_def container_name_def ex_web_def
        trim_start_matches_char_def)
  show ?thesis
    using wildcard_memory_disable_sticks [OF ex_scenario_cfg_wf l d i] e i by simp
qed

lemma merge_absent_fields_witness:
  "c_unit ex_patch = None \<and> s_unit (merge ex_sensor ex_patch) = s_unit ex_sensor"
  using Sensor.merge_absent_fields [of ex_patch ex_sensor] by (simp add: ex_patch_def)

lemma merge_changes_only_matching_witness:
  "merge ex_sensor ex_patch \<noteq> ex_sensor \<and> s_id ex_sensor = c_id ex_patch"
proof -
  have ne: "merge ex_sensor ex_patch \<noteq> ex_sensor"
    by (simp add: merge_def ex_sensor_def ex_patch_def default_sensor_def)
  have "\<not> sublist ''_*_'' (c_id ex_patch)" by (simp add: ex_patch_def sublist_code)
  then show ?thesis using Sensor.merge_changes_only_matching [OF ne] ne by simp
qed

lemma merge_keeps_disabled_witness:
  "s_disabled (ex_sensor\<lparr>s_disabled := True\<rparr>) \<and>
   s_disabled (merge (ex_sensor\<lparr>s_disabled := True\<rparr>) (ex_disable ''cpu_usage'' False))"
  using Sensor.merge_keeps_disabled [of "ex_sensor\<lparr>s_disabled := True\<rparr>"] by simp

lemma merge_idem_witness:
  "merge (merge ex_sensor ex_patch) ex_patch = merge ex_sensor ex_patch"
  by (rule Sensor.merge_idem)

lemma merge_dump_witness: "merge ex_sensor (dump_override ex_sensor) = ex_sensor"
  by (rule Sensor.merge_dump)

lemma star_id_segments_witness:
  "star_id ''dockercontainer_myapp_cpu'' = ''dockercontainer_*_cpu'' \<and>
   star_id ''cpu_usage'' = ''cpu_*_usage''"
  using Override.star_id_segments [of "''dockercontainer''" "''cpu''" "''myapp''"]
        Override.star_id_segments [of "''cpu''" "''usage''" "[]"]
  by simp

lemma star_id_no_underscore_witness: "star_id ''uptime'' = ''uptime_*_''"
  using Override.star_id_no_underscore [of "''uptime''"] by simp

text \<open>The spec's scenario: a configuration holding only one command entry adds one sensor.\<close>

lemma apply_config_length_witness:
  "length (apply_config (Some ex_cmd_cfg) builtin_sensors) = length builtin_sensors + 1"
  using Override.apply_config_length [of ex_cmd_cfg builtin_sensors]
  by (simp add: command_keys_def ex_cmd_cfg_def)

lemma apply_config_distinct_ids_witness:
  "distinct (map s_id (apply_config (Some ex_cmd_cfg) builtin_sensors))"
proof -
  have d: "distinct (map s_id builtin_sensors)" using builtin_sensors_wf by simp
  have "set (command_keys ex_cmd_cfg) \<inter> s_id ` set builtin_sensors = {}"
    using builtin_ids [THEN arg_cong, of set]
    by (simp add: command_keys_def ex_cmd_cfg_def)
  then show ?thesis using Override.apply_config_distinct_ids [OF ex_cmd_cfg_wf d] by simp
qed

lemma apply_config_duplicate_id_witness:
  "\<not> distinct (map s_id (apply_config (Some ex_dup_cfg) builtin_sensors))"
proof -
  have k: "''cpu_usage'' \<in> set (command_keys ex_dup_cfg)"
    by (simp add: command_keys_def ex_dup_cfg_def)
  have "''cpu_usage'' \<in> set (map s_id builtin_sensors)" unfolding builtin_ids by simp
  then have "''cpu_usage'' \<in> s_id ` set builtin_sensors" by simp
  then show ?thesis using Override.apply_config_duplicate_id [OF ex_dup_cfg_wf k] by simp
qed

lemma catalog_ids_distinct_witness:
  "distinct (map s_id (catalog ''unraid'' (Some [ex_web, ex_db])))"
proof -
  have "distinct (map container_name [ex_web, ex_db])"
    by (simp add: container_name_def ex_web_def ex_db_def trim_start_matches_char_def)
  then show ?thesis by (rule Catalog.catalog_ids_distinct)
qed

lemma catalog_unnamed_duplicate_witness:
  "\<not> distinct (map s_id (catalog ''unraid''
        (Some [ex_web\<lparr>cs_names := None\<rparr>, ex_db\<lparr>cs_names := None\<rparr>])))"
  by (rule Catalog.catalog_unnamed_duplicate) simp_all

lemma cpu_percent_zero_guard_witness:
  "calculate_cpu_percent (sample 100 100 1100 1000 4) = 0"
proof -
  have "cpu_delta (sample 100 100 1100 1000 4) = 0"
    by (simp add: cpu_delta_def sample_def total_of_def unwrap_or_default_def)
  then show ?thesis using CpuStats.cpu_percent_zero_guard by blast
qed

lemma cpu_percent_bounds_witness:
  "0 \<le> calculate_cpu_percent (sample 150 100 1100 1000 4) \<and>
   calculate_cpu_percent (sample 150 100 1100 1000 4) \<le> 400"
proof -
  let ?st = "sample 150 100 1100 1000 4"
  have "unat (cpu_delta ?st) \<le> unat (system_delta ?st)"
    by (simp add: cpu_delta_def system_delta_def sample_def total_of_def system_of_def
        unwrap_or_default_def)
  moreover have "unwrap_or_default (Option.bind (cpu_stats ?st) online_cpus) = 4"
    by (simp add: sample_def unwrap_or_default_def)
  ultimately show ?thesis using CpuStats.cpu_percent_bounds [of ?st] by simp
qed

text \<open>A total counter that went back by 10 while the system counter advanced by 100.\<close>

lemma cpu_percent_backwards_counter_witness:
  "400 < calculate_cpu_percent (sample 0 10 1100 1000 4)"
proof -
  let ?st = "sample 0 10 1100 1000 4"
  have t: "total_of (cpu_stats ?st) = 0" "total_of (precpu_stats ?st) = 10"
    by (simp_all add: sample_def total_of_def unwrap_or_default_def)
  have b: "sub_overflows (total_of (cpu_stats ?st)) (total_of (precpu_stats ?st))"
    using t by (simp add: sub_overflows_def)
  have s: "unat (total_of (precpu_stats ?st)) - unat (total_of (cpu_stats ?st)) < 2 ^ 63"
    using t by simp
  have sd: "system_delta ?st = 100"
    by (simp add: system_delta_def sample_def system_of_def unwrap_or_default_def)
  have c: "unwrap_or_default (Option.bind (cpu_stats ?st) online_cpus) = 4"
    by (simp add: sample_def unwrap_or_default_def)
  show ?thesis
    using CpuStats.cpu_percent_backwards_counter [OF b s] sd c by simp
qed

lemma sensor_topic_inj_witness:
  "sensor_topic ex_sensor ''unraid_tower'' = sensor_topic (ex_sensor\<lparr>s_name := ''Load''\<rparr>) ''unraid_tower'' \<and>
   s_id ex_sensor = s_id (ex_sensor\<lparr>s_name := ''Load''\<rparr>)"
proof -
  have t: "sensor_topic ex_sensor ''unraid_tower'' =
           sensor_topic (ex_sensor\<lparr>s_name := ''Load''\<rparr>) ''unraid_tower''"
    by (simp add: sensor_topic_def)
  show ?thesis using Sensor.sensor_topic_inj [OF t] t by simp
qed

lemma deserialize_sensors_wf_witness:
  "wf_config (deserialize_sensors [(''cpu_usage'', SensorOverride (ex_disable [] True)),
                                   (''disk_command'', SensorCommand (ex_cmd []))])"
  by (rule Override.deserialize_sensors_wf) simp

lemma integer_transform_canonical_witness:
  "- (2 ^ 63) \<le> (- 42 :: int) \<and> (- 42 :: int) < 2 ^ 63 \<and>
   post_apply ParseInteger (show_int (- 42)) = Some (show_int (- 42))"
  using Transforms.integer_transform_canonical [of "- 42"] by simp

lemma integer_transform_overflow_witness:
  "post_apply ParseInteger (show_int (2 ^ 63)) = None"
  using Transforms.integer_transform_overflow [of "2 ^ 63"] by simp

lemma command_value_padding_witness:
  "command_get_value \<lparr>command = ''mdcmd'', args = None, transform = Some ArrayStatus\<rparr>
     (Some ('' '' @ ''mdState=STARTED'' @ [CHR 0x0A])) =
   command_get_value \<lparr>command = ''mdcmd'', args = None, transform = Some ArrayStatus\<rparr>
     (Some ''mdState=STARTED'')"
proof -
  have "\<forall>c \<in> set '' '' \<union> set [CHR 0x0A]. is_whitespace c" by (simp add: is_whitespace_def)
  then show ?thesis by (rule Transforms.command_value_padding)
qed

lemma disk_usage_percent_table_witness:
  "disk_usage_percent_transform
     (''Filesystem 1M-blocks Used Available Use% Mounted on'' @ CHR 0x0A #
      join_with CHR '' '' [''shfs'', ''100M'', ''40M'', ''60M'', show_nat 40 @ ''%'', ''/mnt/user'']) =
   Some (show_nat 40)"
  using Transforms.disk_usage_percent_table
    [of "''Filesystem 1M-blocks Used Available Use% Mounted on''" "''shfs''" "''100M''" "''40M''"
        "''60M''" "[''/mnt/user'']" "[]" 40]
  by (simp add: is_whitespace_def)

lemma disk_size_fields_table_witness:
  "disk_total_transform
     (''Filesystem 1M-blocks Used Available Use% Mounted on'' @ CHR 0x0A #
      join_with CHR '' '' [''shfs'', ''100M'', ''40M'', ''60M'', show_nat 40 @ ''%'', ''/mnt/user'']) =
   Some ''100M''"
  using Transforms.disk_size_fields_table
    [of "''Filesystem 1M-blocks Used Available Use% Mounted on''" "''shfs''" "''100M''" "''40M''"
        "''60M''" "[''/mnt/user'']" "[]" 40]
  by (simp add: is_whitespace_def)

lemma parse_array_status_lines_witness:
  "parse_array_status (unlines ([''mdResync=0''] @ (''mdState='' @ ''STARTED'') # [''sbName=/boot''])) =
   Some ''STARTED''"
  using Transforms.parse_array_status_lines [of "[''mdResync=0'']" "''STARTED''" "[''sbName=/boot'']"]
  by simp

lemma cpu_temp_reading_witness:
  "cpu_temp_transform (unlines ([''coretemp-isa-0000''] @ join_with CHR '' ''
      (''Package'' # ''id'' # ''0:'' # (CHR ''+'' # show_nat 45 @ CHR ''.'' # digit_char 0 # degree_c)
       # [''(high'', ''='', ''+80.0C)'']) # [''Core 0: +43.0C''])) =
   Some (show_nat 45 @ CHR ''.'' # [digit_char 0])"
  using Transforms.cpu_temp_reading [of "[''coretemp-isa-0000'']" "[''Core 0: +43.0C'']"
      "[''(high'', ''='', ''+80.0C)'']" 0 45]
  by (simp add: is_whitespace_def sublist_code)

lemma discovery_pass_rejected_witness:
  "fst (publish_discovery (ex_app False) (ex_env True) True (ex_state\<lparr>link := [False]\<rparr>)) = Inl Transport \<and>
   log (snd (publish_discovery (ex_app False) (ex_env True) True (ex_state\<lparr>link := [False]\<rparr>))) = []"
proof -
  let ?p = "publish_discovery (ex_app False) (ex_env True) True (ex_state\<lparr>link := [False]\<rparr>)"
  have h1: "fst ?p = Inl Transport"
    unfolding publish_discovery_def sensors_of_def ex_app_def ex_state_def ex_env_def ex_container_def
    by code_simp
  then have h: "?p = (Inl Transport, snd ?p)" by (metis prod.collapse)
  show ?thesis using Publisher.discovery_pass_rejected [OF _ h] h1 by (simp add: ex_app_def ex_state_def)
qed

lemma one_query_per_cell_witness:
  "cell_queries 0 (snd (publish_stats (ex_app True) (ex_env True) False ex_state)) \<le> cell_queries 0 ex_state + 1"
proof -
  have "cell_ok (ex_env True) 0 (sensors_of (ex_app True) (ex_env True))"
    unfolding sensors_of_def ex_app_def ex_env_def ex_container_def by code_simp
  then show ?thesis by (rule Publisher.one_query_per_cell)
qed

lemma memory_usage_zero_total_witness: "system_get_value (ex_env False) MemoryUsage = Some ''NaN''"
  using Reporters.memory_usage_zero_total [of "ex_env False"] by (simp add: ex_env_def)

lemma stats_pass_messages_witness:
  "\<exists>ms. log (snd (publish_stats (ex_app False) (ex_env True) True ex_state)) = log ex_state @ ms \<and>
        length ms \<le> length (filter (\<lambda>x. \<not> s_disabled x) (sensors_of (ex_app False) (ex_env True))) \<and>
        (\<forall>m \<in> set ms. state_message (ex_app False) (sensors_of (ex_app False) (ex_env True)) m)"
  by (rule Publisher.stats_pass_messages [of "ex_app False" "ex_env True" True ex_state])

lemma images_size_wraps_witness:
  "docker_get_value ((ex_env True)\<lparr>image_sizes := Some [0x7FFFFFFFFFFFFFFF, 1]\<rparr>) ImagesSize =
     Some (show_int (- (2 ^ 63)))"
  using Reporters.images_size_wraps [of "(ex_env True)\<lparr>image_sizes := Some [0x7FFFFFFFFFFFFFFF, 1]\<rparr>"]
  by simp

lemma disk_total_reports_blocks_witness:
  "\<exists>x r. find (\<lambda>s. s_id s = ''disk_total'') builtin_sensors = Some x \<and> s_unit x = Some ''B'' \<and>
     s_reporter x = Some (Command r) \<and> command r = ''df'' \<and> args r = Some [''/mnt/user''] \<and>
     command_get_value r (Some (''Filesystem 1K-blocks Used Available Use% Mounted on'' @ CHR 0x0A #
       ''shfs 976762584 488381292 488381292 50% /mnt/user'' @ [CHR 0x0A])) = Some ''976762584''"
proof (rule disk_total_reports_blocks)
  show "trim (''Filesystem 1K-blocks Used Available Use% Mounted on'' @ CHR 0x0A #
          ''shfs 976762584 488381292 488381292 50% /mnt/user'' @ [CHR 0x0A]) =
        ''Filesystem 1K-blocks Used Available Use% Mounted on'' @ CHR 0x0A #
          join_with CHR '' '' (''shfs'' # ''976762584'' # ''488381292'' # ''488381292'' # (show_nat 50 @ ''%'') # [''/mnt/user'']) @ []"
    by code_simp
qed (simp_all add: is_whitespace_def)

lemma extract_number_char_witness: "post_apply ExtractNumber ''3.5 GB'' = Some ''35''"
proof -
  have "post_apply ExtractNumber ''3.5 GB'' =
          (if filter is_numeric ''3.5 GB'' = [] then None
           else Some (show_nat (digits_nat (filter is_numeric ''3.5 GB''))))"
    by (rule Transforms.extract_number_char) (simp_all add: is_numeric_def)
  also have "\<dots> = Some ''35''" by code_simp
  finally show ?thesis .
qed

lemma failed_stats_requery_witness:
  "cell_queries 0 (snd (publish_stats (ex_app True) (ex_env False) False ex_state)) = 3"
proof -
  have "cell_queries 0 (snd (publish_stats (ex_app True) (ex_env False) False ex_state)) =
          cell_queries 0 ex_state + cell_readers 0 (sensors_of (ex_app True) (ex_env False)) \<and>
        (sensor_config (ex_app True) = None \<longrightarrow> cell_readers 0 (sensors_of (ex_app True) (ex_env False)) = 3)"
    by (rule StatsPass.failed_stats_requery [where l = "[ex_container]" and cid = "''abc123''"])
       (simp_all add: ex_env_def ex_state_def ex_container_def)
  then show ?thesis by (simp add: ex_app_def ex_state_def cell_queries_def)
qed

lemma reporter_error_only_panic_witness:
  "fst (reporter_get_value (ex_env True) (DockerContainer (ex_container\<lparr>cs_id := None\<rparr>) 0 ContainerStatus) ex_state) =
     Inl (Panic ''called `Option::unwrap()` on a `None` value'') \<and>
   (\<exists>c r stat. DockerContainer (ex_container\<lparr>cs_id := None\<rparr>) 0 ContainerStatus = DockerContainer c r stat \<and>
      cs_id c = None \<and> stash ex_state r = None)"
proof -
  have h: "fst (reporter_get_value (ex_env True) (DockerContainer (ex_container\<lparr>cs_id := None\<rparr>) 0 ContainerStatus) ex_state) =
     Inl (Panic ''called `Option::unwrap()` on a `None` value'')"
    by (simp add: reporter_get_value_def container_no_id ex_state_def)
  show ?thesis using h Reporters.reporter_error_only_panic [OF h] by blast
qed

lemma images_size_exact_witness:
  "docker_get_value ((ex_env True)\<lparr>image_sizes := Some [1, 2]\<rparr>) ImagesSize = Some (show_int 3)"
  using Reporters.images_size_exact [of "(ex_env True)\<lparr>image_sizes := Some [1, 2]\<rparr>" "[1, 2]"] by simp

lemma status_needs_stats_witness:
  "fst (container_get_value (ex_env False) ex_container 0 ContainerStatus ex_state) = Inr None"
  using Reporters.status_needs_stats [of ex_state 0 ex_container "''abc123''" "ex_env False"]
  by (simp add: ex_state_def ex_container_def ex_env_def)

lemma reporter_stash_mono_witness:
  "stash (snd (reporter_get_value (ex_env False) (DockerContainer ex_container 0 ContainerCpuUsage)
      (ex_state\<lparr>stash := (\<lambda>_. Some (sample 150 100 1100 1000 4))\<rparr>))) 0 = Some (sample 150 100 1100 1000 4)"
  using Reporters.reporter_stash_mono [of "ex_state\<lparr>stash := (\<lambda>_. Some (sample 150 100 1100 1000 4))\<rparr>" 0]
  by simp

lemma version_roundtrip_witness:
  "json_get (get_device_info ''tower''
     (Some (unlines ([''NAME=unraid''] @ (''version='' @ CHR 0x22 # ''6.12.4'' @ [CHR 0x22]) # []))))
     ''sw_version'' = Some (JStr ''6.12.4'')"
  by (rule Device.version_roundtrip) simp_all

lemma discovery_pass_accepted_witness:
  "publish_discovery (ex_app False) (ex_env True) True ex_state =
     (Inr (), ex_state\<lparr>log := log ex_state @
        discovery_messages (ex_app False) (get_device_info (device_name (ex_app False)) (version_file (ex_env True)))
          (sensors_of (ex_app False) (ex_env True)),
      link := drop (length (filter (\<lambda>x. \<not> s_disabled x) (sensors_of (ex_app False) (ex_env True)))) (link ex_state)\<rparr>)"
  by (rule Publisher.discovery_pass_accepted) (simp_all add: ex_app_def ex_state_def)


lemma main_json_never_transport_witness:
  "fst (main_run (ex_args\<lparr>a_json_output := True\<rparr>) (ex_env True) ex_state) \<noteq> Inl Transport"
  by (rule Publisher.main_json_never_transport) (simp_all add: ex_args_def)

lemma mqtt_config_from_args_witness:
  "from_args_and_file (ex_args\<lparr>a_host := Some ''broker''\<rparr>) 42 =
     Inr \<lparr>m_host = ''broker'', m_port = 1883, m_client_id = ''unraid-mqtt-stats-'' @ show_nat 42,
          m_username = [], m_password = []\<rparr>"
  using MqttConfig.mqtt_config_from_args [of "ex_args\<lparr>a_host := Some ''broker''\<rparr>" "''broker''" 42]
  by (simp add: ex_args_def)

lemma event_loop_ends_witness:
  "event_loop (\<lambda>i. i < 3) 0 = Some 3"
proof -
  obtain m where m: "event_loop (\<lambda>i. i < 3) 0 = Some m" "m \<le> 3" "\<not> m < (3::nat)"
    using EventLoop.event_loop_ends [of 0 3 "\<lambda>i. i < 3"] by auto
  then show ?thesis by simp
qed

lemma event_loop_runs_witness: "event_loop (\<lambda>_. True) 0 = None"
  using EventLoop.event_loop_runs [of 0 "\<lambda>_. True"] by simp

lemma dump_reapply_witness:
  "apply_config (Some (load_dump_as_config (dump_sensors builtin_sensors))) builtin_sensors = builtin_sensors"
proof (rule Dump.dump_reapply)
  show "distinct (map s_id builtin_sensors)" by (simp add: builtin_ids)
  show "\<forall>s \<in> set builtin_sensors. \<not> sublist ''_*_'' (s_id s)"
    by (simp add: builtin_sensors_def default_sensor_def sublist_code)
qed

lemma main_dump_replay_witness:
  "main_run (ex_args\<lparr>a_sensor_dump := Some ''dump.toml''\<rparr>) (ex_env True) ex_state =
     (if dump_writes (ex_env True)
      then (Inr (), ex_state\<lparr>log := log ex_state @ [DumpFile ''dump.toml'' (dump_table (projr (new_app (ex_args\<lparr>a_sensor_dump := Some ''dump.toml''\<rparr>) (ex_env True))) (ex_env True))]\<rparr>)
      else (Inl Io, ex_state)) \<and>
   (\<exists>st'. new_app ((ex_args\<lparr>a_sensor_dump := Some ''dump.toml''\<rparr>)\<lparr>a_config_file := Some ''dump.toml'', a_sensor_dump := None\<rparr>)
                    ((ex_env True)\<lparr>config_file := Some (Some (dump_config_table (dump_table (projr (new_app (ex_args\<lparr>a_sensor_dump := Some ''dump.toml''\<rparr>) (ex_env True))) (ex_env True))))\<rparr>) = Inr st' \<and>
          sensors_of st' ((ex_env True)\<lparr>config_file := Some (Some (dump_config_table (dump_table (projr (new_app (ex_args\<lparr>a_sensor_dump := Some ''dump.toml''\<rparr>) (ex_env True))) (ex_env True))))\<rparr>) = sensors_of (projr (new_app (ex_args\<lparr>a_sensor_dump := Some ''dump.toml''\<rparr>) (ex_env True))) (ex_env True))"
proof -
  have h: "new_app (ex_args\<lparr>a_sensor_dump := Some ''dump.toml''\<rparr>) (ex_env True) = Inr (projr (new_app (ex_args\<lparr>a_sensor_dump := Some ''dump.toml''\<rparr>) (ex_env True)))"
    by (simp add: new_app_def ex_args_def ex_env_def)
  have s: "sensors_of (projr (new_app (ex_args\<lparr>a_sensor_dump := Some ''dump.toml''\<rparr>) (ex_env True))) (ex_env True) = catalog ''tower'' (Some [ex_container])"
    by (simp add: new_app_def ex_args_def ex_env_def sensors_of_def unraid_sensors_def apply_config_def)
  show ?thesis
  proof (rule Program.main_dump_replay [OF h])
    show "distinct (map s_id (sensors_of (projr (new_app (ex_args\<lparr>a_sensor_dump := Some ''dump.toml''\<rparr>) (ex_env True))) (ex_env True)))"
      unfolding s by code_simp
    show "\<forall>x \<in> set (sensors_of (projr (new_app (ex_args\<lparr>a_sensor_dump := Some ''dump.toml''\<rparr>) (ex_env True))) (ex_env True)). \<not> sublist ''_*_'' (s_id x)"
      unfolding s by code_simp
  qed (simp_all add: ex_args_def)
qed

lemma stats_pass_refines_witness:
  "fst (publish_stats (ex_app False) (ex_env True) True ex_state) = Inr () \<and>
   log (snd (publish_stats (ex_app False) (ex_env True) True ex_state)) =
     log ex_state @ stats_reference (ex_app False) (ex_env True) True (sensors_of (ex_app False) (ex_env True))"
  by (rule StatsPass.stats_pass_refines) (simp_all add: ex_state_def ex_env_def ex_container_def)

lemma main_run_refines_witness:
  "fst (main_run (ex_args\<lparr>a_host := Some ''broker''\<rparr>) (ex_env True) ex_state) = Inr () \<and>
   log (snd (main_run (ex_args\<lparr>a_host := Some ''broker''\<rparr>) (ex_env True) ex_state)) =
     log ex_state @ run_reference (projr (new_app (ex_args\<lparr>a_host := Some ''broker''\<rparr>) (ex_env True))) (ex_env True)
                     (\<not> a_json_output (ex_args\<lparr>a_host := Some ''broker''\<rparr>))"
proof -
  have h: "new_app (ex_args\<lparr>a_host := Some ''broker''\<rparr>) (ex_env True) =
             Inr (projr (new_app (ex_args\<lparr>a_host := Some ''broker''\<rparr>) (ex_env True)))"
    by (simp add: new_app_def ex_args_def ex_env_def)
  show ?thesis
    by (rule Program.main_run_refines [OF h]) (simp_all add: ex_args_def ex_state_def ex_env_def ex_container_def)
qed

end
